(* ===== verification/DT_Prelude.thy ===== *)
theory DT_Prelude
  imports Complex_Main
begin

text \<open>
  Shared vocabulary of the development: the Python exceptions that numpy, scipy, the
  \<open>assert\<close> statements and the interpreter (a call with the wrong number of
  arguments, an undefined name, a missing dictionary key) raise in \<open>src/DeformationTransfer.py\<close>, the result type
  \<open>py_error + 'a\<close> with its bind, the traversal \<open>mapE\<close> that models a Python
  \<open>for\<close> loop whose body may raise, numpy fancy indexing (\<open>gather\<close>) and numpy
  broadcasting in slice assignments (\<open>broadcast\<close>).  The collection \<open>dt_simps\<close>
  holds the unfolding facts the component theories use to evaluate the model on
  concrete meshes.
\<close>

named_theorems dt_simps "equations that evaluate the model on concrete inputs"

datatype py_error = IndexError | ValueError | LinAlgError | AssertionError | TypeError | NameError | KeyError

type_synonym 'a result = "py_error + 'a"

definition bindE :: "'a result \<Rightarrow> ('a \<Rightarrow> 'b result) \<Rightarrow> 'b result" where
  "bindE m f = (case m of Inl e \<Rightarrow> Inl e | Inr x \<Rightarrow> f x)"

text \<open>A Python loop over a list whose body may raise: the first exception aborts it.\<close>

fun mapE :: "('a \<Rightarrow> 'b result) \<Rightarrow> 'a list \<Rightarrow> 'b list result" where
  "mapE f [] = Inr []"
| "mapE f (x # xs) = bindE (f x) (\<lambda>y. bindE (mapE f xs) (\<lambda>ys. Inr (y # ys)))"

text \<open>
  numpy fancy indexing \<open>a[idx]\<close> with an index array: every index must be in range,
  otherwise \<open>IndexError\<close> (indices here are \<open>nat\<close>, so the negative ones numpy
  would wrap do not arise).
\<close>

definition gather :: "'a list \<Rightarrow> nat list \<Rightarrow> 'a list result" where
  "gather xs idx =
     (if list_all (\<lambda>i. i < length xs) idx then Inr (map (nth xs) idx) else Inl IndexError)"

text \<open>
  The right-hand side of a numpy slice assignment \<open>a[:, k] = v\<close> into a slice of
  length \<open>n\<close>: \<open>v\<close> must have length \<open>n\<close>, or length 1 (broadcast); any other
  length raises \<open>ValueError\<close>.
\<close>

definition broadcast :: "nat \<Rightarrow> 'a list \<Rightarrow> 'a list result" where
  "broadcast n xs =
     (if length xs = n then Inr xs
      else if length xs = 1 then Inr (replicate n (hd xs))
      else Inl ValueError)"

text \<open>
  numpy indexing \<open>a[i]\<close> along the first axis with a Python \<open>int\<close>: a negative index
  counts from the end; an index outside \<open>[-n, n)\<close> raises \<open>IndexError\<close>.
\<close>

definition np_index :: "'a list \<Rightarrow> int \<Rightarrow> 'a result" where
  "np_index xs i =
     (if 0 \<le> i \<and> i < int (length xs) then Inr (xs ! nat i)
      else if - int (length xs) \<le> i \<and> i < 0 then Inr (xs ! nat (i + int (length xs)))
      else Inl IndexError)"

text \<open>Python's subscript \<open>d[k]\<close> on a dictionary, such as the one \<open>scipy.io.loadmat\<close>
  returns: a missing key raises \<open>KeyError\<close>.\<close>

definition dict_get :: "(string \<Rightarrow> 'a option) \<Rightarrow> string \<Rightarrow> 'a result" where
  "dict_get d k = (case d k of None \<Rightarrow> Inl KeyError | Some v \<Rightarrow> Inr v)"

text \<open>numpy column selection \<open>T[:, k]\<close> on an index array whose rows are lists.\<close>

definition col_sel :: "nat list list \<Rightarrow> nat \<Rightarrow> nat list" where
  "col_sel T k = map (\<lambda>t. t ! k) T"

subsection \<open>Lemmas on the result type\<close>

lemma bindE_Inl [simp, dt_simps]: "bindE (Inl e) f = Inl e"
  by (simp add: bindE_def)

lemma bindE_Inr [simp, dt_simps]: "bindE (Inr x) f = f x"
  by (simp add: bindE_def)

lemma bindE_eq_Inr_iff: "bindE m f = Inr y \<longleftrightarrow> (\<exists>x. m = Inr x \<and> f x = Inr y)"
  by (cases m) auto

lemma bindE_eq_Inl_iff:
  "bindE m f = Inl e \<longleftrightarrow> m = Inl e \<or> (\<exists>x. m = Inr x \<and> f x = Inl e)"
  by (cases m) auto

lemma bindE_cong_Inr: "m = Inr x \<Longrightarrow> bindE m f = f x"
  by simp

lemma mapE_eq_Inr_iff: "mapE f xs = Inr ys \<longleftrightarrow> list_all2 (\<lambda>x y. f x = Inr y) xs ys"
proof (induction xs arbitrary: ys)
  case Nil
  then show ?case by auto
next
  case (Cons x xs)
  show ?case
    by (cases ys) (auto simp: bindE_eq_Inr_iff Cons.IH)
qed

lemma mapE_length: "mapE f xs = Inr ys \<Longrightarrow> length ys = length xs"
  by (simp add: mapE_eq_Inr_iff list_all2_lengthD)

lemma mapE_nth: "mapE f xs = Inr ys \<Longrightarrow> i < length xs \<Longrightarrow> f (xs ! i) = Inr (ys ! i)"
  by (simp add: mapE_eq_Inr_iff list_all2_conv_all_nth)

lemma mapE_map: "(\<And>x. x \<in> set xs \<Longrightarrow> f x = Inr (g x)) \<Longrightarrow> mapE f xs = Inr (map g xs)"
  by (induction xs) auto

lemma mapE_cong:
  "xs = ys \<Longrightarrow> (\<And>x. x \<in> set ys \<Longrightarrow> f x = g x) \<Longrightarrow> mapE f xs = mapE g ys"
  by (induction ys arbitrary: xs) auto

lemma mapE_map_arg: "mapE f (map g xs) = mapE (\<lambda>x. f (g x)) xs"
  by (induction xs) auto

lemma mapE_upt_nth: "mapE (\<lambda>i. f (xs ! i)) [0..<length xs] = mapE f xs"
  by (metis map_nth mapE_map_arg)

lemma mapE_Inl_ex: "mapE f xs = Inl e \<Longrightarrow> \<exists>x\<in>set xs. f x = Inl e"
proof (induction xs)
  case Nil
  then show ?case by simp
next
  case (Cons x xs)
  then show ?case
    by (cases "f x"; cases "mapE f xs") auto
qed

lemma mapE_Inl_if: "x \<in> set xs \<Longrightarrow> f x = Inl e' \<Longrightarrow> \<exists>e. mapE f xs = Inl e"
proof (induction xs)
  case Nil
  then show ?case by simp
next
  case (Cons y xs)
  then show ?case
    by (cases "f y"; cases "mapE f xs") auto
qed

lemma mapE_Inr_ex: "(\<And>x. x \<in> set xs \<Longrightarrow> \<exists>y. f x = Inr y) \<Longrightarrow> \<exists>ys. mapE f xs = Inr ys"
proof (induction xs)
  case Nil
  then show ?case by simp
next
  case (Cons x xs)
  then obtain y ys where "f x = Inr y" and "mapE f xs = Inr ys" by fastforce
  then show ?case by simp
qed

lemma gather_eq_Inr_iff:
  "gather xs idx = Inr ys \<longleftrightarrow> list_all (\<lambda>i. i < length xs) idx \<and> ys = map (nth xs) idx"
  by (auto simp: gather_def)

lemma gather_in_range [simp]:
  "list_all (\<lambda>i. i < length xs) idx \<Longrightarrow> gather xs idx = Inr (map (nth xs) idx)"
  by (simp add: gather_def)

lemma gather_out_of_range [simp]:
  "\<not> list_all (\<lambda>i. i < length xs) idx \<Longrightarrow> gather xs idx = Inl IndexError"
  by (simp add: gather_def)

lemma gather_bindE_IndexError [simp]: "bindE (gather xs idx) (\<lambda>_. Inl IndexError) = Inl IndexError"
  by (simp add: gather_def)

lemma broadcast_exact [simp]: "length xs = n \<Longrightarrow> broadcast n xs = Inr xs"
  by (simp add: broadcast_def)

lemma broadcast_length: "broadcast n xs = Inr ys \<Longrightarrow> length ys = n"
  by (auto simp: broadcast_def split: if_splits)

lemma broadcast_Inl: "broadcast n xs = Inl e \<longleftrightarrow> length xs \<noteq> n \<and> length xs \<noteq> 1 \<and> e = ValueError"
  by (auto simp: broadcast_def)

lemma length_col_sel [simp]: "length (col_sel T k) = length T"
  by (simp add: col_sel_def)

lemma nth_col_sel [simp]: "i < length T \<Longrightarrow> col_sel T k ! i = T ! i ! k"
  by (simp add: col_sel_def)

lemma col_sel_append [simp]: "col_sel (T @ U) k = col_sel T k @ col_sel U k"
  by (simp add: col_sel_def)

lemma col_sel_Cons [simp, dt_simps]: "col_sel (t # T) k = t ! k # col_sel T k"
  by (simp add: col_sel_def)

lemma col_sel_Nil [simp, dt_simps]: "col_sel [] k = []"
  by (simp add: col_sel_def)

lemma np_index_nat [simp]: "i < length xs \<Longrightarrow> np_index xs (int i) = Inr (xs ! i)"
  by (simp add: np_index_def)

lemma np_index_Inl: "np_index xs i = Inl e \<longleftrightarrow> (i < - int (length xs) \<or> int (length xs) \<le> i) \<and> e = IndexError"
  by (auto simp: np_index_def)

subsection \<open>Lists\<close>

lemma map2_map_nth:
  "length xs = length ys \<Longrightarrow> map2 f xs ys = map (\<lambda>i. f (xs ! i) (ys ! i)) [0..<length xs]"
  by (rule nth_equalityI) auto

lemma map2_map_map_same: "map2 f (map g xs) (map h xs) = map (\<lambda>x. f (g x) (h x)) xs"
  by (induction xs) auto

lemma list_all_col_sel: "list_all P (col_sel T k) \<longleftrightarrow> list_all (\<lambda>t. P (t ! k)) T"
  by (induction T) auto

lemma map_upt_nth: "map (\<lambda>i. f (xs ! i)) [0..<length xs] = map f xs"
  by (rule nth_equalityI) auto

lemma list_all_concat_map: "list_all P (concat (map f xs)) \<longleftrightarrow> list_all (\<lambda>x. list_all P (f x)) xs"
  by (induction xs) auto

lemma list_all_upt: "list_all P [0..<n] \<longleftrightarrow> (\<forall>i<n. P i)"
  by (auto simp: list_all_iff)

lemma sum_list_map_if_eq:
  "sum_list (map (\<lambda>x. if P x then f x else 0) xs) = sum_list (map f (filter P xs))"
  by (induction xs) auto

lemma all_less_add_split: "(\<forall>r<N + (K::nat). P r) \<longleftrightarrow> (\<forall>r<N. P r) \<and> (\<forall>a<K. P (N + a))"
proof safe
  fix r assume all: "\<forall>r<N. P r" "\<forall>a<K. P (N + a)" and r: "r < N + K"
  show "P r"
  proof (cases "r < N")
    case False
    then have "r = N + (r - N)" "r - N < K" using r by auto
    then show ?thesis using all(2) by metis
  qed (use all in auto)
qed auto

lemma all_less_four: "(\<forall>k<4. P k) \<longleftrightarrow> P 0 \<and> P 1 \<and> P 2 \<and> P (3::nat)"
  by (auto simp: less_Suc_eq numeral_3_eq_3 numeral_2_eq_2 eval_nat_numeral)

lemma all_less_three: "(\<forall>k<3. P k) \<longleftrightarrow> P 0 \<and> P 1 \<and> P (2::nat)"
  by (auto simp: less_Suc_eq numeral_3_eq_3 numeral_2_eq_2)

end
