(* ===== verification/LinAlg.thy ===== *)
theory LinAlg
  imports DT_Prelude
begin

text \<open>
  The dense 3-dimensional linear algebra the source does with numpy on rows of
  \<open>N \<times> 3\<close> arrays and on \<open>3 \<times> 3\<close> matrices.  A row of a position array is a
  \<open>vec3\<close> (an instance of \<open>ab_group_add\<close>, so numpy's row-wise \<open>+\<close> and
  \<open>-\<close> are HOL's); a \<open>3 \<times> 3\<close> array is a \<open>mat3\<close> given by its three rows,
  as \<open>np.vstack\<close> builds it.  \<open>np.linalg.inv\<close> is \<open>inv3\<close>: it raises
  \<open>LinAlgError\<close> on a singular matrix and returns the adjugate divided by the
  determinant otherwise.  Python floats are modelled as \<open>real\<close>: the development
  reasons about the exact-arithmetic algorithm, not about rounding.
\<close>

datatype vec3 = Vec3 real real real

instantiation vec3 :: ab_group_add
begin

definition zero_vec3 :: vec3 where
  "zero_vec3 = Vec3 0 0 0"

fun plus_vec3 :: "vec3 \<Rightarrow> vec3 \<Rightarrow> vec3" where
  "plus_vec3 (Vec3 a b c) (Vec3 d e f) = Vec3 (a + d) (b + e) (c + f)"

fun minus_vec3 :: "vec3 \<Rightarrow> vec3 \<Rightarrow> vec3" where
  "minus_vec3 (Vec3 a b c) (Vec3 d e f) = Vec3 (a - d) (b - e) (c - f)"

fun uminus_vec3 :: "vec3 \<Rightarrow> vec3" where
  "uminus_vec3 (Vec3 a b c) = Vec3 (- a) (- b) (- c)"

instance
proof
  fix x y z :: vec3
  show "x + y + z = x + (y + z)" by (cases x; cases y; cases z) simp
  show "x + y = y + x" by (cases x; cases y) simp
  show "0 + x = x" by (cases x) (simp add: zero_vec3_def)
  show "- x + x = 0" by (cases x) (simp add: zero_vec3_def)
  show "x - y = x + - y" by (cases x; cases y) simp
qed

end

text \<open>\<open>v[k]\<close> for a row \<open>v\<close> of a position array, \<open>k < 3\<close>.\<close>

fun coord :: "nat \<Rightarrow> vec3 \<Rightarrow> real" where
  "coord k (Vec3 a b c) = (if k = 0 then a else if k = 1 then b else c)"

text \<open>\<open>v[k] = x\<close>.\<close>

fun set_coord :: "nat \<Rightarrow> real \<Rightarrow> vec3 \<Rightarrow> vec3" where
  "set_coord k x (Vec3 a b c) =
     (if k = 0 then Vec3 x b c else if k = 1 then Vec3 a x c else Vec3 a b x)"

fun vscale :: "real \<Rightarrow> vec3 \<Rightarrow> vec3" where
  "vscale s (Vec3 a b c) = Vec3 (s * a) (s * b) (s * c)"

text \<open>numpy's division of a row by a broadcast scalar, \<open>v / s\<close>.\<close>

fun vdiv :: "vec3 \<Rightarrow> real \<Rightarrow> vec3" where
  "vdiv (Vec3 a b c) s = Vec3 (a / s) (b / s) (c / s)"

text \<open>\<open>np.sum(a * b)\<close> on two rows.\<close>

fun dot :: "vec3 \<Rightarrow> vec3 \<Rightarrow> real" where
  "dot (Vec3 a b c) (Vec3 d e f) = a * d + b * e + c * f"

text \<open>\<open>np.cross\<close> on two rows.\<close>

fun cross :: "vec3 \<Rightarrow> vec3 \<Rightarrow> vec3" where
  "cross (Vec3 a b c) (Vec3 d e f) = Vec3 (b * f - c * e) (c * d - a * f) (a * e - b * d)"

text \<open>\<open>np.sqrt(np.sum(v ** 2))\<close>, the Euclidean length of a row.\<close>

definition vnorm :: "vec3 \<Rightarrow> real" where
  "vnorm v = sqrt (dot v v)"

datatype mat3 = Mat3 vec3 vec3 vec3

text \<open>\<open>M[j, k]\<close>.\<close>

fun mentry :: "mat3 \<Rightarrow> nat \<Rightarrow> nat \<Rightarrow> real" where
  "mentry (Mat3 r0 r1 r2) j k = coord k (if j = 0 then r0 else if j = 1 then r1 else r2)"

text \<open>\<open>M.T\<close>.\<close>

fun mtranspose :: "mat3 \<Rightarrow> mat3" where
  "mtranspose (Mat3 (Vec3 a b c) (Vec3 d e f) (Vec3 g h i)) =
     Mat3 (Vec3 a d g) (Vec3 b e h) (Vec3 c f i)"

text \<open>\<open>np.vstack((a, b, c)).T\<close>: the matrix whose columns are \<open>a\<close>, \<open>b\<close>, \<open>c\<close>.\<close>

definition cols3 :: "vec3 \<Rightarrow> vec3 \<Rightarrow> vec3 \<Rightarrow> mat3" where
  "cols3 a b c = mtranspose (Mat3 a b c)"

fun mvmul :: "mat3 \<Rightarrow> vec3 \<Rightarrow> vec3" where
  "mvmul (Mat3 r0 r1 r2) v = Vec3 (dot r0 v) (dot r1 v) (dot r2 v)"

text \<open>\<open>np.dot(A, B)\<close> on \<open>3 \<times> 3\<close> arrays.\<close>

fun mmul :: "mat3 \<Rightarrow> mat3 \<Rightarrow> mat3" where
  "mmul (Mat3 r0 r1 r2) B =
     (let Bt = mtranspose B in Mat3 (mvmul Bt r0) (mvmul Bt r1) (mvmul Bt r2))"

definition mid :: mat3 where
  "mid = Mat3 (Vec3 1 0 0) (Vec3 0 1 0) (Vec3 0 0 1)"

fun mscale :: "real \<Rightarrow> mat3 \<Rightarrow> mat3" where
  "mscale s (Mat3 r0 r1 r2) = Mat3 (vscale s r0) (vscale s r1) (vscale s r2)"

fun det3 :: "mat3 \<Rightarrow> real" where
  "det3 (Mat3 (Vec3 a b c) (Vec3 d e f) (Vec3 g h i)) =
     a * (e * i - f * h) - b * (d * i - f * g) + c * (d * h - e * g)"

fun adj3 :: "mat3 \<Rightarrow> mat3" where
  "adj3 (Mat3 (Vec3 a b c) (Vec3 d e f) (Vec3 g h i)) =
     Mat3 (Vec3 (e * i - f * h) (c * h - b * i) (b * f - c * e))
          (Vec3 (f * g - d * i) (a * i - c * g) (c * d - a * f))
          (Vec3 (d * h - e * g) (b * g - a * h) (a * e - b * d))"

definition minv :: "mat3 \<Rightarrow> mat3" where
  "minv M = mscale (1 / det3 M) (adj3 M)"

text \<open>\<open>np.linalg.inv\<close>: \<open>LinAlgError("Singular matrix")\<close> when the matrix is singular.\<close>

definition inv3 :: "mat3 \<Rightarrow> mat3 result" where
  "inv3 M = (if det3 M = 0 then Inl LinAlgError else Inr (minv M))"

subsection \<open>Vectors\<close>

lemma zero_vec3_simp [simp]: "(0::vec3) = Vec3 0 0 0"
  by (simp add: zero_vec3_def)

lemma vec3_eq_coord: "u = v \<longleftrightarrow> coord 0 u = coord 0 v \<and> coord 1 u = coord 1 v \<and> coord 2 u = coord 2 v"
  by (cases u; cases v) auto

lemma coord_plus [simp]: "coord k (u + v) = coord k u + coord k v"
  by (cases u; cases v) auto

lemma coord_minus [simp]: "coord k (u - v) = coord k u - coord k v"
  by (cases u; cases v) auto

lemma coord_uminus [simp]: "coord k (- u) = - coord k u"
  by (cases u) auto

lemma coord_vscale [simp]: "coord k (vscale s u) = s * coord k u"
  by (cases u) auto

lemma coord_set_coord [simp]: "k < 3 \<Longrightarrow> j < 3 \<Longrightarrow> coord j (set_coord k x v) = (if j = k then x else coord j v)"
  by (cases v) auto

lemma vscale_plus: "vscale s (u + v) = vscale s u + vscale s v"
  by (cases u; cases v) (simp add: algebra_simps)

lemma vscale_minus: "vscale s (u - v) = vscale s u - vscale s v"
  by (cases u; cases v) (simp add: algebra_simps)

lemma dot_comm: "dot u v = dot v u"
  by (cases u; cases v) (simp add: algebra_simps)

lemma dot_cross_self1 [simp]: "dot u (cross u v) = 0"
  by (cases u; cases v) (simp add: algebra_simps)

lemma dot_cross_self2 [simp]: "dot v (cross u v) = 0"
  by (cases u; cases v) (simp add: algebra_simps)

lemma dot_self_nonneg: "0 \<le> dot u u"
  by (cases u) simp

lemma dot_self_eq_0: "dot u u = 0 \<longleftrightarrow> u = 0"
  by (cases u) (simp add: add_nonneg_eq_0_iff)

lemma vnorm_pos: "u \<noteq> 0 \<Longrightarrow> 0 < vnorm u"
  using dot_self_nonneg [of u] dot_self_eq_0 [of u] by (simp add: vnorm_def)

lemma dot_vdiv: "dot u (vdiv v s) = dot u v / s"
  by (cases u; cases v) (simp add: add_divide_distrib)

lemma vdiv_self_norm: "u \<noteq> 0 \<Longrightarrow> dot (vdiv u (vnorm u)) (vdiv u (vnorm u)) = 1"
proof -
  assume "u \<noteq> 0"
  then have pos: "0 < dot u u"
    using dot_self_nonneg [of u] dot_self_eq_0 [of u] by linarith
  have "dot (vdiv u (vnorm u)) (vdiv u (vnorm u)) = dot u u / (vnorm u * vnorm u)"
    by (simp add: dot_vdiv dot_comm [of "vdiv u _"])
  also have "vnorm u * vnorm u = dot u u"
    using pos by (simp add: vnorm_def)
  finally show ?thesis using pos by simp
qed

lemma cross_minus_left: "cross (u - w) (v - w) = cross u v - cross u w - cross w v"
  by (cases u; cases v; cases w) (simp add: algebra_simps)

lemma cross_translate: "cross ((u + c) - (w + c)) ((v + c) - (w + c)) = cross (u - w) (v - w)"
  by simp

text \<open>Lagrange's identity: \<open>|u \<times> v|\<^sup>2 + (u \<cdot> v)\<^sup>2 = |u|\<^sup>2 |v|\<^sup>2\<close>.\<close>

lemma lagrange_identity: "dot (cross u v) (cross u v) + (dot u v)\<^sup>2 = dot u u * dot v v"
  by (cases u; cases v) (simp add: algebra_simps power2_eq_square)

subsection \<open>Matrices\<close>

lemma mat3_eq_entries:
  "A = B \<longleftrightarrow> (\<forall>j<3. \<forall>k<3. mentry A j k = mentry B j k)"
proof
  assume "\<forall>j<3. \<forall>k<3. mentry A j k = mentry B j k"
  then have h: "\<And>j k. j < 3 \<Longrightarrow> k < 3 \<Longrightarrow> mentry A j k = mentry B j k" by blast
  obtain a0 a1 a2 where A: "A = Mat3 a0 a1 a2" by (cases A)
  obtain b0 b1 b2 where B: "B = Mat3 b0 b1 b2" by (cases B)
  have "a0 = b0" "a1 = b1" "a2 = b2"
    using h [of 0 0] h [of 0 1] h [of 0 2] h [of 1 0] h [of 1 1] h [of 1 2]
      h [of 2 0] h [of 2 1] h [of 2 2]
    by (simp_all add: A B vec3_eq_coord)
  then show "A = B" by (simp add: A B)
qed simp

lemma mat3_cases9:
  obtains a b c d e f g h i where "M = Mat3 (Vec3 a b c) (Vec3 d e f) (Vec3 g h i)"
  by (metis mat3.exhaust vec3.exhaust)

lemma mentry_mtranspose [simp]: "j < 3 \<Longrightarrow> k < 3 \<Longrightarrow> mentry (mtranspose M) j k = mentry M k j"
  by (cases M rule: mat3_cases9) (auto simp: less_Suc_eq numeral_3_eq_3)

lemma mentry_mmul:
  "mentry (mmul A B) j k =
     mentry A j 0 * mentry B 0 k + mentry A j 1 * mentry B 1 k + mentry A j 2 * mentry B 2 k"
  by (cases A rule: mat3_cases9; cases B rule: mat3_cases9) (auto simp: Let_def)

lemma mentry_cols3 [simp]:
  "mentry (cols3 a b c) j k = coord j (if k = 0 then a else if k = 1 then b else c)"
  by (cases a; cases b; cases c) (auto simp: cols3_def)

lemma mentry_mid: "j < 3 \<Longrightarrow> k < 3 \<Longrightarrow> mentry mid j k = (if j = k then 1 else 0)"
  by (auto simp: mid_def less_Suc_eq numeral_3_eq_3)

lemma mmul_assoc: "mmul (mmul A B) C = mmul A (mmul B C)"
  by (simp add: mat3_eq_entries mentry_mmul algebra_simps)

lemma mmul_adj3: "mmul M (adj3 M) = mscale (det3 M) mid"
proof (cases M)
  case (Mat3 r0 r1 r2)
  then show ?thesis
    by (cases r0; cases r1; cases r2) (simp add: mid_def algebra_simps)
qed

lemma adj3_mmul: "mmul (adj3 M) M = mscale (det3 M) mid"
proof (cases M)
  case (Mat3 r0 r1 r2)
  then show ?thesis
    by (cases r0; cases r1; cases r2) (simp add: mid_def algebra_simps)
qed

lemma mentry_mscale [simp]: "mentry (mscale s A) j k = s * mentry A j k"
  by (cases A) auto

lemma mscale_mscale: "mscale s (mscale t A) = mscale (s * t) A"
  by (simp add: mat3_eq_entries)

lemma mscale_one: "mscale 1 A = A"
  by (simp add: mat3_eq_entries)

lemma mmul_mscale_right: "mmul A (mscale s B) = mscale s (mmul A B)"
  by (simp add: mat3_eq_entries mentry_mmul algebra_simps)

lemma mmul_mscale_left: "mmul (mscale s A) B = mscale s (mmul A B)"
  by (simp add: mat3_eq_entries mentry_mmul algebra_simps)

lemma mmul_minv: "det3 M \<noteq> 0 \<Longrightarrow> mmul M (minv M) = mid"
  by (simp add: minv_def mmul_mscale_right mmul_adj3 mscale_mscale mscale_one)

lemma minv_mmul: "det3 M \<noteq> 0 \<Longrightarrow> mmul (minv M) M = mid"
  by (simp add: minv_def mmul_mscale_left adj3_mmul mscale_mscale mscale_one)

lemma mmul_mid_right [simp]: "mmul A mid = A"
  by (cases A rule: mat3_cases9) (simp add: mid_def)

lemma mmul_mid_left [simp]: "mmul mid A = A"
  by (cases A rule: mat3_cases9) (simp add: mid_def)

lemma mmul_right_cancel:
  assumes "det3 V \<noteq> 0" and "mmul A (minv V) = mmul B (minv V)"
  shows "A = B"
proof -
  have "A = mmul (mmul A (minv V)) V"
    using assms(1) by (simp add: mmul_assoc minv_mmul)
  also have "\<dots> = mmul (mmul B (minv V)) V"
    using assms(2) by simp
  also have "\<dots> = B"
    using assms(1) by (simp add: mmul_assoc minv_mmul)
  finally show ?thesis .
qed

text \<open>The determinant of the matrix with columns \<open>a, b, c\<close> is the triple product.\<close>

lemma det3_cols3: "det3 (cols3 a b c) = dot c (cross a b)"
  by (cases a; cases b; cases c) (simp add: cols3_def algebra_simps)

lemma inv3_Inr: "det3 M \<noteq> 0 \<Longrightarrow> inv3 M = Inr (minv M)"
  by (simp add: inv3_def)

lemma inv3_Inl: "det3 M = 0 \<Longrightarrow> inv3 M = Inl LinAlgError"
  by (simp add: inv3_def)

end
