(* ===== verification/Sparse.thy ===== *)
theory Sparse
  imports LinAlg
begin

text \<open>
  scipy's sparse matrices as the source builds them: three parallel lists of row
  indices, column indices and values passed to \<open>sparse.coo_matrix((V, (I, J)), shape)\<close>.
  The record \<open>sparse\<close> keeps the shape and the triplets in the order the code appends
  them.  Duplicate \<open>(row, column)\<close> pairs are summed, which is what \<open>tentry\<close> (the
  abstraction to a dense matrix), \<open>row_dot\<close> (one row of \<open>A.dot(x)\<close>, with \<open>mulvec\<close>
  the whole product and \<open>mulvec3\<close> the product with an \<open>N \<times> 3\<close> array) and
  \<open>row_sum\<close> (\<open>A.sum(1)\<close>) compute;
  \<open>.tocsr()\<close> and \<open>.tocoo()\<close> change only the storage, not these values, so they
  are not separate operations of the model.  The constructor checks what scipy checks:
  equal lengths of the three lists and every index inside the shape, else
  \<open>ValueError\<close>.
\<close>

type_synonym triplet = "nat \<times> nat \<times> real"

record sparse =
  nrows :: nat
  ncols :: nat
  trips :: "triplet list"

definition coo_matrix :: "real list \<Rightarrow> nat list \<Rightarrow> nat list \<Rightarrow> nat \<times> nat \<Rightarrow> sparse result" where
  "coo_matrix V I J shape =
     (case shape of (m, n) \<Rightarrow>
        if length I \<noteq> length J \<or> length J \<noteq> length V then Inl ValueError
        else if list_all (\<lambda>i. i < m) I \<and> list_all (\<lambda>j. j < n) J
        then Inr \<lparr>nrows = m, ncols = n, trips = zip I (zip J V)\<rparr>
        else Inl ValueError)"

text \<open>Entry \<open>(i, j)\<close> of the matrix the triplets denote: duplicates are summed.\<close>

definition tentry :: "triplet list \<Rightarrow> nat \<Rightarrow> nat \<Rightarrow> real" where
  "tentry ts i j = sum_list (map (\<lambda>(r, c, v). if r = i \<and> c = j then v else 0) ts)"

text \<open>Row \<open>i\<close> of \<open>A.dot(x)\<close>.\<close>

definition row_dot :: "triplet list \<Rightarrow> nat \<Rightarrow> real list \<Rightarrow> real" where
  "row_dot ts i x = sum_list (map (\<lambda>(r, c, v). if r = i then v * x ! c else 0) ts)"

definition mulvec :: "sparse \<Rightarrow> real list \<Rightarrow> real list" where
  "mulvec A x = map (\<lambda>i. row_dot (trips A) i x) [0..<nrows A]"

text \<open>\<open>L.dot(VPos)\<close> for an \<open>N \<times> 3\<close> position array: the three columns at once.\<close>

definition mulvec3 :: "sparse \<Rightarrow> vec3 list \<Rightarrow> vec3 list" where
  "mulvec3 A P =
     map (\<lambda>i. sum_list (map (\<lambda>(r, c, v). if r = i then vscale v (P ! c) else 0) (trips A)))
       [0..<nrows A]"

text \<open>\<open>A.sum(1)\<close>: the sum of row \<open>i\<close>.\<close>

definition row_sum :: "triplet list \<Rightarrow> nat \<Rightarrow> real" where
  "row_sum ts i = sum_list (map (\<lambda>(r, c, v). if r = i then v else 0) ts)"

text \<open>The triplets of a well-formed matrix lie inside its shape.\<close>

definition sparse_wf :: "sparse \<Rightarrow> bool" where
  "sparse_wf A = list_all (\<lambda>(r, c, v). r < nrows A \<and> c < ncols A) (trips A)"

subsection \<open>The constructor\<close>

lemma coo_matrix_Inr:
  assumes "length I = length J" "length J = length V"
    "list_all (\<lambda>i. i < m) I" "list_all (\<lambda>j. j < n) J"
  shows "coo_matrix V I J (m, n) = Inr \<lparr>nrows = m, ncols = n, trips = zip I (zip J V)\<rparr>"
  using assms by (simp add: coo_matrix_def)

lemma coo_matrix_eq_Inr_iff:
  "coo_matrix V I J (m, n) = Inr A \<longleftrightarrow>
     length I = length J \<and> length J = length V \<and> list_all (\<lambda>i. i < m) I \<and>
     list_all (\<lambda>j. j < n) J \<and> A = \<lparr>nrows = m, ncols = n, trips = zip I (zip J V)\<rparr>"
  by (auto simp: coo_matrix_def)

lemma coo_matrix_wf:
  assumes "coo_matrix V I J (m, n) = Inr A"
  shows "sparse_wf A"
proof -
  from assms have len: "length I = length J" "length J = length V"
    and I: "list_all (\<lambda>i. i < m) I" and J: "list_all (\<lambda>j. j < n) J"
    and A: "A = \<lparr>nrows = m, ncols = n, trips = zip I (zip J V)\<rparr>"
    by (auto simp: coo_matrix_eq_Inr_iff)
  have "list_all (\<lambda>(r, c, v). r < m \<and> c < n) (zip I (zip J V))"
    using I J len by (auto simp: list_all_length)
  then show ?thesis by (simp add: sparse_wf_def A)
qed

text \<open>Triplet lists given as one list of triples, the way the loops of the code produce them.\<close>

lemma zip_unzip3: "zip (map fst ts) (zip (map (fst \<circ> snd) ts) (map (snd \<circ> snd) ts)) = ts"
  by (induction ts) auto

lemma coo_matrix_triplets:
  "coo_matrix (map (snd \<circ> snd) ts) (map fst ts) (map (fst \<circ> snd) ts) (m, n) =
     (if list_all (\<lambda>(r, c, v). r < m \<and> c < n) ts
      then Inr \<lparr>nrows = m, ncols = n, trips = ts\<rparr> else Inl ValueError)"
proof -
  have "(list_all (\<lambda>i. i < m) (map fst ts) \<and> list_all (\<lambda>j. j < n) (map (fst \<circ> snd) ts)) =
        list_all (\<lambda>(r, c, v). r < m \<and> c < n) ts"
    by (induction ts) auto
  then show ?thesis by (simp add: coo_matrix_def zip_unzip3)
qed

subsection \<open>Rows of a product\<close>

lemma row_dot_Nil [simp]: "row_dot [] i x = 0"
  by (simp add: row_dot_def)

lemma row_dot_Cons [simp]:
  "row_dot ((r, c, v) # ts) i x = (if r = i then v * x ! c else 0) + row_dot ts i x"
  by (simp add: row_dot_def)

lemma row_dot_append [simp]: "row_dot (ts @ us) i x = row_dot ts i x + row_dot us i x"
  by (simp add: row_dot_def)

lemma row_dot_concat: "row_dot (concat tss) i x = sum_list (map (\<lambda>ts. row_dot ts i x) tss)"
  by (induction tss) auto

lemma row_dot_other_row:
  "list_all (\<lambda>(r, c, v). r \<noteq> i) ts \<Longrightarrow> row_dot ts i x = 0"
  by (induction ts) auto

lemma row_dot_cong:
  "list_all (\<lambda>(r, c, v). x ! c = y ! c) ts \<Longrightarrow> row_dot ts i x = row_dot ts i y"
  by (induction ts) auto

text \<open>
  The value of a row does not depend on how the triplets are split: a sum over the
  triplets is a sum over the dense entries of the row.
\<close>

lemma tentry_Nil [simp]: "tentry [] i j = 0"
  by (simp add: tentry_def)

lemma tentry_Cons [simp]:
  "tentry ((r, c, v) # ts) i j = (if r = i \<and> c = j then v else 0) + tentry ts i j"
  by (simp add: tentry_def)

lemma tentry_append [simp]: "tentry (ts @ us) i j = tentry ts i j + tentry us i j"
  by (simp add: tentry_def)

lemma row_dot_dense:
  "list_all (\<lambda>(r, c, v). c < n) ts \<Longrightarrow> row_dot ts i x = (\<Sum>j<n. tentry ts i j * x ! j)"
proof (induction ts)
  case Nil
  then show ?case by simp
next
  case (Cons t ts)
  obtain r c v where t: "t = (r, c, v)" by (cases t)
  with Cons.prems have c: "c < n" and IH: "row_dot ts i x = (\<Sum>j<n. tentry ts i j * x ! j)"
    using Cons.IH by auto
  have "(\<Sum>j<n. (if r = i \<and> c = j then v else 0) * x ! j) =
        (\<Sum>j<n. if j = c then (if r = i then v * x ! c else 0) else 0)"
    by (rule sum.cong) auto
  also have "\<dots> = (if r = i then v * x ! c else 0)"
    using c by (simp add: sum.delta)
  finally show ?case
    by (simp add: t IH distrib_right sum.distrib)
qed

lemma mulvec_length [simp]: "length (mulvec A x) = nrows A"
  by (simp add: mulvec_def)

lemma mulvec_nth [simp]: "i < nrows A \<Longrightarrow> mulvec A x ! i = row_dot (trips A) i x"
  by (simp add: mulvec_def)

lemma mulvec3_length [simp]: "length (mulvec3 A P) = nrows A"
  by (simp add: mulvec3_def)

lemma coord_sum_list: "coord k (sum_list vs) = sum_list (map (coord k) vs)"
  by (induction vs) auto

lemma coord_row_sum:
  "list_all (\<lambda>(r, c, v). c < length P) ts \<Longrightarrow>
   coord k (sum_list (map (\<lambda>(r, c, v). if r = i then vscale v (P ! c) else 0) ts)) =
   row_dot ts i (map (coord k) P)"
  by (induction ts) auto

lemma coord_mulvec3:
  assumes "i < nrows A" and "list_all (\<lambda>(r, c, v). c < length P) (trips A)"
  shows "coord k (mulvec3 A P ! i) = mulvec A (map (coord k) P) ! i"
  using assms by (simp add: mulvec3_def coord_row_sum)

lemma sparse_wf_cols: "sparse_wf A \<Longrightarrow> list_all (\<lambda>(r, c, v). c < ncols A) (trips A)"
  by (fastforce simp: sparse_wf_def list_all_iff split: prod.splits)

subsection \<open>Row sums\<close>

lemma row_sum_Nil [simp]: "row_sum [] i = 0"
  by (simp add: row_sum_def)

lemma row_sum_Cons [simp]: "row_sum ((r, c, v) # ts) i = (if r = i then v else 0) + row_sum ts i"
  by (simp add: row_sum_def)

lemma row_sum_append [simp]: "row_sum (ts @ us) i = row_sum ts i + row_sum us i"
  by (simp add: row_sum_def)

text \<open>A row applied to a vector shifted by a constant: the row sum times the constant
  is added.\<close>

lemma row_dot_shift:
  "list_all (\<lambda>(r, c, v). c < length x) ts \<Longrightarrow>
     row_dot ts i (map (\<lambda>y. y + d) x) = row_dot ts i x + d * row_sum ts i"
  by (induction ts) (auto simp: algebra_simps)

lemma tentry_map_neg:
  "tentry (map (\<lambda>(r, c, v). (r, c, - v)) ts) i j = - tentry ts i j"
  by (induction ts) auto

lemma row_sum_map_neg: "row_sum (map (\<lambda>(r, c, v). (r, c, - v)) ts) i = - row_sum ts i"
  by (induction ts) auto


end
