(* ===== verification/Frame.thy ===== *)
theory Frame
  imports Sparse
begin

text \<open>
  The Local Frame Extractor: \<open>DeformationTranferer.get4thVertex\<close> and
  \<open>DeformationTranferer.getVPos4\<close> (\<open>src/DeformationTransfer.py\<close>, lines 157--172).
  A pose is the list of vertex positions (the rows of \<open>VPos3\<close>), a triangle a row of
  \<open>ITris3\<close>.  For each triangle the code adds a synthetic fourth vertex, the first vertex
  plus the face normal divided by its Euclidean length; \<open>getVPos4\<close> appends these
  vertices after the real ones.  The lemmas show what the extension is for: for a
  triangle whose normal is not zero, the three edges from the first vertex form a basis
  (the fourth edge is a unit vector orthogonal to the triangle and the edge matrix has
  determinant \<open>|n|\<close>); they also give the layout of the extended pose and its
  behaviour under translations.
\<close>

type_synonym pose = "vec3 list"
type_synonym tri = "nat list"

text \<open>\<open>np.cross(V1, V2)\<close> for one triangle.\<close>

definition face_normal :: "pose \<Rightarrow> tri \<Rightarrow> vec3" where
  "face_normal P t = cross (P ! (t ! 1) - P ! (t ! 0)) (P ! (t ! 2) - P ! (t ! 0))"

text \<open>Row \<open>i\<close> of \<open>Vertex4\<close>: the first vertex plus the normal divided by its length.\<close>

definition vertex4 :: "pose \<Rightarrow> tri \<Rightarrow> vec3" where
  "vertex4 P t = P ! (t ! 0) + vdiv (face_normal P t) (vnorm (face_normal P t))"

definition get4thVertex :: "pose \<Rightarrow> tri list \<Rightarrow> vec3 list result" where
  "get4thVertex VPos3 ITris3 =
     bindE (gather VPos3 (col_sel ITris3 1)) (\<lambda>P1.
     bindE (gather VPos3 (col_sel ITris3 0)) (\<lambda>P0.
     bindE (gather VPos3 (col_sel ITris3 2)) (\<lambda>P2.
       let V1 = map2 (-) P1 P0;
           V2 = map2 (-) P2 P0;
           FNormals = map2 cross V1 V2;
           FNormalsSqrtLength = map vnorm FNormals;
           F = map2 vdiv FNormals FNormalsSqrtLength;
           Vertex4 = map2 (+) P0 F
       in Inr Vertex4)))"

definition getVPos4 :: "pose \<Rightarrow> tri list \<Rightarrow> pose result" where
  "getVPos4 VPos3 ITris3 = bindE (get4thVertex VPos3 ITris3) (\<lambda>V4. Inr (VPos3 @ V4))"

text \<open>The index checks numpy's fancy indexing performs on \<open>ITris3[:, 0..2]\<close>.\<close>

definition tris_in_range :: "nat \<Rightarrow> tri list \<Rightarrow> bool" where
  "tris_in_range n T = list_all (\<lambda>t. t ! 0 < n \<and> t ! 1 < n \<and> t ! 2 < n) T"

text \<open>No triangle of \<open>T\<close> is degenerate in pose \<open>P\<close>.\<close>

definition nondeg :: "pose \<Rightarrow> tri list \<Rightarrow> bool" where
  "nondeg P T = list_all (\<lambda>t. face_normal P t \<noteq> 0) T"

text \<open>The edge vectors \<open>v1 - v0\<close>, \<open>v2 - v0\<close>, \<open>v3 - v0\<close> of an extended triangle
  (a row of \<open>Tris4\<close>) in an extended pose, as the columns of a matrix.\<close>

definition edge_mat :: "pose \<Rightarrow> nat list \<Rightarrow> mat3" where
  "edge_mat P t = cols3 (P ! (t ! 1) - P ! (t ! 0)) (P ! (t ! 2) - P ! (t ! 0)) (P ! (t ! 3) - P ! (t ! 0))"

subsection \<open>Evaluation\<close>

lemma get4thVertex_in_range:
  "tris_in_range (length P) T \<Longrightarrow> get4thVertex P T = Inr (map (vertex4 P) T)"
  by (simp add: get4thVertex_def tris_in_range_def col_sel_def list_all_iff Let_def,
      intro nth_equalityI) (auto simp: vertex4_def face_normal_def)

lemma get4thVertex_out_of_range:
  "\<not> tris_in_range (length P) T \<Longrightarrow> get4thVertex P T = Inl IndexError"
proof -
  assume "\<not> tris_in_range (length P) T"
  then have "\<not> list_all (\<lambda>i. i < length P) (col_sel T 0) \<or> \<not> list_all (\<lambda>i. i < length P) (col_sel T 1)
    \<or> \<not> list_all (\<lambda>i. i < length P) (col_sel T 2)"
    by (auto simp: tris_in_range_def col_sel_def list_all_iff)
  then show ?thesis
    by (auto simp: get4thVertex_def)
qed

lemma get4thVertex_eq:
  "get4thVertex P T = (if tris_in_range (length P) T then Inr (map (vertex4 P) T) else Inl IndexError)"
  by (simp add: get4thVertex_in_range get4thVertex_out_of_range)

lemma getVPos4_eq:
  "getVPos4 P T = (if tris_in_range (length P) T then Inr (P @ map (vertex4 P) T) else Inl IndexError)"
  by (simp add: getVPos4_def get4thVertex_eq)

lemma getVPos4_Inr:
  "tris_in_range (length P) T \<Longrightarrow> getVPos4 P T = Inr (P @ map (vertex4 P) T)"
  by (simp add: getVPos4_eq)

lemma tris_in_range_Cons [simp, dt_simps]:
  "tris_in_range n (t # T) = (t ! 0 < n \<and> t ! 1 < n \<and> t ! 2 < n \<and> tris_in_range n T)"
  by (simp add: tris_in_range_def)

lemma tris_in_range_Nil [simp, dt_simps]: "tris_in_range n []"
  by (simp add: tris_in_range_def)

lemma nondeg_Cons [simp, dt_simps]: "nondeg P (t # T) = (face_normal P t \<noteq> 0 \<and> nondeg P T)"
  by (simp add: nondeg_def)

lemma nondeg_Nil [simp, dt_simps]: "nondeg P []"
  by (simp add: nondeg_def)

lemma tris_in_range_nth: "tris_in_range n T \<Longrightarrow> i < length T \<Longrightarrow> T ! i ! 0 < n \<and> T ! i ! 1 < n \<and> T ! i ! 2 < n"
  by (simp add: tris_in_range_def list_all_length)

lemma tris_in_range_mono: "tris_in_range n T \<Longrightarrow> n \<le> m \<Longrightarrow> tris_in_range m T"
  by (auto simp: tris_in_range_def list_all_iff)

subsection \<open>The extended frame of one triangle\<close>

lemma vertex4_edge: "vertex4 P t - P ! (t ! 0) = vdiv (face_normal P t) (vnorm (face_normal P t))"
  by (simp add: vertex4_def)

lemma det3_extended_frame:
  assumes "face_normal P t \<noteq> 0"
  shows "det3 (cols3 (P ! (t ! 1) - P ! (t ! 0)) (P ! (t ! 2) - P ! (t ! 0)) (vertex4 P t - P ! (t ! 0)))
           = vnorm (face_normal P t)"
proof -
  let ?n = "face_normal P t"
  have pos: "0 < dot ?n ?n"
    using assms dot_self_nonneg [of ?n] dot_self_eq_0 [of ?n] by linarith
  have "det3 (cols3 (P ! (t ! 1) - P ! (t ! 0)) (P ! (t ! 2) - P ! (t ! 0)) (vertex4 P t - P ! (t ! 0)))
        = dot (vdiv ?n (vnorm ?n)) ?n"
    by (simp add: det3_cols3 vertex4_edge face_normal_def)
  also have "\<dots> = dot ?n ?n / vnorm ?n"
    by (simp add: dot_comm [of "vdiv _ _"] dot_vdiv)
  also have "\<dots> = vnorm ?n"
    using pos by (simp add: vnorm_def real_div_sqrt)
  finally show ?thesis .
qed

lemma vertex4_translate:
  assumes "t ! 0 < length P" "t ! 1 < length P" "t ! 2 < length P"
  shows "vertex4 (map (\<lambda>p. p + c) P) t = vertex4 P t + c"
  using assms by (simp add: vertex4_def face_normal_def algebra_simps)

subsection \<open>Properties of the extractor\<close>

text \<open>
  C31: \<open>getVPos4\<close> appends one synthetic vertex per triangle after the real
  vertices, the one of triangle \<open>i\<close> at index \<open>N + i\<close>, and raises \<open>IndexError\<close>
  (and nothing else) exactly when a triangle refers to a vertex outside the pose.
\<close>

theorem getVPos4_layout:
  "(getVPos4 P T = Inr P4 \<longleftrightarrow>
      tris_in_range (length P) T \<and> length P4 = length P + length T \<and> take (length P) P4 = P \<and>
      (\<forall>i<length T. P4 ! (length P + i) = vertex4 P (T ! i))) \<and>
   (getVPos4 P T = Inl e \<longleftrightarrow> \<not> tris_in_range (length P) T \<and> e = IndexError)"
proof -
  have "(length P4 = length P + length T \<and> take (length P) P4 = P \<and>
         (\<forall>i<length T. P4 ! (length P + i) = vertex4 P (T ! i))) \<longleftrightarrow> P4 = P @ map (vertex4 P) T"
    (is "?lhs \<longleftrightarrow> _")
  proof
    assume lhs: ?lhs
    show "P4 = P @ map (vertex4 P) T"
    proof (rule nth_equalityI)
      show "length P4 = length (P @ map (vertex4 P) T)" using lhs by simp
    next
      fix i
      assume i: "i < length P4"
      show "P4 ! i = (P @ map (vertex4 P) T) ! i"
      proof (cases "i < length P")
        case True
        then have "P4 ! i = take (length P) P4 ! i" by simp
        with True lhs show ?thesis by (simp add: nth_append)
      next
        case False
        then obtain j where j: "i = length P + j" by (metis le_add_diff_inverse not_less)
        with i lhs have "j < length T" by simp
        with j lhs show ?thesis by (simp add: nth_append)
      qed
    qed
  qed (simp add: nth_append)
  then show ?thesis
    by (auto simp: getVPos4_eq)
qed

text \<open>
  C20: for a triangle with a non-zero face normal, the synthetic fourth vertex lies at
  unit distance from the first vertex along the normal: the fourth edge is a unit
  vector orthogonal to both triangle edges, and the \<open>3 \<times> 3\<close> edge matrix the
  builders invert has determinant \<open>|n| > 0\<close>, so it is invertible.
\<close>

theorem extended_frame_basis:
  assumes "face_normal P t \<noteq> 0"
  shows "dot (vertex4 P t - P ! (t ! 0)) (vertex4 P t - P ! (t ! 0)) = 1 \<and>
         dot (vertex4 P t - P ! (t ! 0)) (P ! (t ! 1) - P ! (t ! 0)) = 0 \<and>
         dot (vertex4 P t - P ! (t ! 0)) (P ! (t ! 2) - P ! (t ! 0)) = 0 \<and>
         det3 (cols3 (P ! (t ! 1) - P ! (t ! 0)) (P ! (t ! 2) - P ! (t ! 0)) (vertex4 P t - P ! (t ! 0)))
           = vnorm (face_normal P t) \<and>
         0 < vnorm (face_normal P t)"
proof -
  let ?n = "face_normal P t"
  have "dot (P ! (t ! 1) - P ! (t ! 0)) ?n = 0" "dot (P ! (t ! 2) - P ! (t ! 0)) ?n = 0"
    by (simp_all add: face_normal_def)
  then have "dot (vdiv ?n (vnorm ?n)) (P ! (t ! 1) - P ! (t ! 0)) = 0"
    "dot (vdiv ?n (vnorm ?n)) (P ! (t ! 2) - P ! (t ! 0)) = 0"
    by (simp_all add: dot_comm [of "vdiv _ _"] dot_vdiv)
  then show ?thesis
    using assms vdiv_self_norm [OF assms] det3_extended_frame [OF assms] vnorm_pos [OF assms]
    by (simp add: vertex4_edge)
qed

text \<open>
  C32: frame extraction commutes with translations: moving every vertex of the pose
  by \<open>c\<close> moves every synthetic vertex by \<open>c\<close> too.
\<close>

theorem getVPos4_translate:
  "getVPos4 (map (\<lambda>p. p + c) P) T = map_sum id (map (\<lambda>p. p + c)) (getVPos4 P T)"
proof (cases "tris_in_range (length P) T")
  case True
  then have "map (vertex4 (map (\<lambda>p. p + c) P)) T = map (\<lambda>t. vertex4 P t + c) T"
    by (auto simp: tris_in_range_def list_all_iff vertex4_translate)
  with True show ?thesis
    by (simp add: getVPos4_eq)
next
  case False
  then show ?thesis by (simp add: getVPos4_eq)
qed

subsection \<open>Witnesses\<close>

theorem getVPos4_layout_witness:
  "getVPos4 [Vec3 0 0 0, Vec3 1 0 0, Vec3 0 1 0] [[0, 1, 2]] =
     Inr [Vec3 0 0 0, Vec3 1 0 0, Vec3 0 1 0, Vec3 0 0 1] \<and>
   [Vec3 0 0 0, Vec3 1 0 0, Vec3 0 1 0, Vec3 0 0 1] ! (3 + 0) =
     vertex4 [Vec3 0 0 0, Vec3 1 0 0, Vec3 0 1 0] [0, 1, 2] \<and>
   getVPos4 [Vec3 0 0 0, Vec3 1 0 0] [[0, 1, 2]] = Inl IndexError"
  using getVPos4_layout [of "[Vec3 0 0 0, Vec3 1 0 0, Vec3 0 1 0]" "[[0, 1, 2]]"
      "[Vec3 0 0 0, Vec3 1 0 0, Vec3 0 1 0, Vec3 0 0 1]" IndexError]
    getVPos4_layout [of "[Vec3 0 0 0, Vec3 1 0 0]" "[[0, 1, 2]]" "[]" IndexError]
  by (simp add: vertex4_def face_normal_def vnorm_def)

theorem extended_frame_basis_witness:
  "face_normal [Vec3 0 0 0, Vec3 2 0 0, Vec3 0 3 0] [0, 1, 2] = Vec3 0 0 6 \<and>
   vertex4 [Vec3 0 0 0, Vec3 2 0 0, Vec3 0 3 0] [0, 1, 2] = Vec3 0 0 1 \<and>
   vnorm (face_normal [Vec3 0 0 0, Vec3 2 0 0, Vec3 0 3 0] [0, 1, 2]) = 6"
proof -
  have n: "face_normal [Vec3 0 0 0, Vec3 2 0 0, Vec3 0 3 0] [0, 1, 2] = Vec3 0 0 6"
    by (simp add: face_normal_def)
  have s: "sqrt 36 = (6::real)"
    by (simp add: real_sqrt_unique)
  have "0 < vnorm (face_normal [Vec3 0 0 0, Vec3 2 0 0, Vec3 0 3 0] [0, 1, 2])"
    using extended_frame_basis [of "[Vec3 0 0 0, Vec3 2 0 0, Vec3 0 3 0]" "[0, 1, 2]"] n by simp
  then show ?thesis
    using n s by (simp add: vertex4_def vnorm_def)
qed

theorem getVPos4_translate_witness:
  "getVPos4 (map (\<lambda>p. p + Vec3 1 1 1) [Vec3 0 0 0, Vec3 1 0 0, Vec3 0 1 0]) [[0, 1, 2]] =
     Inr [Vec3 1 1 1, Vec3 2 1 1, Vec3 1 2 1, Vec3 1 1 2]"
proof -
  have "getVPos4 [Vec3 0 0 0, Vec3 1 0 0, Vec3 0 1 0] [[0, 1, 2]] =
          Inr [Vec3 0 0 0, Vec3 1 0 0, Vec3 0 1 0, Vec3 0 0 1]"
    by (simp add: getVPos4_eq vertex4_def face_normal_def vnorm_def)
  then show ?thesis
    using getVPos4_translate [of "Vec3 1 1 1" "[Vec3 0 0 0, Vec3 1 0 0, Vec3 0 1 0]" "[[0, 1, 2]]"]
    by simp
qed

end
