(* ===== verification/Affine.thy ===== *)
theory Affine
  imports Frame
begin

text \<open>
  The Affine Transformation Builder: \<open>DeformationTranferer.getSMatrix\<close>
  (\<open>src/DeformationTransfer.py\<close>, lines 174--187).  Given the old and the new extended
  pose of the same mesh and the rows of \<open>Tris4\<close> (the triangle's three vertex
  indices and the index of its synthetic vertex), it computes for every triangle the
  \<open>3 \<times> 3\<close> matrix \<open>S = V\<^sub>n\<^sub>e\<^sub>w \<cdot> V\<^sub>o\<^sub>l\<^sub>d\<^sup>-\<^sup>1\<close>, where the columns of \<open>V\<close> are the
  triangle's three edges from its first vertex.  The code concatenates the blocks
  horizontally (\<open>np.hstack\<close>) into a \<open>3 \<times> 3F\<close> array; the model keeps the list of
  blocks and reads the row \<open>S[a, :]\<close> with \<open>S_row\<close>.
\<close>

definition getSMatrix :: "nat \<Rightarrow> pose \<Rightarrow> pose \<Rightarrow> nat list list \<Rightarrow> mat3 list result" where
  "getSMatrix NFaces oldVPos4 newVPos4 Tris4 =
     bindE (gather oldVPos4 (col_sel Tris4 1)) (\<lambda>o1.
     bindE (gather oldVPos4 (col_sel Tris4 0)) (\<lambda>o0.
     bindE (gather oldVPos4 (col_sel Tris4 2)) (\<lambda>o2.
     bindE (gather oldVPos4 (col_sel Tris4 3)) (\<lambda>o3.
     bindE (gather newVPos4 (col_sel Tris4 1)) (\<lambda>n1.
     bindE (gather newVPos4 (col_sel Tris4 0)) (\<lambda>n0.
     bindE (gather newVPos4 (col_sel Tris4 2)) (\<lambda>n2.
     bindE (gather newVPos4 (col_sel Tris4 3)) (\<lambda>n3.
       let v2subv1 = map2 (-) o1 o0;
           v3subv1 = map2 (-) o2 o0;
           v4subv1 = map2 (-) o3 o0;
           tildev2subv1 = map2 (-) n1 n0;
           tildev3subv1 = map2 (-) n2 n0;
           tildev4subv1 = map2 (-) n3 n0
       in if NFaces \<noteq> length Tris4 then Inl AssertionError
          else mapE (\<lambda>i.
                 bindE (inv3 (cols3 (v2subv1 ! i) (v3subv1 ! i) (v4subv1 ! i))) (\<lambda>vInv.
                   Inr (mmul (cols3 (tildev2subv1 ! i) (tildev3subv1 ! i) (tildev4subv1 ! i)) vInv)))
                 [0..<NFaces]))))))))"

text \<open>Row \<open>S[a, :]\<close> of the horizontally stacked blocks.\<close>

definition S_row :: "mat3 list \<Rightarrow> nat \<Rightarrow> real list" where
  "S_row S a = concat (map (\<lambda>B. [mentry B a 0, mentry B a 1, mentry B a 2]) S)"

text \<open>The index checks of the fancy indexing \<open>VPos4[Tris4[:, 0..3], :]\<close>.\<close>

definition tris4_in_range :: "nat \<Rightarrow> nat list list \<Rightarrow> bool" where
  "tris4_in_range n T4 = list_all (\<lambda>t. t ! 0 < n \<and> t ! 1 < n \<and> t ! 2 < n \<and> t ! 3 < n) T4"

text \<open>Every extended triangle has an invertible edge matrix in the pose.\<close>

definition frames_invertible :: "pose \<Rightarrow> nat list list \<Rightarrow> bool" where
  "frames_invertible P T4 = list_all (\<lambda>t. det3 (edge_mat P t) \<noteq> 0) T4"

subsection \<open>Evaluation\<close>

lemma tris4_in_range_gathers:
  "tris4_in_range n T4 \<longleftrightarrow>
     list_all (\<lambda>i. i < n) (col_sel T4 0) \<and> list_all (\<lambda>i. i < n) (col_sel T4 1) \<and>
     list_all (\<lambda>i. i < n) (col_sel T4 2) \<and> list_all (\<lambda>i. i < n) (col_sel T4 3)"
  by (auto simp: tris4_in_range_def col_sel_def list_all_iff)

lemma tris4_in_range_nth:
  "tris4_in_range n T4 \<Longrightarrow> i < length T4 \<Longrightarrow>
     T4 ! i ! 0 < n \<and> T4 ! i ! 1 < n \<and> T4 ! i ! 2 < n \<and> T4 ! i ! 3 < n"
  by (simp add: tris4_in_range_def list_all_length)

lemma edge_diff_nth:
  "i < length T4 \<Longrightarrow>
   map2 (-) (map ((!) P) (col_sel T4 j)) (map ((!) P) (col_sel T4 0)) ! i = P ! (T4 ! i ! j) - P ! (T4 ! i ! 0)"
  by simp

lemma edge_mat_cols: "cols3 (P ! (t ! 1) - P ! (t ! 0)) (P ! (t ! 2) - P ! (t ! 0)) (P ! (t ! 3) - P ! (t ! 0)) = edge_mat P t"
  by (simp add: edge_mat_def)

text \<open>The loop of \<open>getSMatrix\<close> once the gathers and the assertion have passed.\<close>

lemma getSMatrix_in_range_upt:
  assumes "tris4_in_range (length old) T4" "tris4_in_range (length new) T4" "NFaces = length T4"
  shows "getSMatrix NFaces old new T4 =
          mapE (\<lambda>i. bindE (inv3 (edge_mat old (T4 ! i))) (\<lambda>vInv. Inr (mmul (edge_mat new (T4 ! i)) vInv)))
            [0..<length T4]"
  using assms by (simp add: getSMatrix_def tris4_in_range_gathers Let_def)
    (rule mapE_cong, auto simp: edge_mat_def)

lemma getSMatrix_in_range:
  assumes "tris4_in_range (length old) T4" "tris4_in_range (length new) T4" "NFaces = length T4"
  shows "getSMatrix NFaces old new T4 =
           mapE (\<lambda>t. bindE (inv3 (edge_mat old t)) (\<lambda>vInv. Inr (mmul (edge_mat new t) vInv))) T4"
  using getSMatrix_in_range_upt [OF assms]
    mapE_upt_nth [of "\<lambda>t. bindE (inv3 (edge_mat old t)) (\<lambda>vInv. Inr (mmul (edge_mat new t) vInv))" T4]
  by simp

lemma mapE_inv3:
  "mapE (\<lambda>i. bindE (inv3 (g i)) (\<lambda>vInv. Inr (f i vInv))) xs =
     (if list_all (\<lambda>i. det3 (g i) \<noteq> 0) xs then Inr (map (\<lambda>i. f i (minv (g i))) xs) else Inl LinAlgError)"
  by (induction xs) (auto simp: inv3_def)

lemma frames_invertible_upt:
  "list_all (\<lambda>i. det3 (edge_mat P (T4 ! i)) \<noteq> 0) [0..<length T4] \<longleftrightarrow> frames_invertible P T4"
  by (auto simp: frames_invertible_def list_all_length)

lemma mapE_inv3_edge_mat:
  "mapE (\<lambda>t. bindE (inv3 (edge_mat old t)) (\<lambda>vInv. Inr (f t vInv))) T4 =
     (if frames_invertible old T4 then Inr (map (\<lambda>t. f t (minv (edge_mat old t))) T4) else Inl LinAlgError)"
  by (induction T4) (auto simp: frames_invertible_def inv3_def)

lemma getSMatrix_out_of_range:
  assumes "\<not> tris4_in_range (length old) T4 \<or> \<not> tris4_in_range (length new) T4"
  shows "getSMatrix NFaces old new T4 = Inl IndexError"
  using assms by (auto simp: getSMatrix_def gather_def tris4_in_range_gathers)

lemma getSMatrix_assert:
  assumes "tris4_in_range (length old) T4" "tris4_in_range (length new) T4" "NFaces \<noteq> length T4"
  shows "getSMatrix NFaces old new T4 = Inl AssertionError"
  using assms by (simp add: getSMatrix_def tris4_in_range_gathers Let_def)

lemma getSMatrix_eq:
  "getSMatrix NFaces old new T4 =
     (if \<not> tris4_in_range (length old) T4 \<or> \<not> tris4_in_range (length new) T4 then Inl IndexError
      else if NFaces \<noteq> length T4 then Inl AssertionError
      else if frames_invertible old T4
      then Inr (map (\<lambda>t. mmul (edge_mat new t) (minv (edge_mat old t))) T4)
      else Inl LinAlgError)"
  by (simp add: getSMatrix_out_of_range getSMatrix_assert getSMatrix_in_range mapE_inv3_edge_mat)

lemma getSMatrix_Inr:
  "getSMatrix NFaces old new T4 = Inr S \<longleftrightarrow>
     tris4_in_range (length old) T4 \<and> tris4_in_range (length new) T4 \<and> NFaces = length T4 \<and>
     frames_invertible old T4 \<and> S = map (\<lambda>t. mmul (edge_mat new t) (minv (edge_mat old t))) T4"
  by (auto simp: getSMatrix_eq)

lemma frames_invertible_nth: "frames_invertible P T4 \<Longrightarrow> i < length T4 \<Longrightarrow> det3 (edge_mat P (T4 ! i)) \<noteq> 0"
  by (simp add: frames_invertible_def list_all_length)

subsection \<open>Rows of the stacked result\<close>

lemma length_S_row [simp]: "length (S_row S a) = 3 * length S"
  by (induction S) (auto simp: S_row_def)

lemma S_row_nth:
  assumes "i < length S" "k < 3"
  shows "S_row S a ! (3 * i + k) = mentry (S ! i) a k"
  using assms
proof (induction S arbitrary: i)
  case Nil
  then show ?case by simp
next
  case (Cons B S)
  show ?case
  proof (cases i)
    case 0
    with Cons.prems show ?thesis
      by (auto simp: S_row_def less_Suc_eq numeral_3_eq_3 numeral_2_eq_2)
  next
    case (Suc j)
    with Cons.prems have "S_row S a ! (3 * j + k) = mentry (S ! j) a k" by (intro Cons.IH) auto
    with Suc show ?thesis
      by (simp add: S_row_def nth_append)
  qed
qed

subsection \<open>Properties of the builder\<close>

text \<open>
  C30: \<open>getSMatrix\<close> raises \<open>IndexError\<close> when an extended triangle refers to a
  vertex outside either pose, then \<open>AssertionError\<close> when \<open>NFaces\<close> is not the
  number of rows of \<open>Tris4\<close>, then \<open>LinAlgError\<close> when some old edge matrix is
  singular; otherwise it returns, in triangle order, the blocks \<open>V\<^sub>n\<^sub>e\<^sub>w \<cdot> V\<^sub>o\<^sub>l\<^sub>d\<^sup>-\<^sup>1\<close>.
\<close>

theorem getSMatrix_result:
  "getSMatrix NFaces old new T4 =
     (if \<not> tris4_in_range (length old) T4 \<or> \<not> tris4_in_range (length new) T4 then Inl IndexError
      else if NFaces \<noteq> length T4 then Inl AssertionError
      else if list_all (\<lambda>t. det3 (edge_mat old t) \<noteq> 0) T4
      then Inr (map (\<lambda>t. mmul (edge_mat new t) (minv (edge_mat old t))) T4)
      else Inl LinAlgError)"
  using getSMatrix_eq [of NFaces old new T4] by (simp add: frames_invertible_def)

text \<open>
  C19: each block of the result is the affine map of its triangle: it is the one and
  only matrix \<open>M\<close> that takes the triangle's old edge matrix to its new one
  (\<open>M \<cdot> V\<^sub>o\<^sub>l\<^sub>d = V\<^sub>n\<^sub>e\<^sub>w\<close>), and there is one block per triangle.
\<close>

theorem getSMatrix_maps_edges:
  assumes "getSMatrix NFaces old new T4 = Inr S" and "i < length T4"
  shows "length S = length T4 \<and>
         (\<forall>M. mmul M (edge_mat old (T4 ! i)) = edge_mat new (T4 ! i) \<longleftrightarrow> M = S ! i)"
proof -
  from assms(1) have inv: "frames_invertible old T4"
    and S: "S = map (\<lambda>t. mmul (edge_mat new t) (minv (edge_mat old t))) T4"
    by (auto simp: getSMatrix_Inr)
  let ?V = "edge_mat old (T4 ! i)"
  have det: "det3 ?V \<noteq> 0"
    using frames_invertible_nth [OF inv assms(2)] .
  have "mmul M ?V = edge_mat new (T4 ! i) \<longleftrightarrow> M = S ! i" for M
  proof
    assume eq: "mmul M ?V = edge_mat new (T4 ! i)"
    have "M = mmul (mmul M ?V) (minv ?V)"
      using det by (simp add: mmul_assoc mmul_minv)
    also have "\<dots> = mmul (edge_mat new (T4 ! i)) (minv ?V)"
      by (simp add: eq)
    finally show "M = S ! i"
      using assms(2) by (simp add: S)
  next
    assume "M = S ! i"
    then show "mmul M ?V = edge_mat new (T4 ! i)"
      using assms(2) det by (simp add: S mmul_assoc minv_mmul)
  qed
  then show ?thesis
    by (simp add: S)
qed

subsection \<open>Witnesses\<close>

text \<open>A unit right triangle with its synthetic vertex, and the same triangle scaled by 2.\<close>

theorem getSMatrix_maps_edges_witness:
  "getSMatrix 1 [Vec3 0 0 0, Vec3 1 0 0, Vec3 0 1 0, Vec3 0 0 1]
      [Vec3 0 0 0, Vec3 2 0 0, Vec3 0 2 0, Vec3 0 0 2] [[0, 1, 2, 3]] =
     Inr [Mat3 (Vec3 2 0 0) (Vec3 0 2 0) (Vec3 0 0 2)] \<and>
   mmul (Mat3 (Vec3 2 0 0) (Vec3 0 2 0) (Vec3 0 0 2))
       (edge_mat [Vec3 0 0 0, Vec3 1 0 0, Vec3 0 1 0, Vec3 0 0 1] [0, 1, 2, 3]) =
     edge_mat [Vec3 0 0 0, Vec3 2 0 0, Vec3 0 2 0, Vec3 0 0 2] [0, 1, 2, 3]"
proof -
  have S: "getSMatrix 1 [Vec3 0 0 0, Vec3 1 0 0, Vec3 0 1 0, Vec3 0 0 1]
      [Vec3 0 0 0, Vec3 2 0 0, Vec3 0 2 0, Vec3 0 0 2] [[0, 1, 2, 3]] =
     Inr [Mat3 (Vec3 2 0 0) (Vec3 0 2 0) (Vec3 0 0 2)]"
    by (simp add: getSMatrix_eq tris4_in_range_def frames_invertible_def edge_mat_def cols3_def minv_def)
  show ?thesis
    using S getSMatrix_maps_edges [OF S, of 0] by (simp del: mmul.simps)
qed

theorem getSMatrix_result_witness:
  "getSMatrix 1 [Vec3 0 0 0, Vec3 1 0 0, Vec3 0 1 0, Vec3 0 0 1]
      [Vec3 0 0 0, Vec3 2 0 0, Vec3 0 2 0, Vec3 0 0 2] [[0, 1, 2, 3]] =
     Inr [Mat3 (Vec3 2 0 0) (Vec3 0 2 0) (Vec3 0 0 2)] \<and>
   getSMatrix 1 [Vec3 0 0 0, Vec3 0 0 0, Vec3 0 1 0, Vec3 0 0 1]
      [Vec3 0 0 0, Vec3 2 0 0, Vec3 0 2 0, Vec3 0 0 2] [[0, 1, 2, 3]] = Inl LinAlgError \<and>
   getSMatrix 2 [Vec3 0 0 0, Vec3 1 0 0, Vec3 0 1 0, Vec3 0 0 1]
      [Vec3 0 0 0, Vec3 2 0 0, Vec3 0 2 0, Vec3 0 0 2] [[0, 1, 2, 3]] = Inl AssertionError \<and>
   getSMatrix 1 [Vec3 0 0 0, Vec3 1 0 0, Vec3 0 1 0]
      [Vec3 0 0 0, Vec3 2 0 0, Vec3 0 2 0, Vec3 0 0 2] [[0, 1, 2, 3]] = Inl IndexError"
  using getSMatrix_result [of 1 "[Vec3 0 0 0, Vec3 1 0 0, Vec3 0 1 0, Vec3 0 0 1]"
      "[Vec3 0 0 0, Vec3 2 0 0, Vec3 0 2 0, Vec3 0 0 2]" "[[0, 1, 2, 3]]"]
    getSMatrix_result [of 1 "[Vec3 0 0 0, Vec3 0 0 0, Vec3 0 1 0, Vec3 0 0 1]"
      "[Vec3 0 0 0, Vec3 2 0 0, Vec3 0 2 0, Vec3 0 0 2]" "[[0, 1, 2, 3]]"]
    getSMatrix_result [of 2 "[Vec3 0 0 0, Vec3 1 0 0, Vec3 0 1 0, Vec3 0 0 1]"
      "[Vec3 0 0 0, Vec3 2 0 0, Vec3 0 2 0, Vec3 0 0 2]" "[[0, 1, 2, 3]]"]
    getSMatrix_result [of 1 "[Vec3 0 0 0, Vec3 1 0 0, Vec3 0 1 0]"
      "[Vec3 0 0 0, Vec3 2 0 0, Vec3 0 2 0, Vec3 0 0 2]" "[[0, 1, 2, 3]]"]
  by (simp_all add: tris4_in_range_def edge_mat_def cols3_def minv_def)

end
