(* ===== verification/Coeff.thy ===== *)
theory Coeff
  imports Affine
begin

text \<open>
  The Transfer Coefficient Builder: \<open>DeformationTranferer.getAMatrix\<close>
  (\<open>src/DeformationTransfer.py\<close>, lines 189--230).  For the current extended pose of
  the target it assembles the sparse \<open>3F \<times> (N + F)\<close> operator \<open>A\<close>: triangle \<open>i\<close>
  owns rows \<open>3i, 3i+1, 3i+2\<close>; with \<open>W = V\<^sup>-\<^sup>1\<close> the inverse of its edge matrix, row
  \<open>3i + k\<close> has \<open>-\<Sum>\<^sub>j W[j,k]\<close> in the column of the triangle's first vertex and
  \<open>W[j,k]\<close> in the column of its vertex \<open>j + 1\<close>.  The triplets are appended in the
  order of the code's loops and handed to \<open>coo_matrix\<close>.  The main lemma,
  \<open>getAMatrix_mulvec_row\<close>, says what a row computes: applied to one coordinate \<open>x\<close> of
  a candidate extended pose, row \<open>3i + k\<close> is entry \<open>k\<close> of the row vector
  \<open>(x\<^sub>v\<^sub>1 - x\<^sub>v\<^sub>0, x\<^sub>v\<^sub>2 - x\<^sub>v\<^sub>0, x\<^sub>v\<^sub>3 - x\<^sub>v\<^sub>0) \<cdot> W\<close>, the corresponding row of the
  affine map from the current pose to the candidate, laid out exactly as
  \<open>getSMatrix\<close> lays out \<open>S\<close>.  The claims give its agreement with \<open>S\<close>, its
  blindness to translations, the locality of its rows and its errors.
\<close>

text \<open>\<open>np.sum(-1 * vInv, axis = 0)[j]\<close>.\<close>

definition sumOfNegativevInv :: "mat3 \<Rightarrow> nat \<Rightarrow> real" where
  "sumOfNegativevInv vInv j = - mentry vInv 0 j + - mentry vInv 1 j + - mentry vInv 2 j"

text \<open>The triplets one iteration of the face loop appends to \<open>I\<close>, \<open>J\<close>, \<open>V\<close>.\<close>

definition face_trips :: "nat \<Rightarrow> nat list \<Rightarrow> mat3 \<Rightarrow> triplet list" where
  "face_trips idxRow t vInv =
     [(idxRow + j, t ! 0, sumOfNegativevInv vInv j). j \<leftarrow> [0..<3]] @
     [(idxRow + k, t ! (j + 1), mentry vInv j k). j \<leftarrow> [0..<3], k \<leftarrow> [0..<3]]"

definition getAMatrix :: "nat \<Rightarrow> nat \<Rightarrow> pose \<Rightarrow> nat list list \<Rightarrow> sparse result" where
  "getAMatrix NFaces NVertices4 VPos4 Tris4 =
     bindE (gather VPos4 (col_sel Tris4 1)) (\<lambda>p1.
     bindE (gather VPos4 (col_sel Tris4 0)) (\<lambda>p0.
     bindE (gather VPos4 (col_sel Tris4 2)) (\<lambda>p2.
     bindE (gather VPos4 (col_sel Tris4 3)) (\<lambda>p3.
       let v2subv1 = map2 (-) p1 p0;
           v3subv1 = map2 (-) p2 p0;
           v4subv1 = map2 (-) p3 p0
       in if NFaces \<noteq> length Tris4 then Inl AssertionError
          else bindE (mapE (\<lambda>i.
                   bindE (inv3 (cols3 (v2subv1 ! i) (v3subv1 ! i) (v4subv1 ! i))) (\<lambda>vInv.
                     Inr (face_trips (i * 3) (Tris4 ! i) vInv)))
                 [0..<NFaces]) (\<lambda>IJV.
               let ts = concat IJV
               in coo_matrix (map (snd \<circ> snd) ts) (map fst ts) (map (fst \<circ> snd) ts)
                    (3 * NFaces, NVertices4))))))"

text \<open>The triplets of \<open>A\<close> when every frame is invertible.\<close>

definition A_trips :: "pose \<Rightarrow> nat list list \<Rightarrow> triplet list" where
  "A_trips P T4 = concat (map (\<lambda>i. face_trips (i * 3) (T4 ! i) (minv (edge_mat P (T4 ! i)))) [0..<length T4])"

subsection \<open>Evaluation\<close>

lemma face_trips_row:
  assumes "k < 3"
  shows "row_dot (face_trips (i * 3) t V) (i * 3 + k) x =
           mentry V 0 k * (x ! (t ! 1) - x ! (t ! 0)) + mentry V 1 k * (x ! (t ! 2) - x ! (t ! 0)) +
           mentry V 2 k * (x ! (t ! 3) - x ! (t ! 0))"
  using assms
  by (auto simp: face_trips_def sumOfNegativevInv_def numeral_3_eq_3 numeral_2_eq_2 less_Suc_eq algebra_simps)

lemma face_trips_other_row:
  assumes "i' \<noteq> i" "k < 3"
  shows "row_dot (face_trips (i' * 3) t V) (i * 3 + k) x = 0"
  using assms by (auto simp: face_trips_def numeral_3_eq_3 less_Suc_eq)

lemma face_trips_bounds:
  assumes "i < n"
  shows "list_all (\<lambda>(r, c, v). r < 3 * n \<and> c < m) (face_trips (i * 3) t V) \<longleftrightarrow>
           t ! 0 < m \<and> t ! 1 < m \<and> t ! 2 < m \<and> t ! 3 < m"
  using assms by (auto simp: face_trips_def numeral_3_eq_3 numeral_2_eq_2)

lemma A_trips_bounds:
  "list_all (\<lambda>(r, c, v). r < 3 * length T4 \<and> c < m) (A_trips P T4) \<longleftrightarrow> tris4_in_range m T4"
proof -
  have "list_all (\<lambda>(r, c, v). r < 3 * length T4 \<and> c < m) (A_trips P T4) \<longleftrightarrow>
        (\<forall>i<length T4. list_all (\<lambda>(r, c, v). r < 3 * length T4 \<and> c < m)
                          (face_trips (i * 3) (T4 ! i) (minv (edge_mat P (T4 ! i)))))"
    by (simp add: A_trips_def list_all_concat_map list_all_upt)
  also have "\<dots> \<longleftrightarrow> (\<forall>i<length T4. T4 ! i ! 0 < m \<and> T4 ! i ! 1 < m \<and> T4 ! i ! 2 < m \<and> T4 ! i ! 3 < m)"
    using face_trips_bounds [where n = "length T4" and m = m] by blast
  also have "\<dots> \<longleftrightarrow> tris4_in_range m T4"
    by (simp add: tris4_in_range_def list_all_length)
  finally show ?thesis .
qed

lemma getAMatrix_in_range_upt:
  assumes "tris4_in_range (length P) T4" "NFaces = length T4"
  shows "getAMatrix NFaces NV4 P T4 =
           bindE (mapE (\<lambda>i. bindE (inv3 (edge_mat P (T4 ! i))) (\<lambda>vInv. Inr (face_trips (i * 3) (T4 ! i) vInv)))
                    [0..<length T4])
             (\<lambda>IJV. let ts = concat IJV
                    in coo_matrix (map (snd \<circ> snd) ts) (map fst ts) (map (fst \<circ> snd) ts) (3 * NFaces, NV4))"
proof -
  have "mapE (\<lambda>i. bindE (inv3 (cols3 (map2 (-) (map ((!) P) (col_sel T4 1)) (map ((!) P) (col_sel T4 0)) ! i)
            (map2 (-) (map ((!) P) (col_sel T4 2)) (map ((!) P) (col_sel T4 0)) ! i)
            (map2 (-) (map ((!) P) (col_sel T4 3)) (map ((!) P) (col_sel T4 0)) ! i)))
          (\<lambda>vInv. Inr (face_trips (i * 3) (T4 ! i) vInv))) [0..<length T4] =
        mapE (\<lambda>i. bindE (inv3 (edge_mat P (T4 ! i))) (\<lambda>vInv. Inr (face_trips (i * 3) (T4 ! i) vInv)))
          [0..<length T4]"
    by (rule mapE_cong) (auto simp: edge_mat_def)
  with assms show ?thesis
    by (simp add: getAMatrix_def tris4_in_range_gathers Let_def)
qed

lemma getAMatrix_out_of_range:
  "\<not> tris4_in_range (length P) T4 \<Longrightarrow> getAMatrix NFaces NV4 P T4 = Inl IndexError"
  by (auto simp: getAMatrix_def gather_def tris4_in_range_gathers)

lemma getAMatrix_assert:
  "tris4_in_range (length P) T4 \<Longrightarrow> NFaces \<noteq> length T4 \<Longrightarrow> getAMatrix NFaces NV4 P T4 = Inl AssertionError"
  by (simp add: getAMatrix_def tris4_in_range_gathers Let_def)

lemma getAMatrix_eq:
  "getAMatrix NFaces NV4 P T4 =
     (if \<not> tris4_in_range (length P) T4 then Inl IndexError
      else if NFaces \<noteq> length T4 then Inl AssertionError
      else if \<not> frames_invertible P T4 then Inl LinAlgError
      else if tris4_in_range NV4 T4
      then Inr \<lparr>nrows = 3 * NFaces, ncols = NV4, trips = A_trips P T4\<rparr>
      else Inl ValueError)"
proof (cases "tris4_in_range (length P) T4 \<and> NFaces = length T4")
  case True
  then show ?thesis
    using A_trips_bounds [of T4 NV4 P]
    by (simp add: getAMatrix_in_range_upt mapE_inv3 frames_invertible_upt coo_matrix_triplets
        A_trips_def Let_def)
next
  case False
  then show ?thesis
    by (auto simp: getAMatrix_out_of_range getAMatrix_assert)
qed

lemma getAMatrix_Inr:
  "getAMatrix NFaces NV4 P T4 = Inr A \<longleftrightarrow>
     tris4_in_range (length P) T4 \<and> NFaces = length T4 \<and> frames_invertible P T4 \<and>
     tris4_in_range NV4 T4 \<and> A = \<lparr>nrows = 3 * NFaces, ncols = NV4, trips = A_trips P T4\<rparr>"
  by (auto simp: getAMatrix_eq)

subsection \<open>What a row of \<open>A\<close> computes\<close>

lemma sum_list_upt_single:
  assumes "i < n" "\<And>j. j < n \<Longrightarrow> j \<noteq> i \<Longrightarrow> g j = (0::real)"
  shows "sum_list (map g [0..<n]) = g i"
proof -
  have "sum_list (map g [0..<n]) = (\<Sum>j\<in>{0..<n}. g j)"
    by (simp add: sum_list_distinct_conv_sum_set)
  also have "\<dots> = g i + (\<Sum>j\<in>{0..<n} - {i}. g j)"
    using assms(1) by (simp add: sum.remove)
  also have "(\<Sum>j\<in>{0..<n} - {i}. g j) = 0"
    using assms(2) by (intro sum.neutral) auto
  finally show ?thesis by simp
qed

lemma A_trips_row:
  assumes "i < length T4" "k < 3"
  shows "row_dot (A_trips P T4) (i * 3 + k) x =
           mentry (minv (edge_mat P (T4 ! i))) 0 k * (x ! (T4 ! i ! 1) - x ! (T4 ! i ! 0)) +
           mentry (minv (edge_mat P (T4 ! i))) 1 k * (x ! (T4 ! i ! 2) - x ! (T4 ! i ! 0)) +
           mentry (minv (edge_mat P (T4 ! i))) 2 k * (x ! (T4 ! i ! 3) - x ! (T4 ! i ! 0))"
proof -
  have "row_dot (A_trips P T4) (i * 3 + k) x =
          sum_list (map (\<lambda>i'. row_dot (face_trips (i' * 3) (T4 ! i') (minv (edge_mat P (T4 ! i')))) (i * 3 + k) x)
            [0..<length T4])"
    by (simp add: A_trips_def row_dot_concat o_def)
  also have "\<dots> = row_dot (face_trips (i * 3) (T4 ! i) (minv (edge_mat P (T4 ! i)))) (i * 3 + k) x"
    using assms by (intro sum_list_upt_single) (auto intro: face_trips_other_row)
  finally show ?thesis
    using assms(2) by (simp add: face_trips_row)
qed

lemma getAMatrix_shape:
  "getAMatrix NFaces NV4 P T4 = Inr A \<Longrightarrow> nrows A = 3 * length T4 \<and> ncols A = NV4"
  by (auto simp: getAMatrix_Inr)

lemma getAMatrix_mulvec_row:
  assumes "getAMatrix NFaces NV4 P T4 = Inr A" "i < length T4" "k < 3"
  shows "mulvec A x ! (3 * i + k) =
           mentry (minv (edge_mat P (T4 ! i))) 0 k * (x ! (T4 ! i ! 1) - x ! (T4 ! i ! 0)) +
           mentry (minv (edge_mat P (T4 ! i))) 1 k * (x ! (T4 ! i ! 2) - x ! (T4 ! i ! 0)) +
           mentry (minv (edge_mat P (T4 ! i))) 2 k * (x ! (T4 ! i ! 3) - x ! (T4 ! i ! 0))"
proof -
  from assms(1) have A: "A = \<lparr>nrows = 3 * length T4, ncols = NV4, trips = A_trips P T4\<rparr>"
    by (auto simp: getAMatrix_Inr)
  have "3 * i + k < 3 * length T4" using assms(2,3) by linarith
  then show ?thesis
    using A_trips_row [OF assms(2,3), of P x] by (simp add: A mult.commute)
qed

text \<open>Every row index of \<open>A\<close> is \<open>3i + k\<close> for a triangle \<open>i\<close> and \<open>k < 3\<close>.\<close>

lemma row_index_split:
  assumes "r < 3 * (n::nat)"
  obtains i k :: nat where "r = 3 * i + k" "i < n" "k < 3"
proof
  show "r = 3 * (r div 3) + r mod 3" by simp
  show "r div 3 < n" using assms by linarith
  show "r mod 3 < 3" by simp
qed

lemma mentry_edge_mat:
  "a < 3 \<Longrightarrow> mentry (edge_mat X t) a l =
     coord a (X ! (t ! (if l = 0 then 1 else if l = 1 then 2 else 3)) - X ! (t ! 0))"
  by (simp add: edge_mat_def)

text \<open>
  Applied to the \<open>a\<close>-coordinates of any extended pose \<open>X\<close>, \<open>A\<close> built from \<open>P\<close>
  computes row \<open>a\<close> of the per-triangle maps \<open>V(X) \<cdot> V(P)\<^sup>-\<^sup>1\<close>, stacked as
  \<open>getSMatrix\<close> stacks them.
\<close>

lemma getAMatrix_mulvec_grads:
  assumes "getAMatrix NFaces NV4 P T4 = Inr A" and "tris4_in_range (length X) T4" and "a < 3"
  shows "mulvec A (map (coord a) X) = S_row (map (\<lambda>t. mmul (edge_mat X t) (minv (edge_mat P t))) T4) a"
proof (rule nth_equalityI)
  from assms(1) have rows: "nrows A = 3 * length T4"
    by (auto simp: getAMatrix_Inr)
  then show "length (mulvec A (map (coord a) X)) =
               length (S_row (map (\<lambda>t. mmul (edge_mat X t) (minv (edge_mat P t))) T4) a)"
    by simp
  fix r
  assume "r < length (mulvec A (map (coord a) X))"
  with rows obtain i k where r: "r = 3 * i + k" and i: "i < length T4" and k: "k < 3"
    by (auto elim: row_index_split)
  from tris4_in_range_nth [OF assms(2) i] have idx:
    "T4 ! i ! 0 < length X" "T4 ! i ! 1 < length X" "T4 ! i ! 2 < length X" "T4 ! i ! 3 < length X"
    by auto
  have "S_row (map (\<lambda>t. mmul (edge_mat X t) (minv (edge_mat P t))) T4) a ! r =
          mentry (mmul (edge_mat X (T4 ! i)) (minv (edge_mat P (T4 ! i)))) a k"
    using i k by (simp add: r S_row_nth)
  also have "\<dots> = mulvec A (map (coord a) X) ! r"
    using getAMatrix_mulvec_row [OF assms(1) i k, of "map (coord a) X"] idx i assms(3)
    by (simp add: r mentry_mmul mentry_edge_mat algebra_simps)
  finally show "mulvec A (map (coord a) X) ! r =
          S_row (map (\<lambda>t. mmul (edge_mat X t) (minv (edge_mat P t))) T4) a ! r"
    by simp
qed

subsection \<open>Properties of the builder\<close>

text \<open>
  C5: \<open>A\<close> and \<open>S\<close> describe the same per-triangle map.  For a candidate
  extended pose \<open>X\<close> and every axis \<open>a\<close>, applying the operator built from the pose
  \<open>P\<close> to the \<open>a\<close>-coordinates of \<open>X\<close> gives exactly row \<open>a\<close> of the matrix
  \<open>getSMatrix\<close> builds for the motion from \<open>P\<close> to \<open>X\<close>: the least-squares
  residual \<open>\<parallel>A x\<^sub>a - S\<^sub>a\<parallel>\<close> the transfer minimises is the mismatch between the
  target's deformation and the source's.
\<close>

theorem getAMatrix_matches_SMatrix:
  assumes "getAMatrix NFaces NV4 P T4 = Inr A" and "getSMatrix NFaces P X T4 = Inr S" and "a < 3"
  shows "mulvec A (map (coord a) X) = S_row S a"
proof -
  from assms(2) have "tris4_in_range (length X) T4"
    and "S = map (\<lambda>t. mmul (edge_mat X t) (minv (edge_mat P t))) T4"
    by (auto simp: getSMatrix_Inr)
  with getAMatrix_mulvec_grads [OF assms(1) _ assms(3)] show ?thesis by simp
qed

text \<open>Adding a constant to every unknown does not change \<open>A x\<close>.\<close>

lemma getAMatrix_mulvec_shift:
  assumes "getAMatrix NFaces NV4 P T4 = Inr A" and "length x = ncols A"
  shows "mulvec A (map (\<lambda>v. v + c) x) = mulvec A x"
proof -
  from assms(1) have rows: "nrows A = 3 * length T4" and cols: "ncols A = NV4"
    and range: "tris4_in_range NV4 T4"
    by (auto simp: getAMatrix_Inr)
  show ?thesis
  proof (rule nth_equalityI)
    fix r assume "r < length (mulvec A (map (\<lambda>v. v + c) x))"
    with rows obtain i k where r: "r = 3 * i + k" and i: "i < length T4" and k: "k < 3"
      by (auto elim: row_index_split)
    have "T4 ! i ! 0 < length x" "T4 ! i ! 1 < length x" "T4 ! i ! 2 < length x" "T4 ! i ! 3 < length x"
      using tris4_in_range_nth [OF range i] assms(2) cols by auto
    then show "mulvec A (map (\<lambda>v. v + c) x) ! r = mulvec A x ! r"
      using getAMatrix_mulvec_row [OF assms(1) i k, of "map (\<lambda>v. v + c) x"]
        getAMatrix_mulvec_row [OF assms(1) i k, of x]
      by (simp add: r)
  qed simp
qed

text \<open>
  C6: every row of \<open>A\<close> sums to zero, so \<open>A\<close> cannot see translations: adding the
  same constant to every unknown (real and synthetic vertices) leaves \<open>A x\<close>
  unchanged.  The per-frame least-squares problems therefore never determine where the
  target is, only its shape up to a translation (see the findings).
\<close>

theorem getAMatrix_translation_invariant:
  assumes "getAMatrix NFaces NV4 P T4 = Inr A"
  shows "mulvec A (replicate (ncols A) 1) = replicate (nrows A) 0 \<and>
         (\<forall>x c. length x = ncols A \<longrightarrow> mulvec A (map (\<lambda>v. v + c) x) = mulvec A x)"
proof -
  from assms have rows: "nrows A = 3 * length T4" and cols: "ncols A = NV4"
    and range: "tris4_in_range NV4 T4"
    by (auto simp: getAMatrix_Inr)
  have "mulvec A (replicate (ncols A) 1) = replicate (nrows A) 0"
  proof (rule nth_equalityI)
    fix r assume "r < length (mulvec A (replicate (ncols A) 1))"
    with rows obtain i k where r: "r = 3 * i + k" and i: "i < length T4" and k: "k < 3"
      by (auto elim: row_index_split)
    show "mulvec A (replicate (ncols A) 1) ! r = replicate (nrows A) 0 ! r"
      using getAMatrix_mulvec_row [OF assms i k, of "replicate (ncols A) 1"]
        tris4_in_range_nth [OF range i] i k rows
      by (simp add: r cols)
  qed simp
  then show ?thesis
    using getAMatrix_mulvec_shift [OF assms] by simp
qed

text \<open>
  C26: the builder's error behaviour: with the column count the caller passes
  (\<open>NVertices4\<close>, the length of the extended pose) it never raises the
  \<open>ValueError\<close> of \<open>coo_matrix\<close>; once the indices and the face count are right
  it raises \<open>LinAlgError\<close> exactly when some triangle's edge matrix is singular.
\<close>

theorem getAMatrix_errors:
  "getAMatrix NFaces (length P) P T4 \<noteq> Inl ValueError \<and>
   (tris4_in_range (length P) T4 \<longrightarrow> NFaces = length T4 \<longrightarrow>
      (getAMatrix NFaces NV4 P T4 = Inl LinAlgError \<longleftrightarrow> \<not> list_all (\<lambda>t. det3 (edge_mat P t) \<noteq> 0) T4))"
  by (auto simp: getAMatrix_eq frames_invertible_def)

subsection \<open>Witnesses\<close>

lemma unit_tri_getAMatrix:
  "getAMatrix 1 4 [Vec3 0 0 0, Vec3 1 0 0, Vec3 0 1 0, Vec3 0 0 1] [[0, 1, 2, 3]] =
     Inr \<lparr>nrows = 3, ncols = 4, trips = A_trips [Vec3 0 0 0, Vec3 1 0 0, Vec3 0 1 0, Vec3 0 0 1] [[0, 1, 2, 3]]\<rparr>"
  by (simp add: getAMatrix_eq tris4_in_range_def frames_invertible_def edge_mat_def cols3_def)

theorem getAMatrix_matches_SMatrix_witness:
  "getSMatrix 1 [Vec3 0 0 0, Vec3 1 0 0, Vec3 0 1 0, Vec3 0 0 1]
      [Vec3 0 0 0, Vec3 2 0 0, Vec3 0 2 0, Vec3 0 0 2] [[0, 1, 2, 3]] =
     Inr [Mat3 (Vec3 2 0 0) (Vec3 0 2 0) (Vec3 0 0 2)] \<and>
   mulvec \<lparr>nrows = 3, ncols = 4, trips = A_trips [Vec3 0 0 0, Vec3 1 0 0, Vec3 0 1 0, Vec3 0 0 1] [[0, 1, 2, 3]]\<rparr>
      (map (coord 0) [Vec3 0 0 0, Vec3 2 0 0, Vec3 0 2 0, Vec3 0 0 2]) = [2, 0, 0]"
proof -
  have S: "getSMatrix 1 [Vec3 0 0 0, Vec3 1 0 0, Vec3 0 1 0, Vec3 0 0 1]
      [Vec3 0 0 0, Vec3 2 0 0, Vec3 0 2 0, Vec3 0 0 2] [[0, 1, 2, 3]] =
     Inr [Mat3 (Vec3 2 0 0) (Vec3 0 2 0) (Vec3 0 0 2)]"
    by (simp add: getSMatrix_eq tris4_in_range_def frames_invertible_def edge_mat_def cols3_def minv_def)
  show ?thesis
    using S getAMatrix_matches_SMatrix [OF unit_tri_getAMatrix S, of 0]
    by (simp add: S_row_def)
qed

theorem getAMatrix_translation_invariant_witness:
  "mulvec \<lparr>nrows = 3, ncols = 4, trips = A_trips [Vec3 0 0 0, Vec3 1 0 0, Vec3 0 1 0, Vec3 0 0 1] [[0, 1, 2, 3]]\<rparr>
      (map (\<lambda>v. v + 5) [0, 2, 0, 0]) =
   mulvec \<lparr>nrows = 3, ncols = 4, trips = A_trips [Vec3 0 0 0, Vec3 1 0 0, Vec3 0 1 0, Vec3 0 0 1] [[0, 1, 2, 3]]\<rparr>
      [0, 2, 0, 0]"
  using getAMatrix_translation_invariant [OF unit_tri_getAMatrix, THEN conjunct2, rule_format,
      of "[0, 2, 0, 0]" 5]
  by simp

theorem getAMatrix_errors_witness:
  "getAMatrix 1 4 [Vec3 0 0 0, Vec3 1 0 0, Vec3 0 1 0, Vec3 0 0 0] [[0, 1, 2, 3]] = Inl LinAlgError \<and>
   getAMatrix 1 (length [Vec3 0 0 0, Vec3 1 0 0, Vec3 0 1 0, Vec3 0 0 1])
      [Vec3 0 0 0, Vec3 1 0 0, Vec3 0 1 0, Vec3 0 0 1] [[0, 1, 2, 3]] \<noteq> Inl ValueError"
proof -
  have "\<not> list_all (\<lambda>t. det3 (edge_mat [Vec3 0 0 0, Vec3 1 0 0, Vec3 0 1 0, Vec3 0 0 0] t) \<noteq> 0) [[0, 1, 2, 3]]"
    by (simp add: edge_mat_def cols3_def)
  then show ?thesis
    using getAMatrix_errors [of 1 "[Vec3 0 0 0, Vec3 1 0 0, Vec3 0 1 0, Vec3 0 0 0]" "[[0, 1, 2, 3]]" 4]
      getAMatrix_errors [of 1 "[Vec3 0 0 0, Vec3 1 0 0, Vec3 0 1 0, Vec3 0 0 1]" "[[0, 1, 2, 3]]" 4]
    by (simp add: tris4_in_range_def)
qed

text \<open>
  C22: the rows of one triangle depend on that triangle only.  Rows \<open>3i .. 3i + 2\<close> of
  \<open>A\<close> are the same for any two poses that agree on the four vertices of extended
  triangle \<open>i\<close>: the per-triangle assembly reads nothing but its own vertices, the
  independence the spec's concurrency model (section 5) relies on.
\<close>

theorem getAMatrix_rows_local:
  assumes "getAMatrix NF NV4 P T4 = Inr A" and "getAMatrix NF NV4 P' T4 = Inr A'"
    and "i < length T4" and "k < 3" and "\<forall>j<4. P' ! (T4 ! i ! j) = P ! (T4 ! i ! j)"
  shows "mulvec A' x ! (3 * i + k) = mulvec A x ! (3 * i + k)"
proof -
  have "edge_mat P' (T4 ! i) = edge_mat P (T4 ! i)"
    using assms(5) by (simp add: edge_mat_def)
  then show ?thesis
    using getAMatrix_mulvec_row [OF assms(1,3,4)] getAMatrix_mulvec_row [OF assms(2,3,4)] by simp
qed

theorem getAMatrix_rows_local_witness:
  "\<exists>A A'. getAMatrix 1 5 [Vec3 0 0 0, Vec3 1 0 0, Vec3 0 1 0, Vec3 0 0 1, Vec3 5 5 5] [[0, 1, 2, 3]] = Inr A \<and>
          getAMatrix 1 5 [Vec3 0 0 0, Vec3 1 0 0, Vec3 0 1 0, Vec3 0 0 1, Vec3 7 0 2] [[0, 1, 2, 3]] = Inr A' \<and>
          mulvec A' [1, 2, 3, 4, 5] ! 2 = mulvec A [1, 2, 3, 4, 5] ! 2"
proof -
  obtain A where A: "getAMatrix 1 5 [Vec3 0 0 0, Vec3 1 0 0, Vec3 0 1 0, Vec3 0 0 1, Vec3 5 5 5] [[0, 1, 2, 3]] = Inr A"
    by (simp add: getAMatrix_eq tris4_in_range_def frames_invertible_def edge_mat_def det3_cols3)
  obtain A' where A': "getAMatrix 1 5 [Vec3 0 0 0, Vec3 1 0 0, Vec3 0 1 0, Vec3 0 0 1, Vec3 7 0 2] [[0, 1, 2, 3]] = Inr A'"
    by (simp add: getAMatrix_eq tris4_in_range_def frames_invertible_def edge_mat_def det3_cols3)
  have "mulvec A' [1, 2, 3, 4, 5] ! (3 * 0 + 2) = mulvec A [1, 2, 3, 4, 5] ! (3 * 0 + 2)"
    by (rule getAMatrix_rows_local [OF A A']) (simp_all add: all_less_four)
  with A A' show ?thesis by (auto simp: numeral_2_eq_2)
qed

end
