(* ===== verification/Transfer_Solver.thy ===== *)
theory Transfer_Solver
  imports Coeff
begin

text \<open>
  The Per-Frame Transfer Solver: the class \<open>DeformationTranferer\<close>
  (\<open>src/DeformationTransfer.py\<close>, lines 95--152) with its constructor and
  \<open>beginDeformationTransfer\<close>, and the part of \<open>VideoMesh\<close> it reads.  The
  mesh object of the external library \<open>S3DGLPy\<close> is the record \<open>PolyMesh\<close> of the
  positions and triangles it exposes.  The least-squares solver \<open>scipy.sparse.linalg.lsqr\<close>
  is not modelled: the orchestration takes it as a parameter \<open>lsqr\<close> and the lemmas
  say what they need of it.  A frame step extends the old and new source poses,
  builds \<open>S\<close> and \<open>A\<close>, solves three least-squares problems, writes the three
  solutions into the columns of the target's extended pose (numpy's slice assignment,
  with its broadcasting rule) and emits the first \<open>NVertices\<close> rows; the loop runs
  the steps strictly in frame order and the results are stored in the warped video
  only when every step has succeeded.
\<close>

record PolyMesh =
  VPos :: pose
  ITris :: "tri list"
  needsDisplayUpdate :: bool

text \<open>\<open>Frames\<close> is an \<open>NFrames \<times> NVertices \<times> 3\<close> array; \<open>FrameWidth\<close> is its
  \<open>shape[1]\<close>.\<close>

record VideoMesh =
  Frames :: "pose list"
  FrameWidth :: nat
  m :: PolyMesh

record DeformationTranferer =
  origVideo :: VideoMesh
  warpedVideo :: VideoMesh
  origFrames :: "pose list"
  warpedFrames :: "pose list"
  origMesh :: PolyMesh
  warpedMesh :: PolyMesh
  NFrames :: nat
  NFaces :: nat
  count :: nat
  NVertices :: nat
  NVertices4 :: nat
  origTris :: "tri list"
  warpedTris :: "tri list"
  origTris4 :: "nat list list"
  warpedTris4 :: "nat list list"

type_synonym lsq_solver = "sparse \<Rightarrow> real list \<Rightarrow> real list"

text \<open>\<open>VideoMesh.__init__\<close>, given the mesh \<open>PolyMesh.loadFile\<close> read from
  \<open>initialMeshFilename\<close>: one mesh file has its \<open>z\<close> axis flipped; the video is one
  frame, the mesh's positions (\<open>np.reshape\<close> to \<open>1 \<times> N \<times> 3\<close>).\<close>

definition VideoMesh_init :: "string \<Rightarrow> PolyMesh \<Rightarrow> VideoMesh" where
  "VideoMesh_init initialMeshFilename mesh =
     (let mesh' = (if initialMeshFilename = ''NotreDameFrontHalfMouthCut.off''
                   then mesh\<lparr>VPos := map (\<lambda>p. set_coord 2 (- coord 2 p) p) (VPos mesh),
                             needsDisplayUpdate := True\<rparr>
                   else mesh)
      in \<lparr>Frames = [VPos mesh'], FrameWidth = length (VPos mesh'), m = mesh'\<rparr>)"

text \<open>\<open>np.hstack((T, np.reshape(col, (F, 1))))\<close>: one more column.\<close>

definition hstack_col :: "nat list list \<Rightarrow> nat list \<Rightarrow> nat list list result" where
  "hstack_col T col = (if length T = length col then Inr (map2 (\<lambda>t c. t @ [c]) T col) else Inl ValueError)"

definition DeformationTranferer_init :: "VideoMesh \<Rightarrow> VideoMesh \<Rightarrow> DeformationTranferer result" where
  "DeformationTranferer_init ov wv =
     (let origFrames = Frames ov; warpedFrames = Frames wv;
          origMesh = m ov; warpedMesh = m wv;
          NFrames = length origFrames; NFaces = length (ITris origMesh)
      in if \<not> (FrameWidth ov = length (VPos origMesh) \<and>
               length (VPos origMesh) = length (VPos warpedMesh) \<and>
               length (VPos warpedMesh) = FrameWidth wv \<and>
               length (ITris origMesh) = length (ITris warpedMesh))
         then Inl AssertionError
         else
           let NVertices = FrameWidth ov; NVertices4 = NVertices + NFaces;
               origTris = ITris origMesh; warpedTris = ITris warpedMesh
           in if length origTris \<noteq> length warpedTris then Inl AssertionError
              else bindE (hstack_col origTris [NVertices..<NVertices4]) (\<lambda>origTris4.
                   bindE (hstack_col warpedTris [NVertices..<NVertices4]) (\<lambda>warpedTris4.
                   Inr \<lparr>origVideo = ov, warpedVideo = wv, origFrames = origFrames,
                        warpedFrames = warpedFrames, origMesh = origMesh, warpedMesh = warpedMesh,
                        NFrames = NFrames, NFaces = NFaces, count = 0, NVertices = NVertices,
                        NVertices4 = NVertices4, origTris = origTris, warpedTris = warpedTris,
                        origTris4 = origTris4, warpedTris4 = warpedTris4\<rparr>)))"

text \<open>\<open>VPos4[:, k] = xs\<close>.\<close>

definition set_col :: "nat \<Rightarrow> pose \<Rightarrow> real list \<Rightarrow> pose" where
  "set_col k P xs = map2 (\<lambda>v x. set_coord k x v) P xs"

text \<open>One iteration of the frame loop of \<open>beginDeformationTransfer\<close> (lines 141--149):
  the new old-source and old-target extended poses.\<close>

definition transfer_step ::
  "lsq_solver \<Rightarrow> DeformationTranferer \<Rightarrow> pose \<Rightarrow> pose \<Rightarrow> pose \<Rightarrow> (pose \<times> pose) result" where
  "transfer_step lsqr st origOldVPos4 warpedOldVPos4 origFrame =
     bindE (getVPos4 origFrame (origTris st)) (\<lambda>origNewVPos4.
     bindE (getSMatrix (NFaces st) origOldVPos4 origNewVPos4 (origTris4 st)) (\<lambda>S.
     bindE (getAMatrix (NFaces st) (NVertices4 st) warpedOldVPos4 (warpedTris4 st)) (\<lambda>A.
     bindE (broadcast (length warpedOldVPos4) (lsqr A (S_row S 0))) (\<lambda>x0.
     let w0 = set_col 0 warpedOldVPos4 x0 in
     bindE (broadcast (length w0) (lsqr A (S_row S 1))) (\<lambda>x1.
     let w1 = set_col 1 w0 x1 in
     bindE (broadcast (length w1) (lsqr A (S_row S 2))) (\<lambda>x2.
     let w2 = set_col 2 w1 x2 in
     Inr (origNewVPos4, w2)))))))"

text \<open>The loop over the remaining source frames; each iteration emits
  \<open>warpedOldVPos4[np.arange(NVertices), :]\<close> (line 151).\<close>

fun transfer_loop ::
  "lsq_solver \<Rightarrow> DeformationTranferer \<Rightarrow> pose \<Rightarrow> pose \<Rightarrow> pose list \<Rightarrow> pose list result" where
  "transfer_loop lsqr st o4 w4 [] = Inr []"
| "transfer_loop lsqr st o4 w4 (f # fs) =
     bindE (transfer_step lsqr st o4 w4 f) (\<lambda>(o4', w4').
     bindE (gather w4' [0..<NVertices st]) (\<lambda>frame.
     bindE (transfer_loop lsqr st o4' w4' fs) (\<lambda>rest. Inr (frame # rest))))"

definition beginDeformationTransfer :: "lsq_solver \<Rightarrow> DeformationTranferer \<Rightarrow> DeformationTranferer result" where
  "beginDeformationTransfer lsqr st =
     (if warpedFrames st = [] \<or> NFrames st = 0 then Inl IndexError
      else
        bindE (getVPos4 (origFrames st ! 0) (origTris st)) (\<lambda>origOldVPos4.
        bindE (getVPos4 (warpedFrames st ! 0) (warpedTris st)) (\<lambda>warpedOldVPos4.
        bindE (transfer_loop lsqr st origOldVPos4 warpedOldVPos4
                 (map (\<lambda>i. origFrames st ! i) [1..<NFrames st])) (\<lambda>rest.
        Inr (st\<lparr>warpedVideo := (warpedVideo st)\<lparr>Frames := warpedFrames st ! 0 # rest\<rparr>\<rparr>)))))"

text \<open>The shape invariant of a numpy frame array: every frame has \<open>FrameWidth\<close> rows.\<close>

definition video_wf :: "VideoMesh \<Rightarrow> bool" where
  "video_wf v = list_all (\<lambda>f. length f = FrameWidth v) (Frames v)"

text \<open>What the constructor establishes about the fields the frame loop reads.\<close>

definition tris4_of :: "tri list \<Rightarrow> nat \<Rightarrow> nat list list" where
  "tris4_of T n = map (\<lambda>i. T ! i @ [n + i]) [0..<length T]"

definition transferer_wf :: "DeformationTranferer \<Rightarrow> bool" where
  "transferer_wf st \<longleftrightarrow>
     NFrames st = length (origFrames st) \<and> NFaces st = length (origTris st) \<and>
     length (warpedTris st) = NFaces st \<and> NVertices4 st = NVertices st + NFaces st \<and>
     origTris4 st = tris4_of (origTris st) (NVertices st) \<and>
     warpedTris4 st = tris4_of (warpedTris st) (NVertices st) \<and>
     list_all (\<lambda>f. length f = NVertices st) (origFrames st) \<and>
     list_all (\<lambda>f. length f = NVertices st) (warpedFrames st)"

subsection \<open>The constructor\<close>

lemma length_set_col [simp]: "length (set_col k P xs) = min (length P) (length xs)"
  by (simp add: set_col_def)

lemma hstack_col_upt: "hstack_col T [n..<n + length T] = Inr (tris4_of T n)"
  by (simp add: hstack_col_def tris4_of_def, rule nth_equalityI) auto

lemma length_tris4_of [simp]: "length (tris4_of T n) = length T"
  by (simp add: tris4_of_def)

lemma nth_tris4_of [simp]: "i < length T \<Longrightarrow> tris4_of T n ! i = T ! i @ [n + i]"
  by (simp add: tris4_of_def)

lemma DeformationTranferer_init_eq:
  "DeformationTranferer_init ov wv =
     (if FrameWidth ov = length (VPos (m ov)) \<and> length (VPos (m ov)) = length (VPos (m wv)) \<and>
         length (VPos (m wv)) = FrameWidth wv \<and> length (ITris (m ov)) = length (ITris (m wv))
      then Inr \<lparr>origVideo = ov, warpedVideo = wv, origFrames = Frames ov,
                warpedFrames = Frames wv, origMesh = m ov, warpedMesh = m wv,
                NFrames = length (Frames ov), NFaces = length (ITris (m ov)), count = 0,
                NVertices = FrameWidth ov, NVertices4 = FrameWidth ov + length (ITris (m ov)),
                origTris = ITris (m ov), warpedTris = ITris (m wv),
                origTris4 = tris4_of (ITris (m ov)) (FrameWidth ov),
                warpedTris4 = tris4_of (ITris (m wv)) (FrameWidth ov)\<rparr>
      else Inl AssertionError)"
  using hstack_col_upt [of "ITris (m ov)" "FrameWidth ov"] hstack_col_upt [of "ITris (m wv)" "FrameWidth ov"]
  by (auto simp: DeformationTranferer_init_def Let_def)

lemma DeformationTranferer_init_wf:
  assumes "DeformationTranferer_init ov wv = Inr st" "video_wf ov" "video_wf wv"
  shows "transferer_wf st"
  using assms by (auto simp: DeformationTranferer_init_eq transferer_wf_def video_wf_def split: if_splits)

text \<open>
  C24: the constructor's checks.  \<open>DeformationTranferer.__init__\<close> fails, always
  with \<open>AssertionError\<close>, exactly when the frame widths, the two meshes' vertex
  counts or their triangle counts disagree.  It checks nothing else: two meshes with the
  same counts but different triangle lists are accepted, and each keeps its own
  triangles, although the transfer pairs source and target triangles by position.
\<close>

theorem DeformationTranferer_init_checks:
  "(DeformationTranferer_init ov wv = Inl e \<longleftrightarrow>
      e = AssertionError \<and>
      \<not> (FrameWidth ov = length (VPos (m ov)) \<and> length (VPos (m ov)) = length (VPos (m wv)) \<and>
         length (VPos (m wv)) = FrameWidth wv \<and> length (ITris (m ov)) = length (ITris (m wv)))) \<and>
   (FrameWidth ov = length (VPos (m ov)) \<and> length (VPos (m ov)) = length (VPos (m wv)) \<and>
    length (VPos (m wv)) = FrameWidth wv \<and> length (ITris (m ov)) = length (ITris (m wv)) \<longrightarrow>
      (\<exists>st. DeformationTranferer_init ov wv = Inr st \<and>
            origTris st = ITris (m ov) \<and> warpedTris st = ITris (m wv)))"
  by (auto simp: DeformationTranferer_init_eq)

theorem DeformationTranferer_init_checks_witness:
  "(\<exists>st. DeformationTranferer_init \<lparr>Frames = [[Vec3 0 0 0, Vec3 1 0 0, Vec3 0 1 0]], FrameWidth = 3, m = \<lparr>VPos = [Vec3 0 0 0, Vec3 1 0 0, Vec3 0 1 0], ITris = [[0, 1, 2]], needsDisplayUpdate = False\<rparr>\<rparr>
          \<lparr>Frames = [[Vec3 0 0 0, Vec3 1 0 0, Vec3 0 1 0]], FrameWidth = 3, m = \<lparr>VPos = [Vec3 0 0 0, Vec3 1 0 0, Vec3 0 1 0], ITris = [[2, 0, 1]], needsDisplayUpdate = False\<rparr>\<rparr> = Inr st \<and>
        origTris st = [[0, 1, 2]] \<and> warpedTris st = [[2, 0, 1]]) \<and>
   DeformationTranferer_init \<lparr>Frames = [[Vec3 0 0 0, Vec3 1 0 0, Vec3 0 1 0]], FrameWidth = 3, m = \<lparr>VPos = [Vec3 0 0 0, Vec3 1 0 0, Vec3 0 1 0], ITris = [[0, 1, 2]], needsDisplayUpdate = False\<rparr>\<rparr>
     \<lparr>Frames = [[Vec3 0 0 0, Vec3 1 0 0]], FrameWidth = 2, m = \<lparr>VPos = [Vec3 0 0 0, Vec3 1 0 0], ITris = [[0, 1, 1]], needsDisplayUpdate = False\<rparr>\<rparr> = Inl AssertionError"
proof
  show "\<exists>st. DeformationTranferer_init \<lparr>Frames = [[Vec3 0 0 0, Vec3 1 0 0, Vec3 0 1 0]], FrameWidth = 3, m = \<lparr>VPos = [Vec3 0 0 0, Vec3 1 0 0, Vec3 0 1 0], ITris = [[0, 1, 2]], needsDisplayUpdate = False\<rparr>\<rparr>
          \<lparr>Frames = [[Vec3 0 0 0, Vec3 1 0 0, Vec3 0 1 0]], FrameWidth = 3, m = \<lparr>VPos = [Vec3 0 0 0, Vec3 1 0 0, Vec3 0 1 0], ITris = [[2, 0, 1]], needsDisplayUpdate = False\<rparr>\<rparr> = Inr st \<and>
        origTris st = [[0, 1, 2]] \<and> warpedTris st = [[2, 0, 1]]"
    using DeformationTranferer_init_checks [of "\<lparr>Frames = [[Vec3 0 0 0, Vec3 1 0 0, Vec3 0 1 0]], FrameWidth = 3, m = \<lparr>VPos = [Vec3 0 0 0, Vec3 1 0 0, Vec3 0 1 0], ITris = [[0, 1, 2]], needsDisplayUpdate = False\<rparr>\<rparr>"
        "\<lparr>Frames = [[Vec3 0 0 0, Vec3 1 0 0, Vec3 0 1 0]], FrameWidth = 3, m = \<lparr>VPos = [Vec3 0 0 0, Vec3 1 0 0, Vec3 0 1 0], ITris = [[2, 0, 1]], needsDisplayUpdate = False\<rparr>\<rparr>"] by simp
  show "DeformationTranferer_init \<lparr>Frames = [[Vec3 0 0 0, Vec3 1 0 0, Vec3 0 1 0]], FrameWidth = 3, m = \<lparr>VPos = [Vec3 0 0 0, Vec3 1 0 0, Vec3 0 1 0], ITris = [[0, 1, 2]], needsDisplayUpdate = False\<rparr>\<rparr>
     \<lparr>Frames = [[Vec3 0 0 0, Vec3 1 0 0]], FrameWidth = 2, m = \<lparr>VPos = [Vec3 0 0 0, Vec3 1 0 0], ITris = [[0, 1, 1]], needsDisplayUpdate = False\<rparr>\<rparr> = Inl AssertionError"
    using DeformationTranferer_init_checks [of "\<lparr>Frames = [[Vec3 0 0 0, Vec3 1 0 0, Vec3 0 1 0]], FrameWidth = 3, m = \<lparr>VPos = [Vec3 0 0 0, Vec3 1 0 0, Vec3 0 1 0], ITris = [[0, 1, 2]], needsDisplayUpdate = False\<rparr>\<rparr>"
        "\<lparr>Frames = [[Vec3 0 0 0, Vec3 1 0 0]], FrameWidth = 2, m = \<lparr>VPos = [Vec3 0 0 0, Vec3 1 0 0], ITris = [[0, 1, 1]], needsDisplayUpdate = False\<rparr>\<rparr>" AssertionError] by simp
qed

subsection \<open>Shape of the output\<close>

lemma gather_upt_take: "n \<le> length xs \<Longrightarrow> gather xs [0..<n] = Inr (take n xs)"
  by (simp add: list_all_iff, rule nth_equalityI) auto

lemma gather_upt_length: "gather xs [0..<n] = Inr ys \<Longrightarrow> length ys = n"
  by (auto simp: gather_eq_Inr_iff)

lemma transfer_loop_shape:
  "transfer_loop lsqr st o4 w4 fs = Inr out \<Longrightarrow>
     length out = length fs \<and> list_all (\<lambda>f. length f = NVertices st) out"
proof (induction fs arbitrary: o4 w4 out)
  case Nil
  then show ?case by simp
next
  case (Cons f fs)
  from Cons.prems obtain o4' w4' frame rest where
    "transfer_step lsqr st o4 w4 f = Inr (o4', w4')" and g: "gather w4' [0..<NVertices st] = Inr frame"
    and r: "transfer_loop lsqr st o4' w4' fs = Inr rest" and out: "out = frame # rest"
    by (auto simp: bindE_eq_Inr_iff split: prod.splits)
  then show ?case
    using Cons.IH [OF r] gather_upt_length [OF g] by simp
qed

text \<open>What a successful run returns.\<close>

lemma beginDeformationTransfer_result:
  assumes "transferer_wf st" and "beginDeformationTransfer lsqr st = Inr st'"
  shows "length (Frames (warpedVideo st')) = NFrames st \<and>
         list_all (\<lambda>f. length f = NVertices st) (Frames (warpedVideo st')) \<and>
         Frames (warpedVideo st') ! 0 = warpedFrames st ! 0 \<and>
         st' = st\<lparr>warpedVideo := (warpedVideo st)\<lparr>Frames := Frames (warpedVideo st')\<rparr>\<rparr>"
proof -
  from assms(2) have ne: "warpedFrames st \<noteq> []" "NFrames st \<noteq> 0"
    by (auto simp: beginDeformationTransfer_def split: if_splits)
  with assms(2) obtain o4 w4 rest where
    r: "transfer_loop lsqr st o4 w4 (map (\<lambda>i. origFrames st ! i) [1..<NFrames st]) = Inr rest"
    and st': "st' = st\<lparr>warpedVideo := (warpedVideo st)\<lparr>Frames := warpedFrames st ! 0 # rest\<rparr>\<rparr>"
    by (auto simp: beginDeformationTransfer_def bindE_eq_Inr_iff)
  have w0: "length (warpedFrames st ! 0) = NVertices st"
    using assms(1) ne(1) by (auto simp: transferer_wf_def list_all_iff)
  show ?thesis
    using transfer_loop_shape [OF r] ne w0 by (simp add: st')
qed

text \<open>
  C7: topology preservation.  Whatever the least-squares solver returns, a
  successful \<open>beginDeformationTransfer\<close> stores in the warped video exactly
  \<open>NFrames\<close> frames of \<open>NVertices\<close> vertices each, frame 0 is the target's
  reference pose unchanged, and nothing else of the transferer changes.
\<close>

theorem beginDeformationTransfer_shape:
  assumes "transferer_wf st" and "beginDeformationTransfer lsqr st = Inr st'"
  shows "length (Frames (warpedVideo st')) = NFrames st \<and>
         list_all (\<lambda>f. length f = NVertices st) (Frames (warpedVideo st')) \<and>
         Frames (warpedVideo st') ! 0 = warpedFrames st ! 0 \<and>
         st' = st\<lparr>warpedVideo := (warpedVideo st)\<lparr>Frames := Frames (warpedVideo st')\<rparr>\<rparr>"
  using beginDeformationTransfer_result [OF assms] .

text \<open>
  C25: the edge cases of a run.  An empty source video (\<open>NFrames = 0\<close>) or an empty
  target video makes \<open>resultFrames[0, :, :] = warpedFrames[0, :, :]\<close> raise
  \<open>IndexError\<close>; so does a triangle corner outside the source's frame 0.  A
  one-frame video runs no iteration: for any solver the result is the target's
  reference pose, unchanged.
\<close>

theorem beginDeformationTransfer_edge_cases:
  "(warpedFrames st = [] \<or> NFrames st = 0 \<longrightarrow> beginDeformationTransfer lsqr st = Inl IndexError) \<and>
   (warpedFrames st \<noteq> [] \<and> NFrames st \<noteq> 0 \<and> \<not> tris_in_range (length (origFrames st ! 0)) (origTris st) \<longrightarrow>
      beginDeformationTransfer lsqr st = Inl IndexError) \<and>
   (NFrames st = 1 \<and> warpedFrames st \<noteq> [] \<and> tris_in_range (length (origFrames st ! 0)) (origTris st) \<and>
    tris_in_range (length (warpedFrames st ! 0)) (warpedTris st) \<longrightarrow>
      beginDeformationTransfer lsqr st =
        Inr (st\<lparr>warpedVideo := (warpedVideo st)\<lparr>Frames := [warpedFrames st ! 0]\<rparr>\<rparr>))"
  by (simp add: beginDeformationTransfer_def getVPos4_eq)

theorem beginDeformationTransfer_edge_cases_witness:
  "(\<exists>st. DeformationTranferer_init \<lparr>Frames = [], FrameWidth = 3, m = \<lparr>VPos = [Vec3 0 0 0, Vec3 1 0 0, Vec3 0 1 0], ITris = [[0::nat, 1, 2]], needsDisplayUpdate = False\<rparr>\<rparr>
          \<lparr>Frames = [[Vec3 0 0 0, Vec3 1 0 0, Vec3 0 1 0]], FrameWidth = 3, m = \<lparr>VPos = [Vec3 0 0 0, Vec3 1 0 0, Vec3 0 1 0], ITris = [[0::nat, 1, 2]], needsDisplayUpdate = False\<rparr>\<rparr> = Inr st \<and>
        beginDeformationTransfer (\<lambda>A b. b) st = Inl IndexError) \<and>
   (\<exists>st. DeformationTranferer_init \<lparr>Frames = [[Vec3 0 0 0, Vec3 1 0 0, Vec3 0 1 0]], FrameWidth = 3, m = \<lparr>VPos = [Vec3 0 0 0, Vec3 1 0 0, Vec3 0 1 0], ITris = [[0::nat, 1, 2]], needsDisplayUpdate = False\<rparr>\<rparr>
          \<lparr>Frames = [[Vec3 0 0 0, Vec3 1 0 0, Vec3 0 1 0]], FrameWidth = 3, m = \<lparr>VPos = [Vec3 0 0 0, Vec3 1 0 0, Vec3 0 1 0], ITris = [[0::nat, 1, 2]], needsDisplayUpdate = False\<rparr>\<rparr> = Inr st \<and>
        beginDeformationTransfer (\<lambda>A b. b) st =
          Inr (st\<lparr>warpedVideo := (warpedVideo st)\<lparr>Frames := [[Vec3 0 0 0, Vec3 1 0 0, Vec3 0 1 0]]\<rparr>\<rparr>))"
proof
  obtain st where init: "DeformationTranferer_init \<lparr>Frames = [], FrameWidth = 3, m = \<lparr>VPos = [Vec3 0 0 0, Vec3 1 0 0, Vec3 0 1 0], ITris = [[0::nat, 1, 2]], needsDisplayUpdate = False\<rparr>\<rparr>
          \<lparr>Frames = [[Vec3 0 0 0, Vec3 1 0 0, Vec3 0 1 0]], FrameWidth = 3, m = \<lparr>VPos = [Vec3 0 0 0, Vec3 1 0 0, Vec3 0 1 0], ITris = [[0::nat, 1, 2]], needsDisplayUpdate = False\<rparr>\<rparr> = Inr st"
    by (simp add: DeformationTranferer_init_eq)
  moreover have "NFrames st = 0"
    using init by (auto simp: DeformationTranferer_init_eq)
  ultimately show "\<exists>st. DeformationTranferer_init \<lparr>Frames = [], FrameWidth = 3, m = \<lparr>VPos = [Vec3 0 0 0, Vec3 1 0 0, Vec3 0 1 0], ITris = [[0::nat, 1, 2]], needsDisplayUpdate = False\<rparr>\<rparr>
          \<lparr>Frames = [[Vec3 0 0 0, Vec3 1 0 0, Vec3 0 1 0]], FrameWidth = 3, m = \<lparr>VPos = [Vec3 0 0 0, Vec3 1 0 0, Vec3 0 1 0], ITris = [[0::nat, 1, 2]], needsDisplayUpdate = False\<rparr>\<rparr> = Inr st \<and>
        beginDeformationTransfer (\<lambda>A b. b) st = Inl IndexError"
    using beginDeformationTransfer_edge_cases [of st "\<lambda>A b. b"] by blast
next
  obtain st where init: "DeformationTranferer_init \<lparr>Frames = [[Vec3 0 0 0, Vec3 1 0 0, Vec3 0 1 0]], FrameWidth = 3, m = \<lparr>VPos = [Vec3 0 0 0, Vec3 1 0 0, Vec3 0 1 0], ITris = [[0::nat, 1, 2]], needsDisplayUpdate = False\<rparr>\<rparr>
          \<lparr>Frames = [[Vec3 0 0 0, Vec3 1 0 0, Vec3 0 1 0]], FrameWidth = 3, m = \<lparr>VPos = [Vec3 0 0 0, Vec3 1 0 0, Vec3 0 1 0], ITris = [[0::nat, 1, 2]], needsDisplayUpdate = False\<rparr>\<rparr> = Inr st"
    by (simp add: DeformationTranferer_init_eq)
  moreover have "NFrames st = 1 \<and> warpedFrames st = [[Vec3 0 0 0, Vec3 1 0 0, Vec3 0 1 0]] \<and> origFrames st = [[Vec3 0 0 0, Vec3 1 0 0, Vec3 0 1 0]] \<and>
                 origTris st = [[0, 1, 2]] \<and> warpedTris st = [[0, 1, 2]]"
    using init by (auto simp: DeformationTranferer_init_eq)
  ultimately show "\<exists>st. DeformationTranferer_init \<lparr>Frames = [[Vec3 0 0 0, Vec3 1 0 0, Vec3 0 1 0]], FrameWidth = 3, m = \<lparr>VPos = [Vec3 0 0 0, Vec3 1 0 0, Vec3 0 1 0], ITris = [[0::nat, 1, 2]], needsDisplayUpdate = False\<rparr>\<rparr>
          \<lparr>Frames = [[Vec3 0 0 0, Vec3 1 0 0, Vec3 0 1 0]], FrameWidth = 3, m = \<lparr>VPos = [Vec3 0 0 0, Vec3 1 0 0, Vec3 0 1 0], ITris = [[0::nat, 1, 2]], needsDisplayUpdate = False\<rparr>\<rparr> = Inr st \<and>
        beginDeformationTransfer (\<lambda>A b. b) st =
          Inr (st\<lparr>warpedVideo := (warpedVideo st)\<lparr>Frames := [[Vec3 0 0 0, Vec3 1 0 0, Vec3 0 1 0]]\<rparr>\<rparr>)"
    using beginDeformationTransfer_edge_cases [of st "\<lambda>A b. b"] by auto
qed

subsection \<open>Runs on a concrete video\<close>

text \<open>
  The facts that evaluate a run on a concrete mesh.  The runs below use a
  one-triangle source that stands still and the solver \<open>\<lambda>A b. 0 # b\<close>, which on this
  mesh returns the exact solution (the unit tetrahedron), so every step succeeds.
\<close>

lemmas transfer_eval_simps = DeformationTranferer_init_eq beginDeformationTransfer_def transfer_step_def
  getVPos4_eq vertex4_def face_normal_def vnorm_def getSMatrix_eq getAMatrix_eq frames_invertible_def
  tris4_in_range_def edge_mat_def det3_cols3 set_col_def tris4_of_def mmul_minv S_row_def mentry_mid
  numeral_eq_Suc

theorem beginDeformationTransfer_shape_witness:
  "\<exists>st st'. DeformationTranferer_init
       \<lparr>Frames = [[Vec3 0 0 0, Vec3 1 0 0, Vec3 0 1 0], [Vec3 0 0 0, Vec3 1 0 0, Vec3 0 1 0]],
        FrameWidth = 3, m = \<lparr>VPos = [Vec3 0 0 0, Vec3 1 0 0, Vec3 0 1 0], ITris = [[0::nat, 1, 2]], needsDisplayUpdate = False\<rparr>\<rparr>
       \<lparr>Frames = [[Vec3 0 0 0, Vec3 1 0 0, Vec3 0 1 0]],
        FrameWidth = 3, m = \<lparr>VPos = [Vec3 0 0 0, Vec3 1 0 0, Vec3 0 1 0], ITris = [[0::nat, 1, 2]], needsDisplayUpdate = False\<rparr>\<rparr> = Inr st \<and>
     beginDeformationTransfer (\<lambda>A b. 0 # b) st = Inr st' \<and>
     length (Frames (warpedVideo st')) = 2 \<and> list_all (\<lambda>f. length f = 3) (Frames (warpedVideo st'))"
proof -
  define ov where "ov = \<lparr>Frames = [[Vec3 0 0 0, Vec3 1 0 0, Vec3 0 1 0], [Vec3 0 0 0, Vec3 1 0 0, Vec3 0 1 0]],
        FrameWidth = 3, m = \<lparr>VPos = [Vec3 0 0 0, Vec3 1 0 0, Vec3 0 1 0], ITris = [[0::nat, 1, 2]], needsDisplayUpdate = False\<rparr>\<rparr>"
  define wv where "wv = \<lparr>Frames = [[Vec3 0 0 0, Vec3 1 0 0, Vec3 0 1 0]],
        FrameWidth = 3, m = \<lparr>VPos = [Vec3 0 0 0, Vec3 1 0 0, Vec3 0 1 0], ITris = [[0::nat, 1, 2]], needsDisplayUpdate = False\<rparr>\<rparr>"
  obtain st where init: "DeformationTranferer_init ov wv = Inr st"
    by (simp add: DeformationTranferer_init_eq ov_def wv_def)
  have wf: "transferer_wf st"
    using DeformationTranferer_init_wf [OF init] by (simp add: ov_def wv_def video_wf_def)
  obtain st' where run: "beginDeformationTransfer (\<lambda>A b. 0 # b) st = Inr st'"
    using init by (auto simp: transfer_eval_simps ov_def wv_def)
  have "NFrames st = 2 \<and> NVertices st = 3"
    using init by (auto simp: DeformationTranferer_init_eq ov_def wv_def)
  with beginDeformationTransfer_shape [OF wf run] init run show ?thesis
    unfolding ov_def wv_def by auto
qed

end
