(* ===== verification/Transfer_Correct.thy ===== *)
theory Transfer_Correct
  imports Transfer_Solver
begin

text \<open>
  Why the frame loop transfers deformations.  The solver \<open>lsqr\<close> is external; the
  lemmas here ask of it only what an exact least-squares solver does: when the system
  \<open>A x = b\<close> has a solution of the right length, it returns one (\<open>lsq_exact\<close>).
  \<open>exact_lsq\<close> is such a solver (it picks a solution by choice), used only to show that
  the contract can be met.  Poses are compared through \<open>frames_agree\<close>: equal edge
  matrices, triangle by triangle.  The core lemma \<open>transfer_step_exact\<close> says that if
  some extended pose \<open>Z\<close> realises on the target the source's deformation gradient
  \<open>V(o4') V(o4)\<^sup>-\<^sup>1\<close>, one step succeeds and its result agrees with \<open>Z\<close>: the
  three systems are then consistent, and \<open>A\<close> determines edge matrices
  (\<open>agree_from_mulvec\<close>).  Two instances drive the loop lemmas: a target that agrees
  with the source follows it (\<open>transfer_step_agree\<close>, \<open>transfer_loop_agree\<close>), and a
  source that stands still leaves the target's frames as they are
  (\<open>transfer_step_static\<close>, \<open>transfer_loop_static\<close>).  The contract does not fix
  the answer: \<open>shift_lsq lsqr\<close> is exact whenever \<open>lsqr\<close> is, and a loop run with
  it emits the frames of the run with \<open>lsqr\<close> moved by \<open>(1, 1, 1)\<close>
  (\<open>transfer_step_shift\<close>, \<open>transfer_loop_shift\<close>).
\<close>

definition lsq_exact :: "lsq_solver \<Rightarrow> bool" where
  "lsq_exact lsqr \<longleftrightarrow>
     (\<forall>A b. (\<exists>x. length x = ncols A \<and> mulvec A x = b) \<longrightarrow>
            length (lsqr A b) = ncols A \<and> mulvec A (lsqr A b) = b)"

definition exact_lsq :: lsq_solver where
  "exact_lsq A b =
     (if \<exists>x. length x = ncols A \<and> mulvec A x = b
      then SOME x. length x = ncols A \<and> mulvec A x = b else replicate (ncols A) 0)"

text \<open>A second solver built from \<open>lsqr\<close>: it adds \<open>1\<close> to every entry of the answer
  whenever that does not change \<open>A x\<close>.\<close>

definition shift_lsq :: "lsq_solver \<Rightarrow> lsq_solver" where
  "shift_lsq lsqr A b =
     (let x = lsqr A b in if mulvec A (map (\<lambda>y. y + 1) x) = mulvec A x then map (\<lambda>y. y + 1) x else x)"

definition frames_agree :: "pose \<Rightarrow> pose \<Rightarrow> nat list list \<Rightarrow> bool" where
  "frames_agree W Q T4 = list_all (\<lambda>t. edge_mat W t = edge_mat Q t) T4"

text \<open>The two edge vectors of a triangle from its first vertex.\<close>

definition tri_edges :: "pose \<Rightarrow> tri \<Rightarrow> vec3 \<times> vec3" where
  "tri_edges P t = (P ! (t ! 1) - P ! (t ! 0), P ! (t ! 2) - P ! (t ! 0))"

text \<open>The shape of a numpy triangle array: three indices per row.\<close>

definition tris_shape :: "tri list \<Rightarrow> bool" where
  "tris_shape T = list_all (\<lambda>t. length t = 3) T"

text \<open>A triangle list is connected when every triangle shares a vertex with an earlier
  one, and covers \<open>n\<close> vertices when each of them is a corner of some triangle.\<close>

definition tris_connected :: "tri list \<Rightarrow> bool" where
  "tris_connected T =
     list_all (\<lambda>i. list_ex (\<lambda>j. list_ex (\<lambda>v. v \<in> set (T ! i)) (T ! j)) [0..<i]) [1..<length T]"

definition tris_cover :: "nat \<Rightarrow> tri list \<Rightarrow> bool" where
  "tris_cover n T = list_all (\<lambda>v. list_ex (\<lambda>t. v \<in> set t) T) [0..<n]"

subsection \<open>The solver contract\<close>

lemma lsq_exact_exact_lsq: "lsq_exact exact_lsq"
proof (unfold lsq_exact_def, intro allI impI)
  fix A b
  assume ex: "\<exists>x. length x = ncols A \<and> mulvec A x = b"
  then have "length (SOME x. length x = ncols A \<and> mulvec A x = b) = ncols A \<and>
             mulvec A (SOME x. length x = ncols A \<and> mulvec A x = b) = b"
    by (rule someI_ex)
  with ex show "length (exact_lsq A b) = ncols A \<and> mulvec A (exact_lsq A b) = b"
    by (simp add: exact_lsq_def)
qed

lemma lsq_exactD:
  "lsq_exact lsqr \<Longrightarrow> length x = ncols A \<Longrightarrow> mulvec A x = b \<Longrightarrow>
     length (lsqr A b) = ncols A \<and> mulvec A (lsqr A b) = b"
  unfolding lsq_exact_def by blast

subsection \<open>Column updates\<close>

lemma coord_set_col:
  assumes "length xs = length P" "j < 3" "k < 3"
  shows "map (coord j) (set_col k P xs) = (if j = k then xs else map (coord j) P)"
  using assms by (auto simp: set_col_def intro!: nth_equalityI)

text \<open>The three slice assignments \<open>P[:, a] = x a\<close>, \<open>a = 0, 1, 2\<close>, followed by
  the rest \<open>k\<close> of the computation, when the solver returns vectors of the right
  length.\<close>

lemma three_columns:
  assumes "\<And>a. a < 3 \<Longrightarrow> length (x a) = length w"
  shows "bindE (broadcast (length w) (x 0)) (\<lambda>x0.
           let w0 = set_col 0 w x0 in
           bindE (broadcast (length w0) (x 1)) (\<lambda>x1.
           let w1 = set_col 1 w0 x1 in
           bindE (broadcast (length w1) (x 2)) (\<lambda>x2.
           let w2 = set_col 2 w1 x2 in k w2))) =
         k (set_col 2 (set_col 1 (set_col 0 w (x 0)) (x 1)) (x 2)) \<and>
         length (set_col 2 (set_col 1 (set_col 0 w (x 0)) (x 1)) (x 2)) = length w \<and>
         (\<forall>a<3. map (coord a) (set_col 2 (set_col 1 (set_col 0 w (x 0)) (x 1)) (x 2)) = x a)"
proof -
  have l: "length (x 0) = length w" "length (x 1) = length w" "length (x 2) = length w"
    using assms by auto
  have "a < 3 \<Longrightarrow> map (coord a) (set_col 2 (set_col 1 (set_col 0 w (x 0)) (x 1)) (x 2)) = x a" for a
    using l by (auto simp: coord_set_col less_Suc_eq numeral_3_eq_3 numeral_2_eq_2)
  with l show ?thesis by (simp add: Let_def)
qed

subsection \<open>Agreeing frames\<close>

lemma cols3_eq_iff: "cols3 a b c = cols3 a' b' c' \<longleftrightarrow> a = a' \<and> b = b' \<and> c = c'"
  by (cases a; cases b; cases c; cases a'; cases b'; cases c') (auto simp: cols3_def)

lemma edge_mat_eq_iff:
  "edge_mat W t = edge_mat Q t \<longleftrightarrow>
     W ! (t ! 1) - W ! (t ! 0) = Q ! (t ! 1) - Q ! (t ! 0) \<and>
     W ! (t ! 2) - W ! (t ! 0) = Q ! (t ! 2) - Q ! (t ! 0) \<and>
     W ! (t ! 3) - W ! (t ! 0) = Q ! (t ! 3) - Q ! (t ! 0)"
  by (simp add: edge_mat_def cols3_eq_iff)

lemma A_trips_agree: "frames_agree W Q T4 \<Longrightarrow> A_trips W T4 = A_trips Q T4"
  unfolding A_trips_def
  by (rule arg_cong [where f = concat], rule map_cong) (auto simp: frames_agree_def list_all_length)

lemma frames_invertible_agree:
  "frames_agree W Q T4 \<Longrightarrow> frames_invertible W T4 \<longleftrightarrow> frames_invertible Q T4"
  by (auto simp: frames_agree_def frames_invertible_def list_all_iff)

lemma getAMatrix_agree:
  "frames_agree W Q T4 \<Longrightarrow> length W = length Q \<Longrightarrow> getAMatrix NF NV4 W T4 = getAMatrix NF NV4 Q T4"
  by (simp add: getAMatrix_eq A_trips_agree frames_invertible_agree)

lemma S_row_inj:
  assumes "length S = length S'" and "\<And>a. a < 3 \<Longrightarrow> S_row S a = S_row S' a"
  shows "S = S'"
proof (rule nth_equalityI)
  show "length S = length S'" by fact
  fix i assume i: "i < length S"
  show "S ! i = S' ! i"
  proof (subst mat3_eq_entries, intro allI impI)
    fix j k :: nat assume j: "j < 3" and k: "k < 3"
    have "mentry (S ! i) j k = S_row S j ! (3 * i + k)"
      using i k by (simp add: S_row_nth)
    also have "\<dots> = S_row S' j ! (3 * i + k)"
      using assms(2) [OF j] by simp
    also have "\<dots> = mentry (S' ! i) j k"
      using i k assms(1) by (simp add: S_row_nth)
    finally show "mentry (S ! i) j k = mentry (S' ! i) j k" .
  qed
qed

text \<open>Two poses on which the operator built from an invertible pose agrees, axis by
  axis, have the same edge matrices.\<close>

lemma agree_from_mulvec:
  assumes A: "getAMatrix NF NV4 P T4 = Inr A"
    and W: "tris4_in_range (length W) T4" and Q: "tris4_in_range (length Q) T4"
    and eq: "\<And>a. a < 3 \<Longrightarrow> mulvec A (map (coord a) W) = mulvec A (map (coord a) Q)"
  shows "frames_agree W Q T4"
proof -
  from A have inv: "frames_invertible P T4" by (auto simp: getAMatrix_Inr)
  have "map (\<lambda>t. mmul (edge_mat W t) (minv (edge_mat P t))) T4 =
        map (\<lambda>t. mmul (edge_mat Q t) (minv (edge_mat P t))) T4"
    by (rule S_row_inj) (use eq getAMatrix_mulvec_grads [OF A W] getAMatrix_mulvec_grads [OF A Q] in auto)
  then have "\<forall>t\<in>set T4. mmul (edge_mat W t) (minv (edge_mat P t)) = mmul (edge_mat Q t) (minv (edge_mat P t))"
    by (simp add: map_eq_conv)
  with inv show ?thesis
    by (auto simp: frames_agree_def frames_invertible_def list_all_iff intro: mmul_right_cancel)
qed

subsection \<open>Extended poses\<close>

lemma nth_tris4_of_cols:
  assumes "i < length T" "length (T ! i) = 3" "j < 3"
  shows "tris4_of T n ! i ! j = T ! i ! j" and "tris4_of T n ! i ! 3 = n + i"
  using assms by (simp_all add: nth_append)

lemma tris4_of_in_range:
  assumes "tris_shape T" "tris_in_range n T"
  shows "tris4_in_range (n + length T) (tris4_of T n)"
  using assms by (auto simp: tris4_in_range_def tris_shape_def tris_in_range_def list_all_length nth_append)

lemma edge_mat_extended:
  assumes "i < length T" "length (T ! i) = 3" "tris_in_range (length P) T"
  shows "edge_mat (P @ map (vertex4 P) T) (tris4_of T (length P) ! i) =
           cols3 (P ! (T ! i ! 1) - P ! (T ! i ! 0)) (P ! (T ! i ! 2) - P ! (T ! i ! 0))
                 (vertex4 P (T ! i) - P ! (T ! i ! 0))"
  using assms tris_in_range_nth [OF assms(3,1)] by (simp add: edge_mat_def nth_append)

lemma extended_frames_invertible:
  assumes "tris_shape T" "tris_in_range (length P) T" "nondeg P T"
  shows "frames_invertible (P @ map (vertex4 P) T) (tris4_of T (length P))"
  unfolding frames_invertible_def list_all_length
proof (intro allI impI)
  fix i assume "i < length (tris4_of T (length P))"
  then have i: "i < length T" by simp
  from assms(1) i have len: "length (T ! i) = 3" by (simp add: tris_shape_def list_all_length)
  from assms(3) i have n: "face_normal P (T ! i) \<noteq> 0" by (simp add: nondeg_def list_all_length)
  show "det3 (edge_mat (P @ map (vertex4 P) T) (tris4_of T (length P) ! i)) \<noteq> 0"
    using det3_extended_frame [OF n] vnorm_pos [OF n] by (simp add: edge_mat_extended [OF i len assms(2)])
qed

subsection \<open>One step and the loop\<close>

text \<open>One step in closed form, once the three builders have succeeded and the solver
  returns vectors of the target's length.\<close>

lemma transfer_step_closed:
  assumes V: "getVPos4 f (origTris st) = Inr o4'"
    and S: "getSMatrix (NFaces st) o4 o4' (origTris4 st) = Inr S"
    and A: "getAMatrix (NFaces st) (NVertices4 st) w4 (warpedTris4 st) = Inr A"
    and x: "\<And>a. a < 3 \<Longrightarrow> length (lsqr A (S_row S a)) = length w4"
  shows "transfer_step lsqr st o4 w4 f =
           Inr (o4', set_col 2 (set_col 1 (set_col 0 w4 (lsqr A (S_row S 0))) (lsqr A (S_row S 1)))
                       (lsqr A (S_row S 2)))"
  using three_columns [of "\<lambda>a. lsqr A (S_row S a)" w4 "\<lambda>w2. Inr (o4', w2)"] x
  by (simp add: transfer_step_def V S A)

text \<open>What the three builders return inside a step on a well-formed transferer.\<close>

lemma transfer_step_setup:
  assumes wf: "transferer_wf st" and shape: "tris_shape (origTris st)"
    and range: "tris_in_range (NVertices st) (origTris st)"
    and same: "warpedTris st = origTris st"
    and o4: "length o4 = NVertices4 st" and w4: "length w4 = NVertices4 st"
    and f: "length f = NVertices st" "nondeg f (origTris st)"
    and inv: "frames_invertible o4 (origTris4 st)" "frames_invertible w4 (origTris4 st)"
  shows "getVPos4 f (origTris st) = Inr (f @ map (vertex4 f) (origTris st)) \<and>
         getSMatrix (NFaces st) o4 (f @ map (vertex4 f) (origTris st)) (origTris4 st) =
           Inr (map (\<lambda>t. mmul (edge_mat (f @ map (vertex4 f) (origTris st)) t) (minv (edge_mat o4 t)))
                  (origTris4 st)) \<and>
         getAMatrix (NFaces st) (NVertices4 st) w4 (warpedTris4 st) =
           Inr \<lparr>nrows = 3 * NFaces st, ncols = NVertices4 st, trips = A_trips w4 (origTris4 st)\<rparr> \<and>
         frames_invertible (f @ map (vertex4 f) (origTris st)) (origTris4 st) \<and>
         tris4_in_range (NVertices4 st) (origTris4 st)"
proof -
  have T4: "origTris4 st = tris4_of (origTris st) (NVertices st)" "warpedTris4 st = origTris4 st"
    using wf same by (simp_all add: transferer_wf_def)
  have NV4: "NVertices4 st = NVertices st + length (origTris st)" and NF: "NFaces st = length (origTris4 st)"
    using wf T4 by (simp_all add: transferer_wf_def)
  have range4: "tris4_in_range (NVertices4 st) (origTris4 st)"
    using tris4_of_in_range [OF shape range] by (simp add: T4 NV4)
  have inv': "frames_invertible (f @ map (vertex4 f) (origTris st)) (origTris4 st)"
    using extended_frames_invertible [OF shape _ f(2)] range f(1) by (simp add: T4)
  show ?thesis
    using range4 inv' inv o4 w4 f(1) range NV4 NF T4(2)
    by (simp add: getVPos4_Inr getSMatrix_Inr getAMatrix_Inr)
qed

text \<open>
  The core of one step with an exact solver.  If some extended pose \<open>Z\<close> of the
  right length realises on the target, triangle by triangle, the deformation gradient
  the source undergoes (\<open>V(Z) V(w4)\<^sup>-\<^sup>1 = V(o4') V(o4)\<^sup>-\<^sup>1\<close>), then the three
  least-squares problems are consistent: \<open>Z\<close> solves them, so the solver returns
  exact solutions of the target's length.
\<close>

lemma transfer_step_systems:
  assumes wf: "transferer_wf st" and shape: "tris_shape (origTris st)"
    and range: "tris_in_range (NVertices st) (origTris st)"
    and same: "warpedTris st = origTris st" and ex: "lsq_exact lsqr"
    and o4: "length o4 = NVertices4 st" "frames_invertible o4 (origTris4 st)"
    and w4: "length w4 = NVertices4 st" "frames_invertible w4 (origTris4 st)"
    and f: "length f = NVertices st" "nondeg f (origTris st)"
    and Z: "length Z = NVertices4 st"
      "\<forall>t\<in>set (origTris4 st). mmul (edge_mat Z t) (minv (edge_mat w4 t)) =
          mmul (edge_mat (f @ map (vertex4 f) (origTris st)) t) (minv (edge_mat o4 t))"
  obtains S A where
    "getVPos4 f (origTris st) = Inr (f @ map (vertex4 f) (origTris st))"
    "getSMatrix (NFaces st) o4 (f @ map (vertex4 f) (origTris st)) (origTris4 st) = Inr S"
    "getAMatrix (NFaces st) (NVertices4 st) w4 (warpedTris4 st) = Inr A"
    "getAMatrix (NFaces st) (NVertices4 st) w4 (origTris4 st) = Inr A"
    "\<And>a. a < 3 \<Longrightarrow> length (lsqr A (S_row S a)) = length w4 \<and> mulvec A (lsqr A (S_row S a)) = S_row S a"
    "\<And>a. a < 3 \<Longrightarrow> mulvec A (map (coord a) Z) = S_row S a"
    "frames_invertible (f @ map (vertex4 f) (origTris st)) (origTris4 st)"
    "tris4_in_range (NVertices4 st) (origTris4 st)"
proof -
  define T4 where "T4 = origTris4 st"
  define o4' where "o4' = f @ map (vertex4 f) (origTris st)"
  define S where "S = map (\<lambda>t. mmul (edge_mat o4' t) (minv (edge_mat o4 t))) T4"
  define A where "A = \<lparr>nrows = 3 * NFaces st, ncols = NVertices4 st, trips = A_trips w4 T4\<rparr>"
  note prep = transfer_step_setup [OF wf shape range same o4(1) w4(1) f o4(2) w4(2)]
  have T4w: "warpedTris4 st = T4"
    using wf same by (simp add: transferer_wf_def T4_def)
  have A: "getAMatrix (NFaces st) (NVertices4 st) w4 T4 = Inr A"
    using prep T4w by (simp add: A_def T4_def)
  have range4: "tris4_in_range (NVertices4 st) T4"
    using prep by (simp add: T4_def)
  have ZS: "map (\<lambda>t. mmul (edge_mat Z t) (minv (edge_mat w4 t))) T4 = S"
    using Z(2) by (simp add: S_def o4'_def T4_def)
  have sol: "mulvec A (map (coord a) Z) = S_row S a" if "a < 3" for a
    using getAMatrix_mulvec_grads [OF A _ that, of Z] range4 Z(1) ZS by simp
  have x: "length (lsqr A (S_row S a)) = length w4 \<and> mulvec A (lsqr A (S_row S a)) = S_row S a"
    if "a < 3" for a
    using lsq_exactD [OF ex _ sol [OF that]] Z(1) w4(1) by (simp add: A_def)
  show ?thesis
    by (rule that [of S A]) (use prep A T4w sol x in \<open>simp_all add: o4'_def S_def T4_def\<close>)
qed

text \<open>With the same hypotheses, the step succeeds and its target has the edge matrices
  of \<open>Z\<close>.\<close>

lemma transfer_step_exact:
  assumes wf: "transferer_wf st" and shape: "tris_shape (origTris st)"
    and range: "tris_in_range (NVertices st) (origTris st)"
    and same: "warpedTris st = origTris st" and ex: "lsq_exact lsqr"
    and o4: "length o4 = NVertices4 st" "frames_invertible o4 (origTris4 st)"
    and w4: "length w4 = NVertices4 st" "frames_invertible w4 (origTris4 st)"
    and f: "length f = NVertices st" "nondeg f (origTris st)"
    and Z: "length Z = NVertices4 st"
      "\<forall>t\<in>set (origTris4 st). mmul (edge_mat Z t) (minv (edge_mat w4 t)) =
          mmul (edge_mat (f @ map (vertex4 f) (origTris st)) t) (minv (edge_mat o4 t))"
  shows "\<exists>w4'. transfer_step lsqr st o4 w4 f = Inr (f @ map (vertex4 f) (origTris st), w4') \<and>
           length w4' = NVertices4 st \<and> frames_agree w4' Z (origTris4 st) \<and>
           frames_invertible (f @ map (vertex4 f) (origTris st)) (origTris4 st)"
proof -
  obtain S A where V: "getVPos4 f (origTris st) = Inr (f @ map (vertex4 f) (origTris st))"
    and S: "getSMatrix (NFaces st) o4 (f @ map (vertex4 f) (origTris st)) (origTris4 st) = Inr S"
    and Aw: "getAMatrix (NFaces st) (NVertices4 st) w4 (warpedTris4 st) = Inr A"
    and A: "getAMatrix (NFaces st) (NVertices4 st) w4 (origTris4 st) = Inr A"
    and x: "\<And>a. a < 3 \<Longrightarrow> length (lsqr A (S_row S a)) = length w4 \<and> mulvec A (lsqr A (S_row S a)) = S_row S a"
    and sol: "\<And>a. a < 3 \<Longrightarrow> mulvec A (map (coord a) Z) = S_row S a"
    and inv': "frames_invertible (f @ map (vertex4 f) (origTris st)) (origTris4 st)"
    and range4: "tris4_in_range (NVertices4 st) (origTris4 st)"
    by (rule transfer_step_systems [OF assms]) (rule that)
  have xl: "length (lsqr A (S_row S a)) = length w4" if "a < 3" for a
    using x [OF that] by (rule conjunct1)
  define W where "W = set_col 2 (set_col 1 (set_col 0 w4 (lsqr A (S_row S 0))) (lsqr A (S_row S 1)))
                        (lsqr A (S_row S 2))"
  have step: "transfer_step lsqr st o4 w4 f = Inr (f @ map (vertex4 f) (origTris st), W)"
    unfolding W_def by (rule transfer_step_closed [where lsqr = lsqr, OF V S Aw xl])
  note tc = three_columns [of "\<lambda>a. lsqr A (S_row S a)" w4 "\<lambda>w2. Inr w2", OF xl, folded W_def]
  have lenW: "length W = length w4" and coordW: "\<forall>a<3. map (coord a) W = lsqr A (S_row S a)"
    using tc by blast+
  have agree: "frames_agree W Z (origTris4 st)"
  proof (rule agree_from_mulvec [OF A])
    show "tris4_in_range (length W) (origTris4 st)" using range4 lenW w4(1) by simp
    show "tris4_in_range (length Z) (origTris4 st)" using range4 Z(1) by simp
    fix a :: nat assume "a < 3"
    then show "mulvec A (map (coord a) W) = mulvec A (map (coord a) Z)"
      using coordW x sol by simp
  qed
  show ?thesis
    using step lenW w4(1) agree inv' by (intro exI [of _ W]) simp
qed


lemma frames_agree_trans [trans]:
  "frames_agree U W T4 \<Longrightarrow> frames_agree W Q T4 \<Longrightarrow> frames_agree U Q T4"
  by (simp add: frames_agree_def list_all_iff)

lemma frames_agree_sym: "frames_agree W Q T4 \<Longrightarrow> frames_agree Q W T4"
  by (simp add: frames_agree_def list_all_iff)

text \<open>A target that agrees with the source follows it.\<close>

lemma transfer_step_agree:
  assumes wf: "transferer_wf st" and shape: "tris_shape (origTris st)"
    and range: "tris_in_range (NVertices st) (origTris st)"
    and same: "warpedTris st = origTris st" and ex: "lsq_exact lsqr"
    and o4: "length o4 = NVertices4 st" "frames_invertible o4 (origTris4 st)"
    and w4: "length w4 = NVertices4 st" "frames_agree w4 o4 (origTris4 st)"
    and f: "length f = NVertices st" "nondeg f (origTris st)"
  shows "\<exists>w4'. transfer_step lsqr st o4 w4 f = Inr (f @ map (vertex4 f) (origTris st), w4') \<and>
           length w4' = NVertices4 st \<and>
           frames_agree w4' (f @ map (vertex4 f) (origTris st)) (origTris4 st) \<and>
           frames_invertible (f @ map (vertex4 f) (origTris st)) (origTris4 st)"
proof (rule transfer_step_exact [OF wf shape range same ex o4 w4(1) _ f])
  show "frames_invertible w4 (origTris4 st)"
    using frames_invertible_agree [OF w4(2)] o4(2) by simp
  show "length (f @ map (vertex4 f) (origTris st)) = NVertices4 st"
    using wf f(1) by (simp add: transferer_wf_def)
  show "\<forall>t\<in>set (origTris4 st). mmul (edge_mat (f @ map (vertex4 f) (origTris st)) t) (minv (edge_mat w4 t)) =
          mmul (edge_mat (f @ map (vertex4 f) (origTris st)) t) (minv (edge_mat o4 t))"
    using w4(2) by (simp add: frames_agree_def list_all_iff)
qed

text \<open>A static source leaves the target's frames as they are.\<close>

lemma transfer_step_static:
  assumes wf: "transferer_wf st" and shape: "tris_shape (origTris st)"
    and range: "tris_in_range (NVertices st) (origTris st)"
    and same: "warpedTris st = origTris st" and ex: "lsq_exact lsqr"
    and f: "length f = NVertices st" "nondeg f (origTris st)"
    and w4: "length w4 = NVertices4 st" "frames_invertible w4 (origTris4 st)"
  shows "\<exists>w4'. transfer_step lsqr st (f @ map (vertex4 f) (origTris st)) w4 f =
             Inr (f @ map (vertex4 f) (origTris st), w4') \<and>
           length w4' = NVertices4 st \<and> frames_agree w4' w4 (origTris4 st)"
proof -
  have len: "length (f @ map (vertex4 f) (origTris st)) = NVertices4 st"
    using wf f(1) by (simp add: transferer_wf_def)
  have inv: "frames_invertible (f @ map (vertex4 f) (origTris st)) (origTris4 st)"
    using extended_frames_invertible [OF shape _ f(2)] range f(1) wf by (simp add: transferer_wf_def)
  have "\<forall>t\<in>set (origTris4 st). mmul (edge_mat w4 t) (minv (edge_mat w4 t)) =
          mmul (edge_mat (f @ map (vertex4 f) (origTris st)) t) (minv (edge_mat (f @ map (vertex4 f) (origTris st)) t))"
    using w4(2) inv by (simp add: frames_invertible_def list_all_iff mmul_minv)
  from transfer_step_exact [OF wf shape range same ex len inv w4 f w4(1) this]
  show ?thesis by blast
qed

lemma tri_edges_from_agree:
  assumes agree: "frames_agree W (f @ map (vertex4 f) T) (tris4_of T (length f))"
    and shape: "tris_shape T" and range: "tris_in_range (length f) T"
    and le: "length f \<le> length W" and t: "t \<in> set T"
  shows "tri_edges (take (length f) W) t = tri_edges f t"
proof -
  from t obtain i where i: "i < length T" and ti: "t = T ! i" by (auto simp: in_set_conv_nth)
  from shape i have len: "length (T ! i) = 3" by (simp add: tris_shape_def list_all_length)
  from tris_in_range_nth [OF range i] have idx: "T ! i ! 0 < length f" "T ! i ! 1 < length f" "T ! i ! 2 < length f"
    by auto
  from agree i have "edge_mat W (tris4_of T (length f) ! i) = edge_mat (f @ map (vertex4 f) T) (tris4_of T (length f) ! i)"
    by (simp add: frames_agree_def list_all_length)
  then have "W ! (T ! i ! 1) - W ! (T ! i ! 0) = f ! (T ! i ! 1) - f ! (T ! i ! 0) \<and>
             W ! (T ! i ! 2) - W ! (T ! i ! 0) = f ! (T ! i ! 2) - f ! (T ! i ! 0)"
    using i len idx by (simp add: edge_mat_eq_iff nth_append)
  then show ?thesis
    using idx le by (simp add: tri_edges_def ti)
qed

lemma transfer_loop_agree:
  assumes wf: "transferer_wf st" and shape: "tris_shape (origTris st)"
    and range: "tris_in_range (NVertices st) (origTris st)"
    and same: "warpedTris st = origTris st" and ex: "lsq_exact lsqr"
    and "length o4 = NVertices4 st" "frames_invertible o4 (origTris4 st)"
    and "length w4 = NVertices4 st" "frames_agree w4 o4 (origTris4 st)"
    and "list_all (\<lambda>f. length f = NVertices st \<and> nondeg f (origTris st)) fs"
  shows "\<exists>out. transfer_loop lsqr st o4 w4 fs = Inr out \<and> length out = length fs \<and>
           (\<forall>i<length fs. \<forall>t\<in>set (origTris st). tri_edges (out ! i) t = tri_edges (fs ! i) t)"
  using assms(6-)
proof (induction fs arbitrary: o4 w4)
  case Nil
  then show ?case by simp
next
  case (Cons f fs)
  from Cons.prems(5) have f: "length f = NVertices st" "nondeg f (origTris st)"
    and fs: "list_all (\<lambda>f. length f = NVertices st \<and> nondeg f (origTris st)) fs" by auto
  obtain w4' where step: "transfer_step lsqr st o4 w4 f = Inr (f @ map (vertex4 f) (origTris st), w4')"
    and len': "length w4' = NVertices4 st"
    and agree: "frames_agree w4' (f @ map (vertex4 f) (origTris st)) (origTris4 st)"
    and inv': "frames_invertible (f @ map (vertex4 f) (origTris st)) (origTris4 st)"
    using transfer_step_agree [OF wf shape range same ex Cons.prems(1-4) f] by blast
  have lenV: "length (f @ map (vertex4 f) (origTris st)) = NVertices4 st"
    using wf f by (simp add: transferer_wf_def)
  obtain rest where rest: "transfer_loop lsqr st (f @ map (vertex4 f) (origTris st)) w4' fs = Inr rest"
    and lenr: "length rest = length fs"
    and edges: "\<forall>i<length fs. \<forall>t\<in>set (origTris st). tri_edges (rest ! i) t = tri_edges (fs ! i) t"
    using Cons.IH [OF lenV inv' len' agree fs] by blast
  have le: "NVertices st \<le> length w4'"
    using len' wf by (simp add: transferer_wf_def)
  have frame: "gather w4' [0..<NVertices st] = Inr (take (NVertices st) w4')"
    using gather_upt_take [OF le] .
  have e0: "\<forall>t\<in>set (origTris st). tri_edges (take (NVertices st) w4') t = tri_edges f t"
    using tri_edges_from_agree [of w4' f "origTris st"] agree shape range le f(1) wf
    by (simp add: transferer_wf_def)
  show ?case
    using step frame rest lenr edges e0 by (auto simp: nth_Cons split: nat.splits)
qed

lemma transfer_loop_static:
  assumes wf: "transferer_wf st" and shape: "tris_shape (origTris st)"
    and range: "tris_in_range (NVertices st) (origTris st)"
    and same: "warpedTris st = origTris st" and ex: "lsq_exact lsqr"
    and f: "length f = NVertices st" "nondeg f (origTris st)"
    and w0: "length w0 = NVertices st"
      "frames_invertible (w0 @ map (vertex4 w0) (origTris st)) (origTris4 st)"
    and "length w4 = NVertices4 st" "frames_agree w4 (w0 @ map (vertex4 w0) (origTris st)) (origTris4 st)"
    and "list_all (\<lambda>g. g = f) fs"
  shows "\<exists>out. transfer_loop lsqr st (f @ map (vertex4 f) (origTris st)) w4 fs = Inr out \<and>
           length out = length fs \<and>
           (\<forall>i<length fs. \<forall>t\<in>set (origTris st). tri_edges (out ! i) t = tri_edges w0 t)"
  using assms(10-)
proof (induction fs arbitrary: w4)
  case Nil
  then show ?case by simp
next
  case (Cons g fs)
  from Cons.prems(3) have g: "g = f" and fs: "list_all (\<lambda>g. g = f) fs" by auto
  have inv: "frames_invertible w4 (origTris4 st)"
    using frames_invertible_agree [OF Cons.prems(2)] w0(2) by simp
  obtain w4' where step: "transfer_step lsqr st (f @ map (vertex4 f) (origTris st)) w4 f =
                            Inr (f @ map (vertex4 f) (origTris st), w4')"
    and len': "length w4' = NVertices4 st" and agree: "frames_agree w4' w4 (origTris4 st)"
    using transfer_step_static [OF wf shape range same ex f Cons.prems(1) inv] by blast
  have agree0: "frames_agree w4' (w0 @ map (vertex4 w0) (origTris st)) (origTris4 st)"
    using frames_agree_trans [OF agree Cons.prems(2)] .
  obtain rest where rest: "transfer_loop lsqr st (f @ map (vertex4 f) (origTris st)) w4' fs = Inr rest"
    and lenr: "length rest = length fs"
    and edges: "\<forall>i<length fs. \<forall>t\<in>set (origTris st). tri_edges (rest ! i) t = tri_edges w0 t"
    using Cons.IH [OF len' agree0 fs] by blast
  have le: "NVertices st \<le> length w4'"
    using len' wf by (simp add: transferer_wf_def)
  have e0: "\<forall>t\<in>set (origTris st). tri_edges (take (NVertices st) w4') t = tri_edges w0 t"
    using tri_edges_from_agree [of w4' w0 "origTris st"] agree0 shape range le w0(1) wf
    by (simp add: transferer_wf_def)
  show ?case
    using step gather_upt_take [OF le] rest lenr edges e0 g by (auto simp: nth_Cons split: nat.splits)
qed

subsection \<open>The whole run\<close>

lemma map_nth_upt_Suc: "map (nth xs) [Suc 0..<length xs] = tl xs"
  by (rule nth_equalityI) (auto simp: nth_tl)

lemma beginDeformationTransfer_loop:
  assumes wf: "transferer_wf st" and ne: "origFrames st \<noteq> []" "warpedFrames st \<noteq> []"
    and range: "tris_in_range (NVertices st) (origTris st)" and same: "warpedTris st = origTris st"
  shows "beginDeformationTransfer lsqr st =
           bindE (transfer_loop lsqr st
                    (origFrames st ! 0 @ map (vertex4 (origFrames st ! 0)) (origTris st))
                    (warpedFrames st ! 0 @ map (vertex4 (warpedFrames st ! 0)) (origTris st))
                    (tl (origFrames st))) (\<lambda>rest.
             Inr (st\<lparr>warpedVideo := (warpedVideo st)\<lparr>Frames := warpedFrames st ! 0 # rest\<rparr>\<rparr>))"
proof -
  have len: "length (origFrames st ! 0) = NVertices st" "length (warpedFrames st ! 0) = NVertices st"
    using wf ne by (auto simp: transferer_wf_def list_all_iff)
  have "NFrames st = length (origFrames st)" using wf by (simp add: transferer_wf_def)
  then show ?thesis
    using ne len range by (simp add: beginDeformationTransfer_def getVPos4_Inr same map_nth_upt_Suc)
qed

lemma edge_mat_translate:
  "tris4_in_range (length P) [t] \<Longrightarrow> edge_mat (map (\<lambda>p. p + c) P) t = edge_mat P t"
  by (simp add: edge_mat_def tris4_in_range_def)

lemma frames_agree_translate:
  "tris4_in_range (length P) T4 \<Longrightarrow> frames_agree (map (\<lambda>p. p + c) P) P T4"
  by (auto simp: frames_agree_def tris4_in_range_def list_all_iff edge_mat_def)

lemma tri_edges_translate:
  "t ! 0 < length P \<Longrightarrow> t ! 1 < length P \<Longrightarrow> t ! 2 < length P \<Longrightarrow>
     tri_edges (map (\<lambda>p. p + c) P) t = tri_edges P t"
  by (simp add: tri_edges_def)

lemma extended_translate:
  "tris_in_range (length P) T \<Longrightarrow>
     map (\<lambda>p. p + c) P @ map (vertex4 (map (\<lambda>p. p + c) P)) T = map (\<lambda>p. p + c) (P @ map (vertex4 P) T)"
  by (auto simp: tris_in_range_def list_all_iff vertex4_translate)

lemma DeformationTranferer_init_fields:
  assumes "DeformationTranferer_init ov wv = Inr st"
  shows "origFrames st = Frames ov \<and> warpedFrames st = Frames wv \<and> NVertices st = FrameWidth ov \<and>
         origTris st = ITris (m ov) \<and> warpedTris st = ITris (m wv) \<and>
         origTris4 st = tris4_of (ITris (m ov)) (FrameWidth ov) \<and>
         NVertices4 st = FrameWidth ov + length (ITris (m ov))"
  using assms by (auto simp: DeformationTranferer_init_eq split: if_splits)

lemma frames_agree_refl [simp]: "frames_agree W W T4"
  by (simp add: frames_agree_def list_all_iff)

lemma video_wf_nth: "video_wf v \<Longrightarrow> i < length (Frames v) \<Longrightarrow> length (Frames v ! i) = FrameWidth v"
  by (simp add: video_wf_def list_all_length)

subsection \<open>Exactness does not fix the translation\<close>

lemma lsq_exact_shift_lsq: "lsq_exact lsqr \<Longrightarrow> lsq_exact (shift_lsq lsqr)"
  by (auto simp: lsq_exact_def shift_lsq_def Let_def)

lemma getAMatrix_translate:
  assumes "tris4_in_range (length P) T4"
  shows "getAMatrix NF NV4 (map (\<lambda>p. p + d) P) T4 = getAMatrix NF NV4 P T4"
proof -
  have ag: "frames_agree (map (\<lambda>p. p + d) P) P T4"
    by (rule frames_agree_translate [OF assms])
  have "A_trips (map (\<lambda>p. p + d) P) T4 = A_trips P T4"
    unfolding A_trips_def
    by (intro arg_cong [where f = concat] map_cong refl) (use ag in \<open>simp add: frames_agree_def list_all_length\<close>)
  then show ?thesis
    using ag assms by (simp add: getAMatrix_eq frames_invertible_agree)
qed

lemma nth_set_col: "i < length P \<Longrightarrow> i < length xs \<Longrightarrow> set_col k P xs ! i = set_coord k (xs ! i) (P ! i)"
  by (simp add: set_col_def)

text \<open>Writing the three columns overwrites every coordinate: the old pose is not seen, and
  shifting the three columns by one shifts every row by \<open>(1, 1, 1)\<close>.\<close>

lemma three_columns_shift:
  fixes x :: "nat \<Rightarrow> real list"
  assumes "\<And>a. a < 3 \<Longrightarrow> length (x a) = length w" and "length w' = length w"
  shows "set_col 2 (set_col 1 (set_col 0 w' (map (\<lambda>y. y + 1) (x 0))) (map (\<lambda>y. y + 1) (x 1)))
           (map (\<lambda>y. y + 1) (x 2)) =
         map (\<lambda>v. v + Vec3 1 1 1) (set_col 2 (set_col 1 (set_col 0 w (x 0)) (x 1)) (x 2))"
proof -
  have l: "length (x 0) = length w" "length (x 1) = length w" "length (x 2) = length w"
    using assms(1) by auto
  show ?thesis
  proof (rule nth_equalityI)
    fix i assume "i < length (set_col 2 (set_col 1 (set_col 0 w' (map (\<lambda>y. y + 1) (x 0)))
                     (map (\<lambda>y. y + 1) (x 1))) (map (\<lambda>y. y + 1) (x 2)))"
    then have i: "i < length w" using l assms(2) by simp
    show "set_col 2 (set_col 1 (set_col 0 w' (map (\<lambda>y. y + 1) (x 0))) (map (\<lambda>y. y + 1) (x 1)))
            (map (\<lambda>y. y + 1) (x 2)) ! i =
          map (\<lambda>v. v + Vec3 1 1 1) (set_col 2 (set_col 1 (set_col 0 w (x 0)) (x 1)) (x 2)) ! i"
      using i l assms(2) by (cases "w ! i"; cases "w' ! i") (simp add: nth_set_col)
  qed (use l assms(2) in simp)
qed

text \<open>One step from agreeing frames, run with \<open>lsqr\<close> from \<open>w4\<close> and with \<open>shift_lsq lsqr\<close>
  from any translate of \<open>w4\<close>: the second target is the first moved by \<open>(1, 1, 1)\<close>.\<close>

lemma transfer_step_shift:
  assumes wf: "transferer_wf st" and shape: "tris_shape (origTris st)"
    and range: "tris_in_range (NVertices st) (origTris st)"
    and same: "warpedTris st = origTris st" and ex: "lsq_exact lsqr"
    and o4: "length o4 = NVertices4 st" "frames_invertible o4 (origTris4 st)"
    and w4: "length w4 = NVertices4 st" "frames_agree w4 o4 (origTris4 st)"
    and f: "length f = NVertices st" "nondeg f (origTris st)"
  shows "\<exists>W. transfer_step lsqr st o4 w4 f = Inr (f @ map (vertex4 f) (origTris st), W) \<and>
             transfer_step (shift_lsq lsqr) st o4 (map (\<lambda>p. p + d) w4) f =
               Inr (f @ map (vertex4 f) (origTris st), map (\<lambda>v. v + Vec3 1 1 1) W)"
proof -
  have invw: "frames_invertible w4 (origTris4 st)"
    using frames_invertible_agree [OF w4(2)] o4(2) by simp
  have lenZ: "length (f @ map (vertex4 f) (origTris st)) = NVertices4 st"
    using wf f(1) by (simp add: transferer_wf_def)
  have grad: "\<forall>t\<in>set (origTris4 st). mmul (edge_mat (f @ map (vertex4 f) (origTris st)) t) (minv (edge_mat w4 t)) =
          mmul (edge_mat (f @ map (vertex4 f) (origTris st)) t) (minv (edge_mat o4 t))"
    using w4(2) by (simp add: frames_agree_def list_all_iff)
  obtain S A where V: "getVPos4 f (origTris st) = Inr (f @ map (vertex4 f) (origTris st))"
    and S: "getSMatrix (NFaces st) o4 (f @ map (vertex4 f) (origTris st)) (origTris4 st) = Inr S"
    and Aw: "getAMatrix (NFaces st) (NVertices4 st) w4 (warpedTris4 st) = Inr A"
    and x: "\<And>a. a < 3 \<Longrightarrow> length (lsqr A (S_row S a)) = length w4 \<and> mulvec A (lsqr A (S_row S a)) = S_row S a"
    by (rule transfer_step_systems [OF wf shape range same ex o4 w4(1) invw f lenZ grad]) (rule that)
  have Ad: "getAMatrix (NFaces st) (NVertices4 st) (map (\<lambda>p. p + d) w4) (warpedTris4 st) = Inr A"
    using Aw getAMatrix_translate [of w4 "warpedTris4 st"] by (simp add: getAMatrix_Inr)
  have ncols: "ncols A = length w4"
    using getAMatrix_shape [OF Aw] w4(1) by simp
  have xl: "length (lsqr A (S_row S a)) = length w4" if "a < 3" for a
    using x [OF that] by (rule conjunct1)
  have sh: "shift_lsq lsqr A (S_row S a) = map (\<lambda>y. y + 1) (lsqr A (S_row S a))" if "a < 3" for a
    using getAMatrix_mulvec_shift [OF Aw, of "lsqr A (S_row S a)" 1] xl [OF that] ncols
    by (simp add: shift_lsq_def Let_def)
  have xd: "length (shift_lsq lsqr A (S_row S a)) = length (map (\<lambda>p. p + d) w4)" if "a < 3" for a
    using sh [OF that] xl [OF that] by simp
  have step: "transfer_step lsqr st o4 w4 f =
      Inr (f @ map (vertex4 f) (origTris st),
           set_col 2 (set_col 1 (set_col 0 w4 (lsqr A (S_row S 0))) (lsqr A (S_row S 1))) (lsqr A (S_row S 2)))"
    by (rule transfer_step_closed [where lsqr = lsqr, OF V S Aw xl])
  have "transfer_step (shift_lsq lsqr) st o4 (map (\<lambda>p. p + d) w4) f =
      Inr (f @ map (vertex4 f) (origTris st),
           set_col 2 (set_col 1 (set_col 0 (map (\<lambda>p. p + d) w4) (shift_lsq lsqr A (S_row S 0)))
             (shift_lsq lsqr A (S_row S 1))) (shift_lsq lsqr A (S_row S 2)))"
    by (rule transfer_step_closed [where lsqr = "shift_lsq lsqr", OF V S Ad xd])
  also have "\<dots> = Inr (f @ map (vertex4 f) (origTris st), map (\<lambda>v. v + Vec3 1 1 1)
           (set_col 2 (set_col 1 (set_col 0 w4 (lsqr A (S_row S 0))) (lsqr A (S_row S 1))) (lsqr A (S_row S 2))))"
    using three_columns_shift [of "\<lambda>a. lsqr A (S_row S a)" w4 "map (\<lambda>p. p + d) w4"] xl sh by simp
  finally show ?thesis
    using step by blast
qed

text \<open>The loop, run with \<open>lsqr\<close> and with \<open>shift_lsq lsqr\<close> from translates of the same
  target: every emitted frame of the second run is the first run's moved by \<open>(1, 1, 1)\<close>.\<close>

lemma transfer_loop_shift:
  assumes wf: "transferer_wf st" and shape: "tris_shape (origTris st)"
    and range: "tris_in_range (NVertices st) (origTris st)"
    and same: "warpedTris st = origTris st" and ex: "lsq_exact lsqr"
    and "length o4 = NVertices4 st" "frames_invertible o4 (origTris4 st)"
    and "length w4 = NVertices4 st" "frames_agree w4 o4 (origTris4 st)"
    and "list_all (\<lambda>f. length f = NVertices st \<and> nondeg f (origTris st)) fs"
  shows "\<exists>out. transfer_loop lsqr st o4 w4 fs = Inr out \<and>
           transfer_loop (shift_lsq lsqr) st o4 (map (\<lambda>p. p + d) w4) fs =
             Inr (map (map (\<lambda>p. p + Vec3 1 1 1)) out)"
  using assms(6-)
proof (induction fs arbitrary: o4 w4 d)
  case Nil
  then show ?case by simp
next
  case (Cons f fs)
  from Cons.prems(5) have f: "length f = NVertices st" "nondeg f (origTris st)"
    and fs: "list_all (\<lambda>f. length f = NVertices st \<and> nondeg f (origTris st)) fs" by auto
  obtain w4' where step: "transfer_step lsqr st o4 w4 f = Inr (f @ map (vertex4 f) (origTris st), w4')"
    and len': "length w4' = NVertices4 st"
    and agree: "frames_agree w4' (f @ map (vertex4 f) (origTris st)) (origTris4 st)"
    and inv': "frames_invertible (f @ map (vertex4 f) (origTris st)) (origTris4 st)"
    using transfer_step_agree [OF wf shape range same ex Cons.prems(1-4) f] by blast
  have stepd: "transfer_step (shift_lsq lsqr) st o4 (map (\<lambda>p. p + d) w4) f =
      Inr (f @ map (vertex4 f) (origTris st), map (\<lambda>v. v + Vec3 1 1 1) w4')"
    using transfer_step_shift [OF wf shape range same ex Cons.prems(1-4) f, of d] step by auto
  have lenV: "length (f @ map (vertex4 f) (origTris st)) = NVertices4 st"
    using wf f by (simp add: transferer_wf_def)
  obtain rest where rest: "transfer_loop lsqr st (f @ map (vertex4 f) (origTris st)) w4' fs = Inr rest"
    and restd: "transfer_loop (shift_lsq lsqr) st (f @ map (vertex4 f) (origTris st))
                  (map (\<lambda>p. p + Vec3 1 1 1) w4') fs = Inr (map (map (\<lambda>p. p + Vec3 1 1 1)) rest)"
    using Cons.IH [OF lenV inv' len' agree fs, of "Vec3 1 1 1"] by blast
  have le: "NVertices st \<le> length w4'"
    using len' wf by (simp add: transferer_wf_def)
  have "gather w4' [0..<NVertices st] = Inr (take (NVertices st) w4')"
    "gather (map (\<lambda>p. p + Vec3 1 1 1) w4') [0..<NVertices st] =
       Inr (map (\<lambda>p. p + Vec3 1 1 1) (take (NVertices st) w4'))"
    using gather_upt_take [OF le] gather_upt_take [of "NVertices st" "map (\<lambda>p. p + Vec3 1 1 1) w4'"] le
    by (simp_all add: take_map)
  then show ?case
    using step stepd rest restd by simp
qed


subsection \<open>Connected meshes\<close>

lemma set_tri3: "length t = 3 \<Longrightarrow> set t = {t ! 0, t ! 1, t ! 2}"
  by (cases t rule: list.exhaust; cases "tl t" rule: list.exhaust; cases "tl (tl t)" rule: list.exhaust)
     (auto simp: numeral_3_eq_3)

text \<open>A quantity that is the same at the three corners of every triangle is the same
  at every corner of a connected triangle list.\<close>

lemma const_on_connected:
  assumes shape: "tris_shape T" and conn: "tris_connected T" and ne: "T \<noteq> []"
    and tri: "\<forall>t\<in>set T. D (t ! 1) = D (t ! 0) \<and> D (t ! 2) = D (t ! 0)"
  shows "\<forall>t\<in>set T. \<forall>v\<in>set t. D v = D (T ! 0 ! 0)"
proof -
  have local: "D v = D (t ! 0)" if "t \<in> set T" "v \<in> set t" for t v
    using that tri shape set_tri3 [of t] by (auto simp: tris_shape_def list_all_iff)
  have "\<forall>v\<in>set (T ! i). D v = D (T ! 0 ! 0)" if "i < length T" for i
    using that
  proof (induction i rule: less_induct)
    case (less i)
    show ?case
    proof (cases i)
      case 0
      then show ?thesis using local ne by (simp add: hd_conv_nth [symmetric])
    next
      case (Suc k)
      then obtain j v where j: "j < i" and vi: "v \<in> set (T ! i)" and vj: "v \<in> set (T ! j)"
        using conn less.prems by (fastforce simp: tris_connected_def list_all_iff list_ex_iff)
      have "D v = D (T ! 0 ! 0)" using less.IH [OF j] j less.prems vj by simp
      then show ?thesis
        using local [OF nth_mem [OF less.prems] vi] local [OF nth_mem [OF less.prems]] by simp
    qed
  qed
  note all = this
  show ?thesis
  proof (intro ballI)
    fix t v assume t: "t \<in> set T" and v: "v \<in> set t"
    from t obtain i where "i < length T" "t = T ! i" by (auto simp: in_set_conv_nth)
    with all v show "D v = D (T ! 0 ! 0)" by blast
  qed
qed

text \<open>Two poses with the same edge vectors on every triangle of a connected list that
  covers all vertices differ by one translation.\<close>

lemma translate_from_edges:
  assumes shape: "tris_shape T" and conn: "tris_connected T" and cover: "tris_cover (length Q) T"
    and len: "length P = length Q" and range: "tris_in_range (length Q) T"
    and edges: "\<forall>t\<in>set T. tri_edges P t = tri_edges Q t"
  shows "\<exists>d. P = map (\<lambda>q. q + d) Q"
proof (cases "T = []")
  case True
  then have "Q = []" using cover by (cases Q) (auto simp: tris_cover_def)
  then show ?thesis using len by simp
next
  case False
  define D where "D v = P ! v - Q ! v" for v
  have tri: "\<forall>t\<in>set T. D (t ! 1) = D (t ! 0) \<and> D (t ! 2) = D (t ! 0)"
    using edges by (auto simp: tri_edges_def D_def algebra_simps)
  note c = const_on_connected [OF shape conn False tri]
  have "P = map (\<lambda>q. q + D (T ! 0 ! 0)) Q"
  proof (rule nth_equalityI)
    fix v assume "v < length P"
    then have "list_ex (\<lambda>t. v \<in> set t) T"
      using cover len by (simp add: tris_cover_def list_all_iff)
    then obtain t where "t \<in> set T" "v \<in> set t"
      by (auto simp: list_ex_iff)
    then have "D v = D (T ! 0 ! 0)" using c by blast
    then show "P ! v = map (\<lambda>q. q + D (T ! 0 ! 0)) Q ! v"
      using \<open>v < length P\<close> len by (simp add: D_def algebra_simps)
  qed (use len in simp)
  then show ?thesis by blast
qed

end
