(* ===== verification/Laplacian.thy ===== *)
theory Laplacian
  imports Transfer_Correct
begin

text \<open>
  The Cotangent Laplacian Builder and Anchor Solver: \<open>getLaplacianMatrixCotangent\<close>
  and \<open>solveLaplacianMesh\<close> (\<open>src/DeformationTransfer.py\<close>, lines 21--85).  For each
  of the three shifts of the vertex roles the builder gathers the triangle corners,
  computes the cotangent of the angle at the third corner and appends the weight at
  \<open>(i, j)\<close> and at \<open>(j, i)\<close>; the weight matrix \<open>W\<close> is assembled with
  \<open>coo_matrix\<close> (duplicates summed), the Laplacian is \<open>diag(W.sum(1)) - W\<close>, and one
  row per anchor, with weight \<open>anchorWeights\<close> in the anchored column, is appended.
  The conversions \<open>tocsr\<close>/\<open>tocoo\<close> change only how scipy stores the matrix; the model
  keeps the triplets in the order built (diagonal first), which denote the same matrix.
  The arrays \<open>IA\<close>, \<open>VA\<close>, \<open>VC\<close> of the source are computed but never read, and are
  not modelled.  The solver takes \<open>lsqr\<close> as a parameter, as in \<open>Transfer_Solver\<close>;
  \<open>mesh.saveFile\<close> is file output and is not modelled.
\<close>

text \<open>\<open>np.sum(dV1 * dV2, 1) / NMag\<close> for one triangle.\<close>

definition cot_of :: "vec3 \<Rightarrow> vec3 \<Rightarrow> real" where
  "cot_of dV1 dV2 = dot dV1 dV2 / vnorm (cross dV1 dV2)"

text \<open>One iteration \<open>shift\<close> of Step 1: the \<open>2 M\<close> triplets written at
  \<open>I[shift*M*2 : shift*M*2 + 2*M]\<close>.\<close>

definition shift_trips :: "pose \<Rightarrow> tri list \<Rightarrow> nat \<Rightarrow> triplet list result" where
  "shift_trips Pos Tris shift =
     (let i = shift; j = (shift + 1) mod 3; k = (shift + 2) mod 3 in
      bindE (gather Pos (col_sel Tris i)) (\<lambda>Pi.
      bindE (gather Pos (col_sel Tris k)) (\<lambda>Pk.
      bindE (gather Pos (col_sel Tris j)) (\<lambda>Pj.
        let dV1 = map2 (-) Pi Pk;
            dV2 = map2 (-) Pj Pk;
            cotAlpha = map2 cot_of dV1 dV2
        in Inr (zip (col_sel Tris i) (zip (col_sel Tris j) cotAlpha) @
                zip (col_sel Tris j) (zip (col_sel Tris i) cotAlpha))))))"

text \<open>Step 2: \<open>sparse.dia_matrix((L.sum(1).flatten(), 0), L.shape) - L\<close>.\<close>

definition laplacian_trips :: "nat \<Rightarrow> triplet list \<Rightarrow> triplet list" where
  "laplacian_trips N W = map (\<lambda>r. (r, r, row_sum W r)) [0..<N] @ map (\<lambda>(r, c, v). (r, c, - v)) W"

definition getLaplacianMatrixCotangent :: "PolyMesh \<Rightarrow> nat list \<Rightarrow> real \<Rightarrow> sparse result" where
  "getLaplacianMatrixCotangent mesh anchorsIdx anchorWeights =
     (let N = length (VPos mesh) in
      bindE (mapE (shift_trips (VPos mesh) (ITris mesh)) [0..<3]) (\<lambda>tss.
      let W = concat tss in
      bindE (coo_matrix (map (snd \<circ> snd) W) (map fst W) (map (fst \<circ> snd) W) (N, N)) (\<lambda>L.
      let L = laplacian_trips N (trips L);
          I = map fst L @ [N..<N + length anchorsIdx];
          J = map (fst \<circ> snd) L @ anchorsIdx;
          V = map (snd \<circ> snd) L @ replicate (length anchorsIdx) anchorWeights
      in coo_matrix V I J (N + length anchorsIdx, N))))"

text \<open>\<open>solveLaplacianMesh\<close>: \<open>delta = L.dot(VPos)\<close>, \<open>delta[N:, :] = anchors\<close>
  (numpy's broadcasting rule), then one least-squares solve per axis written into
  \<open>mesh.VPos[:, k]\<close>.\<close>

definition solveLaplacianMesh ::
  "lsq_solver \<Rightarrow> PolyMesh \<Rightarrow> vec3 list \<Rightarrow> nat list \<Rightarrow> PolyMesh result" where
  "solveLaplacianMesh lsqr mesh anchors anchorsIdx =
     (let N = length (VPos mesh) in
      bindE (getLaplacianMatrixCotangent mesh anchorsIdx 1) (\<lambda>L.
      let delta = mulvec3 L (VPos mesh) in
      bindE (broadcast (length delta - N) anchors) (\<lambda>anc.
      let delta = take N delta @ anc in
      bindE (broadcast (length (VPos mesh)) (lsqr L (map (coord 0) delta))) (\<lambda>x0.
      let V0 = set_col 0 (VPos mesh) x0 in
      bindE (broadcast (length V0) (lsqr L (map (coord 1) delta))) (\<lambda>x1.
      let V1 = set_col 1 V0 x1 in
      bindE (broadcast (length V1) (lsqr L (map (coord 2) delta))) (\<lambda>x2.
      let V2 = set_col 2 V1 x2 in
      Inr (mesh\<lparr>VPos := V2\<rparr>)))))))"

text \<open>The values the builder computes, named for the lemmas: the \<open>M\<close> triplets
  \<open>(ITris[:, i], ITris[:, j], cotAlpha)\<close> of one shift, their transposes, the weight
  matrix of all three shifts, and the anchor rows.\<close>

definition cot_edges :: "pose \<Rightarrow> tri list \<Rightarrow> nat \<Rightarrow> triplet list" where
  "cot_edges P T s =
     map (\<lambda>t. (t ! s, t ! ((s + 1) mod 3),
               cot_of (P ! (t ! s) - P ! (t ! ((s + 2) mod 3)))
                      (P ! (t ! ((s + 1) mod 3)) - P ! (t ! ((s + 2) mod 3))))) T"

definition flip_trip :: "triplet \<Rightarrow> triplet" where
  "flip_trip = (\<lambda>(r, c, v). (c, r, v))"

definition cot_trips :: "pose \<Rightarrow> tri list \<Rightarrow> triplet list" where
  "cot_trips P T = concat (map (\<lambda>s. cot_edges P T s @ map flip_trip (cot_edges P T s)) [0..<3])"

definition anchor_trips :: "nat \<Rightarrow> nat list \<Rightarrow> real \<Rightarrow> triplet list" where
  "anchor_trips N idx w = zip [N..<N + length idx] (zip idx (replicate (length idx) w))"

subsection \<open>Evaluation of the builder\<close>

lemma zip_map_same: "zip (map f xs) (map g xs) = map (\<lambda>x. (f x, g x)) xs"
  by (induction xs) auto

lemma tris_in_range_elem: "tris_in_range n T \<Longrightarrow> t \<in> set T \<Longrightarrow> s < 3 \<Longrightarrow> t ! s < n"
  by (auto simp: tris_in_range_def list_all_iff less_Suc_eq numeral_3_eq_3 numeral_2_eq_2)

lemma tris_in_range_col: "tris_in_range n T \<Longrightarrow> s < 3 \<Longrightarrow> list_all (\<lambda>i. i < n) (col_sel T s)"
  by (auto simp: col_sel_def list_all_iff intro: tris_in_range_elem)

lemma shift_trips_in_range:
  assumes "tris_in_range (length P) T" "s < 3"
  shows "shift_trips P T s = Inr (cot_edges P T s @ map flip_trip (cot_edges P T s))"
proof -
  have "list_all (\<lambda>i. i < length P) (col_sel T s)" "list_all (\<lambda>i. i < length P) (col_sel T ((s + 1) mod 3))"
    "list_all (\<lambda>i. i < length P) (col_sel T ((s + 2) mod 3))"
    using tris_in_range_col [OF assms(1)] assms(2) by auto
  then show ?thesis
    by (simp add: shift_trips_def Let_def col_sel_def map2_map_map_same zip_map_same cot_edges_def
        flip_trip_def comp_def)
qed

lemma shift_trips_out_of_range:
  "\<not> tris_in_range (length P) T \<Longrightarrow> shift_trips P T 0 = Inl IndexError"
  by (auto simp: shift_trips_def gather_def tris_in_range_def list_all_iff col_sel_def numeral_2_eq_2)

lemma upt_3: "[0..<3] = [0, 1, 2::nat]"
  by (simp add: numeral_3_eq_3)

lemma mapE_shift_trips:
  "mapE (shift_trips P T) [0..<3] =
     (if tris_in_range (length P) T
      then Inr (map (\<lambda>s. cot_edges P T s @ map flip_trip (cot_edges P T s)) [0..<3])
      else Inl IndexError)"
proof (cases "tris_in_range (length P) T")
  case True
  then show ?thesis by (simp, intro mapE_map) (simp add: shift_trips_in_range)
next
  case False
  then show ?thesis by (simp add: upt_3 shift_trips_out_of_range)
qed

lemma cot_trips_in_range:
  "tris_in_range (length P) T \<Longrightarrow> list_all (\<lambda>(r, c, v). r < length P \<and> c < length P) (cot_trips P T)"
  by (auto simp: cot_trips_def cot_edges_def flip_trip_def list_all_iff intro: tris_in_range_elem)

lemma laplacian_trips_in_range:
  "list_all (\<lambda>(r, c, v). r < N \<and> c < N) W \<Longrightarrow>
     list_all (\<lambda>(r, c, v). r < N \<and> c < N) (laplacian_trips N W)"
  by (auto simp: laplacian_trips_def list_all_iff)

lemma anchor_trips_in_range:
  "list_all (\<lambda>(r, c, v). r < N + length idx \<and> c < N) (anchor_trips N idx w) \<longleftrightarrow>
     list_all (\<lambda>j. j < N) idx"
  by (auto simp: anchor_trips_def list_all_length)

lemma anchor_trips_cols:
  "map fst (anchor_trips N idx w) = [N..<N + length idx]"
  "map (fst \<circ> snd) (anchor_trips N idx w) = idx"
  "map (snd \<circ> snd) (anchor_trips N idx w) = replicate (length idx) w"
  by (rule nth_equalityI; simp add: anchor_trips_def)+

lemma getLaplacianMatrixCotangent_eq:
  "getLaplacianMatrixCotangent mesh idx w =
     (if \<not> tris_in_range (length (VPos mesh)) (ITris mesh) then Inl IndexError
      else if list_all (\<lambda>j. j < length (VPos mesh)) idx
      then Inr \<lparr>nrows = length (VPos mesh) + length idx, ncols = length (VPos mesh),
                trips = laplacian_trips (length (VPos mesh)) (cot_trips (VPos mesh) (ITris mesh)) @
                        anchor_trips (length (VPos mesh)) idx w\<rparr>
      else Inl ValueError)"
proof (cases "tris_in_range (length (VPos mesh)) (ITris mesh)")
  case False
  then show ?thesis by (simp add: getLaplacianMatrixCotangent_def mapE_shift_trips)
next
  case True
  define N where "N = length (VPos mesh)"
  define W where "W = cot_trips (VPos mesh) (ITris mesh)"
  define Lt where "Lt = laplacian_trips N W"
  define A where "A = anchor_trips N idx w"
  have W: "list_all (\<lambda>(r, c, v). r < N \<and> c < N) W"
    using cot_trips_in_range [OF True] by (simp add: W_def N_def)
  have Lt: "list_all (\<lambda>(r, c, v). r < N + length idx \<and> c < N) Lt"
    using laplacian_trips_in_range [OF W] by (auto simp: Lt_def list_all_iff)
  have conc: "concat (map (\<lambda>s. cot_edges (VPos mesh) (ITris mesh) s @ map flip_trip (cot_edges (VPos mesh) (ITris mesh) s)) [0..<3]) = W"
    by (simp add: W_def cot_trips_def)
  have cols: "map fst Lt @ [N..<N + length idx] = map fst (Lt @ A)"
    "map (fst \<circ> snd) Lt @ idx = map (fst \<circ> snd) (Lt @ A)"
    "map (snd \<circ> snd) Lt @ replicate (length idx) w = map (snd \<circ> snd) (Lt @ A)"
    by (simp_all add: A_def anchor_trips_cols)
  have "getLaplacianMatrixCotangent mesh idx w =
          coo_matrix (map (snd \<circ> snd) (Lt @ A)) (map fst (Lt @ A)) (map (fst \<circ> snd) (Lt @ A))
            (N + length idx, N)"
    using True W by (simp add: getLaplacianMatrixCotangent_def mapE_shift_trips conc coo_matrix_triplets
        Lt_def [symmetric] N_def [symmetric] cols)
  also have "\<dots> = (if list_all (\<lambda>j. j < N) idx
                    then Inr \<lparr>nrows = N + length idx, ncols = N, trips = Lt @ A\<rparr> else Inl ValueError)"
    unfolding coo_matrix_triplets using Lt anchor_trips_in_range [of N idx w] by (simp add: A_def)
  finally show ?thesis
    using True by (simp add: N_def W_def Lt_def A_def)
qed

subsection \<open>Rows and entries\<close>

lemma anchor_trips_Nil [simp]: "anchor_trips N [] w = []"
  by (simp add: anchor_trips_def)

lemma anchor_trips_Cons [simp]: "anchor_trips N (j # idx) w = (N, j, w) # anchor_trips (Suc N) idx w"
  by (simp add: anchor_trips_def upt_rec)

lemma anchor_trips_rows: "(r, c, v) \<in> set (anchor_trips N idx w) \<Longrightarrow> N \<le> r"
  by (induction idx arbitrary: N) force+

lemma anchor_trips_rows_other: "i < N \<Longrightarrow> list_all (\<lambda>(r, c, v). r \<noteq> i) (anchor_trips N idx w)"
  by (auto simp: list_all_iff dest: anchor_trips_rows)

lemma row_sum_other_row: "list_all (\<lambda>(r, c, v). r \<noteq> i) ts \<Longrightarrow> row_sum ts i = 0"
  by (induction ts) auto

lemma tentry_other_row: "list_all (\<lambda>(r, c, v). r \<noteq> i) ts \<Longrightarrow> tentry ts i j = 0"
  by (induction ts) auto

lemma row_dot_anchor:
  "a < length idx \<Longrightarrow> row_dot (anchor_trips N idx w) (N + a) x = w * x ! (idx ! a)"
proof (induction idx arbitrary: N a)
  case Nil
  then show ?case by simp
next
  case (Cons j idx)
  show ?case
  proof (cases a)
    case 0
    have "row_dot (anchor_trips (Suc N) idx w) N x = 0"
      using anchor_trips_rows_other [of N "Suc N" idx w] by (simp add: row_dot_other_row)
    then show ?thesis by (simp add: 0)
  next
    case (Suc b)
    with Cons.prems Cons.IH [of b "Suc N"] show ?thesis by simp
  qed
qed

lemma row_sum_diag: "row_sum (map (\<lambda>r. (r, r, f r)) [0..<N]) i = (if i < N then f i else 0)"
  by (induction N) auto

lemma tentry_diag: "tentry (map (\<lambda>r. (r, r, f r)) [0..<N]) i j = (if i = j \<and> i < N then f i else 0)"
  by (induction N) auto

lemma row_sum_laplacian: "i < N \<Longrightarrow> row_sum (laplacian_trips N W) i = 0"
  by (simp add: laplacian_trips_def row_sum_diag row_sum_map_neg)

lemma tentry_laplacian:
  "tentry (laplacian_trips N W) i j = (if i = j \<and> i < N then row_sum W i else 0) - tentry W i j"
  by (simp add: laplacian_trips_def tentry_diag tentry_map_neg)

lemma tentry_concat: "tentry (concat tss) i j = sum_list (map (\<lambda>ts. tentry ts i j) tss)"
  by (induction tss) auto

lemma tentry_flip: "tentry (map flip_trip E) i j = tentry E j i"
  by (induction E) (auto simp: flip_trip_def)

lemma tentry_cot_trips_sym: "tentry (cot_trips P T) i j = tentry (cot_trips P T) j i"
  by (simp add: cot_trips_def tentry_concat tentry_flip comp_def add.commute)

lemma getLaplacianMatrixCotangent_Inr:
  "getLaplacianMatrixCotangent mesh idx w = Inr L \<longleftrightarrow>
     tris_in_range (length (VPos mesh)) (ITris mesh) \<and> list_all (\<lambda>j. j < length (VPos mesh)) idx \<and>
     L = \<lparr>nrows = length (VPos mesh) + length idx, ncols = length (VPos mesh),
          trips = laplacian_trips (length (VPos mesh)) (cot_trips (VPos mesh) (ITris mesh)) @
                  anchor_trips (length (VPos mesh)) idx w\<rparr>"
  by (auto simp: getLaplacianMatrixCotangent_eq)

lemma getLaplacianMatrixCotangent_wf:
  assumes "getLaplacianMatrixCotangent mesh idx w = Inr L"
  shows "sparse_wf L"
proof -
  define N where "N = length (VPos mesh)"
  from assms have T: "tris_in_range N (ITris mesh)" and I: "list_all (\<lambda>j. j < N) idx"
    and L: "L = \<lparr>nrows = N + length idx, ncols = N,
               trips = laplacian_trips N (cot_trips (VPos mesh) (ITris mesh)) @ anchor_trips N idx w\<rparr>"
    by (simp_all add: getLaplacianMatrixCotangent_Inr N_def)
  have "list_all (\<lambda>(r, c, v). r < N + length idx \<and> c < N) (laplacian_trips N (cot_trips (VPos mesh) (ITris mesh)))"
    unfolding N_def using laplacian_trips_in_range [OF cot_trips_in_range [OF T [unfolded N_def]]]
    by (rule list.pred_mono_strong) auto
  moreover have "list_all (\<lambda>(r, c, v). r < N + length idx \<and> c < N) (anchor_trips N idx w)"
    using anchor_trips_in_range I by simp
  ultimately show ?thesis by (simp add: sparse_wf_def L)
qed

text \<open>
  C27: the builder's error behaviour.  A triangle corner outside the vertex range
  makes the fancy indexing of Step 1 raise \<open>IndexError\<close>; an anchor index outside the
  vertex range makes the final \<open>coo_matrix\<close> raise \<open>ValueError\<close> (the spec's
  \<open>InvalidAnchorError\<close>); nothing else fails, and a successful call returns an
  \<open>(N + K) \<times> N\<close> matrix.
\<close>

theorem getLaplacianMatrixCotangent_errors:
  "(getLaplacianMatrixCotangent mesh idx w = Inl e \<longleftrightarrow>
      (\<not> tris_in_range (length (VPos mesh)) (ITris mesh) \<and> e = IndexError) \<or>
      (tris_in_range (length (VPos mesh)) (ITris mesh) \<and>
       \<not> list_all (\<lambda>j. j < length (VPos mesh)) idx \<and> e = ValueError)) \<and>
   (getLaplacianMatrixCotangent mesh idx w = Inr L \<longrightarrow>
      nrows L = length (VPos mesh) + length idx \<and> ncols L = length (VPos mesh))"
  by (auto simp: getLaplacianMatrixCotangent_eq)

theorem getLaplacianMatrixCotangent_errors_witness:
  "getLaplacianMatrixCotangent \<lparr>VPos = [Vec3 0 0 0, Vec3 1 0 0, Vec3 0 1 0], ITris = [[0, 1, 2]], needsDisplayUpdate = False\<rparr> [3] 1 = Inl ValueError \<and>
   (\<exists>L. getLaplacianMatrixCotangent \<lparr>VPos = [Vec3 0 0 0, Vec3 1 0 0, Vec3 0 1 0], ITris = [[0, 1, 2]], needsDisplayUpdate = False\<rparr> [0] 1 = Inr L \<and> nrows L = 4 \<and> ncols L = 3)"
proof -
  obtain L where L: "getLaplacianMatrixCotangent \<lparr>VPos = [Vec3 0 0 0, Vec3 1 0 0, Vec3 0 1 0], ITris = [[0, 1, 2]], needsDisplayUpdate = False\<rparr> [0] 1 = Inr L"
    by (simp add: getLaplacianMatrixCotangent_eq)
  from getLaplacianMatrixCotangent_errors [of "\<lparr>VPos = [Vec3 0 0 0, Vec3 1 0 0, Vec3 0 1 0], ITris = [[0, 1, 2]], needsDisplayUpdate = False\<rparr>" "[0]" 1 _ L] L
  have "nrows L = 4 \<and> ncols L = 3" by simp
  moreover from getLaplacianMatrixCotangent_errors [of "\<lparr>VPos = [Vec3 0 0 0, Vec3 1 0 0, Vec3 0 1 0], ITris = [[0, 1, 2]], needsDisplayUpdate = False\<rparr>" "[3]" 1 ValueError L]
  have "getLaplacianMatrixCotangent \<lparr>VPos = [Vec3 0 0 0, Vec3 1 0 0, Vec3 0 1 0], ITris = [[0, 1, 2]], needsDisplayUpdate = False\<rparr> [3] 1 = Inl ValueError" by simp
  ultimately show ?thesis using L by blast
qed

text \<open>
  C11: the discrete Laplace-Beltrami property.  Every one of the first \<open>N\<close> rows of
  the returned matrix sums to zero, so adding the same constant to every vertex
  coordinate leaves the Laplacian coordinates \<open>L x\<close> of every vertex unchanged.
\<close>

theorem getLaplacianMatrixCotangent_rows_sum_zero:
  assumes "getLaplacianMatrixCotangent mesh idx w = Inr L" and "r < length (VPos mesh)"
  shows "row_sum (trips L) r = 0 \<and>
         (\<forall>x d. length x = length (VPos mesh) \<longrightarrow> mulvec L (map (\<lambda>y. y + d) x) ! r = mulvec L x ! r)"
proof -
  from assms(1) have L: "L = \<lparr>nrows = length (VPos mesh) + length idx, ncols = length (VPos mesh),
          trips = laplacian_trips (length (VPos mesh)) (cot_trips (VPos mesh) (ITris mesh)) @
                  anchor_trips (length (VPos mesh)) idx w\<rparr>"
    by (simp add: getLaplacianMatrixCotangent_Inr)
  have rs: "row_sum (trips L) r = 0"
    using assms(2) by (simp add: L row_sum_laplacian row_sum_other_row anchor_trips_rows_other)
  have wf: "list_all (\<lambda>(r, c, v). c < length (VPos mesh)) (trips L)"
    using sparse_wf_cols [OF getLaplacianMatrixCotangent_wf [OF assms(1)]] by (simp add: L)
  show ?thesis
  proof (intro conjI allI impI rs)
    fix x :: "real list" and d :: real assume "length x = length (VPos mesh)"
    with wf have "list_all (\<lambda>(r, c, v). c < length x) (trips L)" by simp
    moreover have "r < nrows L" using assms(2) by (simp add: L)
    ultimately show "mulvec L (map (\<lambda>y. y + d) x) ! r = mulvec L x ! r"
      using rs by (simp add: row_dot_shift)
  qed
qed

theorem getLaplacianMatrixCotangent_rows_sum_zero_witness:
  "\<exists>L. getLaplacianMatrixCotangent \<lparr>VPos = [Vec3 0 0 0, Vec3 1 0 0, Vec3 0 1 0], ITris = [[0, 1, 2]], needsDisplayUpdate = False\<rparr> [0] 1 = Inr L \<and> row_sum (trips L) 0 = 0 \<and>
        mulvec L (map (\<lambda>y. y + 5) [1, 2, 3]) ! 0 = mulvec L [1, 2, 3] ! 0"
proof -
  obtain L where L: "getLaplacianMatrixCotangent \<lparr>VPos = [Vec3 0 0 0, Vec3 1 0 0, Vec3 0 1 0], ITris = [[0, 1, 2]], needsDisplayUpdate = False\<rparr> [0] 1 = Inr L"
    by (simp add: getLaplacianMatrixCotangent_eq)
  have "row_sum (trips L) 0 = 0"
    using getLaplacianMatrixCotangent_rows_sum_zero [OF L, of 0] by simp
  moreover have "mulvec L (map (\<lambda>y. y + 5) [1, 2, 3]) ! 0 = mulvec L [1, 2, 3] ! 0"
    using getLaplacianMatrixCotangent_rows_sum_zero [OF L, of 0, THEN conjunct2, rule_format, of "[1, 2, 3]" 5]
    by simp
  ultimately show ?thesis using L by blast
qed

text \<open>
  C12: the Laplacian part of the matrix is symmetric: every cotangent weight is entered
  at \<open>(i, j)\<close> and at \<open>(j, i)\<close>, and the diagonal is the row sum, so entry
  \<open>(i, j)\<close> equals entry \<open>(j, i)\<close> for all vertices \<open>i, j\<close> (duplicates summed as
  scipy sums them).
\<close>

theorem getLaplacianMatrixCotangent_symmetric:
  assumes "getLaplacianMatrixCotangent mesh idx w = Inr L"
    and "i < length (VPos mesh)" and "j < length (VPos mesh)"
  shows "tentry (trips L) i j = tentry (trips L) j i"
  using assms by (auto simp: getLaplacianMatrixCotangent_Inr tentry_laplacian tentry_other_row
      anchor_trips_rows_other tentry_cot_trips_sym)

theorem getLaplacianMatrixCotangent_symmetric_witness:
  "\<exists>L. getLaplacianMatrixCotangent \<lparr>VPos = [Vec3 0 0 0, Vec3 1 0 0, Vec3 0 1 0], ITris = [[0, 1, 2]], needsDisplayUpdate = False\<rparr> [0] 1 = Inr L \<and> tentry (trips L) 0 1 = tentry (trips L) 1 0"
proof -
  obtain L where L: "getLaplacianMatrixCotangent \<lparr>VPos = [Vec3 0 0 0, Vec3 1 0 0, Vec3 0 1 0], ITris = [[0, 1, 2]], needsDisplayUpdate = False\<rparr> [0] 1 = Inr L"
    by (simp add: getLaplacianMatrixCotangent_eq)
  from getLaplacianMatrixCotangent_symmetric [OF L, of 0 1] L show ?thesis by auto
qed

lemma mulvec_anchor_row:
  assumes "getLaplacianMatrixCotangent mesh idx w = Inr L" and "a < length idx"
  shows "mulvec L x ! (length (VPos mesh) + a) = w * x ! (idx ! a)"
proof -
  from assms(1) have L: "L = \<lparr>nrows = length (VPos mesh) + length idx, ncols = length (VPos mesh),
          trips = laplacian_trips (length (VPos mesh)) (cot_trips (VPos mesh) (ITris mesh)) @
                  anchor_trips (length (VPos mesh)) idx w\<rparr>"
    by (simp add: getLaplacianMatrixCotangent_Inr)
  from assms(1) have W: "list_all (\<lambda>(r, c, v). r < length (VPos mesh) \<and> c < length (VPos mesh))
                (cot_trips (VPos mesh) (ITris mesh))"
    using cot_trips_in_range by (simp add: getLaplacianMatrixCotangent_Inr)
  have "row_dot (laplacian_trips (length (VPos mesh)) (cot_trips (VPos mesh) (ITris mesh)))
          (length (VPos mesh) + a) x = 0"
    using laplacian_trips_in_range [OF W]
    by (intro row_dot_other_row) (auto simp: list_all_iff)
  then show ?thesis
    using assms(2) by (simp add: L row_dot_anchor)
qed

text \<open>
  C23: the anchor rows.  Row \<open>N + a\<close> of the returned matrix reads the anchored
  vertex \<open>anchorsIdx[a]\<close> scaled by \<open>anchorWeights\<close>, and nothing else.
\<close>

theorem getLaplacianMatrixCotangent_anchor_rows:
  assumes "getLaplacianMatrixCotangent mesh idx w = Inr L" and "a < length idx"
  shows "mulvec L x ! (length (VPos mesh) + a) = w * x ! (idx ! a)"
  using mulvec_anchor_row [OF assms] .

theorem getLaplacianMatrixCotangent_anchor_rows_witness:
  "\<exists>L. getLaplacianMatrixCotangent \<lparr>VPos = [Vec3 0 0 0, Vec3 1 0 0, Vec3 0 1 0], ITris = [[0, 1, 2]], needsDisplayUpdate = False\<rparr> [0] 1 = Inr L \<and> mulvec L [7, 2, 3] ! 3 = 7"
proof -
  obtain L where L: "getLaplacianMatrixCotangent \<lparr>VPos = [Vec3 0 0 0, Vec3 1 0 0, Vec3 0 1 0], ITris = [[0, 1, 2]], needsDisplayUpdate = False\<rparr> [0] 1 = Inr L"
    by (simp add: getLaplacianMatrixCotangent_eq)
  from getLaplacianMatrixCotangent_anchor_rows [OF L, of 0 "[7, 2, 3]"] L show ?thesis
    by (auto simp: numeral_3_eq_3)
qed

text \<open>
  C13: where the cotangent weights go.  For a mesh of one triangle \<open>[a, b, c]\<close>
  with distinct corners, the entry of the Laplacian at \<open>(a, b)\<close> is minus the
  cotangent of the angle at the opposite corner \<open>c\<close>, computed as in the code
  (\<open>cot_of\<close>: dot product over the length of the cross product), and the diagonal
  entry at \<open>a\<close> is the sum of the cotangents at \<open>c\<close> and at \<open>b\<close>, the angles opposite
  the two edges at \<open>a\<close>.
\<close>

theorem getLaplacianMatrixCotangent_cot_weights:
  assumes "getLaplacianMatrixCotangent \<lparr>VPos = P, ITris = [[a, b, c]], needsDisplayUpdate = False\<rparr> idx w = Inr L"
    and "distinct [a, b, c]"
  shows "tentry (trips L) a b = - cot_of (P ! a - P ! c) (P ! b - P ! c) \<and>
         tentry (trips L) a a = cot_of (P ! a - P ! c) (P ! b - P ! c) + cot_of (P ! c - P ! b) (P ! a - P ! b)"
proof -
  from assms(1) have L: "trips L = laplacian_trips (length P) (cot_trips P [[a, b, c]]) @
                               anchor_trips (length P) idx w"
    and a: "a < length P"
    by (simp_all add: getLaplacianMatrixCotangent_Inr tris_in_range_def)
  have "tentry (anchor_trips (length P) idx w) a j = 0" for j
    using a by (simp add: tentry_other_row anchor_trips_rows_other)
  moreover have "row_sum (cot_trips P [[a, b, c]]) a =
                   cot_of (P ! a - P ! c) (P ! b - P ! c) + cot_of (P ! c - P ! b) (P ! a - P ! b)"
    using assms(2) by (simp add: cot_trips_def cot_edges_def flip_trip_def upt_3)
  ultimately show ?thesis
    using assms(2) a by (simp add: L tentry_laplacian cot_trips_def cot_edges_def flip_trip_def upt_3)
qed

theorem getLaplacianMatrixCotangent_cot_weights_witness:
  "\<exists>L. getLaplacianMatrixCotangent \<lparr>VPos = [Vec3 0 0 0, Vec3 1 0 0, Vec3 0 1 0], ITris = [[0, 1, 2]], needsDisplayUpdate = False\<rparr> [] 1 = Inr L \<and>
        tentry (trips L) 0 1 = - 1 \<and> tentry (trips L) 0 0 = 2"
proof -
  obtain L where L: "getLaplacianMatrixCotangent \<lparr>VPos = [Vec3 0 0 0, Vec3 1 0 0, Vec3 0 1 0], ITris = [[0, 1, 2]], needsDisplayUpdate = False\<rparr> [] 1 = Inr L"
    by (simp add: getLaplacianMatrixCotangent_eq)
  from getLaplacianMatrixCotangent_cot_weights [OF L] L show ?thesis
    by (simp add: cot_of_def vnorm_def)
qed

subsection \<open>The anchor solver\<close>

text \<open>The three right-hand sides \<open>delta[:, k]\<close> after \<open>delta[N:, :] = anchors\<close>.\<close>

lemma laplacian_system_iff:
  assumes L: "getLaplacianMatrixCotangent mesh idx 1 = Inr L"
    and Y: "length Y = length (VPos mesh)" and anc: "length anchors = length idx"
  shows "(\<forall>k<3. mulvec L (map (coord k) Y) =
            map (coord k) (take (length (VPos mesh)) (mulvec3 L (VPos mesh)) @ anchors)) \<longleftrightarrow>
         (\<forall>r<length (VPos mesh). mulvec3 L Y ! r = mulvec3 L (VPos mesh) ! r) \<and>
         (\<forall>a<length idx. Y ! (idx ! a) = anchors ! a)"
proof -
  define N where "N = length (VPos mesh)"
  define b where "b k = map (coord k) (take N (mulvec3 L (VPos mesh)) @ anchors)" for k
  from L have rows: "nrows L = N + length idx" and I: "list_all (\<lambda>j. j < N) idx"
    by (simp_all add: getLaplacianMatrixCotangent_Inr N_def)
  have cols: "list_all (\<lambda>(r, c, v). c < N) (trips L)"
    using sparse_wf_cols [OF getLaplacianMatrixCotangent_wf [OF L]] L
    by (simp add: getLaplacianMatrixCotangent_Inr N_def)
  have rowN: "mulvec L (map (coord k) P) ! r = coord k (mulvec3 L P ! r)"
    if "r < N" "length P = N" for k r P
    using coord_mulvec3 [of r L P k] that cols rows by simp
  have rowA: "mulvec L (map (coord k) Y) ! (N + a) = coord k (Y ! (idx ! a))" if "a < length idx" for k a
    using mulvec_anchor_row [OF L that, of "map (coord k) Y"] I that Y
    by (simp add: N_def list_all_length)
  have bN: "b k ! r = coord k (mulvec3 L (VPos mesh) ! r)" if "r < N" for k r
    using that rows by (simp add: b_def nth_append)
  have bA: "b k ! (N + a) = coord k (anchors ! a)" if "a < length idx" for k a
    using that rows anc by (simp add: b_def nth_append)
  have "mulvec L (map (coord k) Y) = b k \<longleftrightarrow>
          (\<forall>r<N. coord k (mulvec3 L Y ! r) = coord k (mulvec3 L (VPos mesh) ! r)) \<and>
          (\<forall>a<length idx. coord k (Y ! (idx ! a)) = coord k (anchors ! a))" for k
  proof -
    have "length (b k) = N + length idx" using rows anc by (simp add: b_def)
    then have "mulvec L (map (coord k) Y) = b k \<longleftrightarrow>
                 (\<forall>r<N + length idx. mulvec L (map (coord k) Y) ! r = b k ! r)"
      using rows by (simp add: list_eq_iff_nth_eq)
    then show ?thesis
      using rowN [of _ Y k] rowA bN bA Y by (simp add: all_less_add_split N_def)
  qed
  then show ?thesis
    by (simp add: b_def N_def [symmetric] all_less_three vec3_eq_coord) blast
qed

text \<open>
  C10: anchor exactness of \<open>solveLaplacianMesh\<close>.  If some pose \<open>X\<close> of the
  mesh's size has the mesh's Laplacian coordinates and meets every anchor, then with a
  solver that returns an exact solution whenever one exists, the solve succeeds, keeps
  the triangles, and the new positions have the mesh's Laplacian coordinates and sit
  exactly on the anchors.
\<close>

theorem solveLaplacianMesh_exact:
  assumes ex: "lsq_exact lsqr"
    and L: "getLaplacianMatrixCotangent mesh idx 1 = Inr L"
    and anc: "length anchors = length idx"
    and X: "length X = length (VPos mesh)"
      "\<forall>r<length (VPos mesh). mulvec3 L X ! r = mulvec3 L (VPos mesh) ! r"
      "\<forall>a<length idx. X ! (idx ! a) = anchors ! a"
  shows "\<exists>mesh'. solveLaplacianMesh lsqr mesh anchors idx = Inr mesh' \<and>
           ITris mesh' = ITris mesh \<and> length (VPos mesh') = length (VPos mesh) \<and>
           (\<forall>r<length (VPos mesh). mulvec3 L (VPos mesh') ! r = mulvec3 L (VPos mesh) ! r) \<and>
           (\<forall>a<length idx. VPos mesh' ! (idx ! a) = anchors ! a)"
proof -
  define N where "N = length (VPos mesh)"
  define b where "b k = map (coord k) (take N (mulvec3 L (VPos mesh)) @ anchors)" for k
  from L have rows: "nrows L = N + length idx" and ncols: "ncols L = N"
    by (simp_all add: getLaplacianMatrixCotangent_Inr N_def)
  have sysX: "\<forall>k<3. mulvec L (map (coord k) X) = b k"
    using laplacian_system_iff [OF L X(1) anc] X by (simp add: b_def N_def)
  have x: "length (lsqr L (b k)) = length (VPos mesh) \<and> mulvec L (lsqr L (b k)) = b k" if "k < 3" for k
    using lsq_exactD [OF ex _ sysX [rule_format, OF that]] X(1) ncols by (simp add: N_def)
  define W where "W = set_col 2 (set_col 1 (set_col 0 (VPos mesh) (lsqr L (b 0))) (lsqr L (b 1))) (lsqr L (b 2))"
  from three_columns [of "\<lambda>k. lsqr L (b k)" "VPos mesh" "\<lambda>w2. Inr (mesh\<lparr>VPos := w2\<rparr>)"] x
  have chain: "bindE (broadcast (length (VPos mesh)) (lsqr L (b 0))) (\<lambda>x0.
           let V0 = set_col 0 (VPos mesh) x0 in
           bindE (broadcast (length V0) (lsqr L (b 1))) (\<lambda>x1.
           let V1 = set_col 1 V0 x1 in
           bindE (broadcast (length V1) (lsqr L (b 2))) (\<lambda>x2.
           let V2 = set_col 2 V1 x2 in Inr (mesh\<lparr>VPos := V2\<rparr>)))) = Inr (mesh\<lparr>VPos := W\<rparr>)"
    and lenW: "length W = length (VPos mesh)" and coordW: "\<forall>k<3. map (coord k) W = lsqr L (b k)"
    by (simp_all add: W_def)
  have bc: "broadcast (nrows L - N) anchors = Inr anchors"
    using rows anc by simp
  have run: "solveLaplacianMesh lsqr mesh anchors idx = Inr (mesh\<lparr>VPos := W\<rparr>)"
    using chain by (simp add: solveLaplacianMesh_def L bc N_def [symmetric] b_def Let_def)
  have "\<forall>k<3. mulvec L (map (coord k) W) = b k"
    using coordW x by simp
  then have "(\<forall>r<length (VPos mesh). mulvec3 L W ! r = mulvec3 L (VPos mesh) ! r) \<and>
             (\<forall>a<length idx. W ! (idx ! a) = anchors ! a)"
    using laplacian_system_iff [OF L lenW anc] by (simp add: b_def N_def)
  then show ?thesis
    using run lenW by auto
qed

theorem solveLaplacianMesh_exact_witness:
  "\<exists>L mesh'. getLaplacianMatrixCotangent \<lparr>VPos = [Vec3 0 0 0, Vec3 1 0 0, Vec3 0 1 0], ITris = [[0, 1, 2]], needsDisplayUpdate = False\<rparr> [0] 1 = Inr L \<and>
      solveLaplacianMesh exact_lsq \<lparr>VPos = [Vec3 0 0 0, Vec3 1 0 0, Vec3 0 1 0], ITris = [[0, 1, 2]], needsDisplayUpdate = False\<rparr> [Vec3 0 0 0] [0] = Inr mesh' \<and>
      VPos mesh' ! 0 = Vec3 0 0 0 \<and> length (VPos mesh') = 3"
proof -
  obtain L where L: "getLaplacianMatrixCotangent \<lparr>VPos = [Vec3 0 0 0, Vec3 1 0 0, Vec3 0 1 0], ITris = [[0, 1, 2]], needsDisplayUpdate = False\<rparr> [0] 1 = Inr L"
    by (simp add: getLaplacianMatrixCotangent_eq)
  from solveLaplacianMesh_exact [OF lsq_exact_exact_lsq L, of "[Vec3 0 0 0]" "[Vec3 0 0 0, Vec3 1 0 0, Vec3 0 1 0]"]
  obtain mesh' where "solveLaplacianMesh exact_lsq \<lparr>VPos = [Vec3 0 0 0, Vec3 1 0 0, Vec3 0 1 0], ITris = [[0, 1, 2]], needsDisplayUpdate = False\<rparr> [Vec3 0 0 0] [0] = Inr mesh'"
    and "VPos mesh' ! 0 = Vec3 0 0 0" and "length (VPos mesh') = 3"
    by auto
  with L show ?thesis by blast
qed

text \<open>
  C28: the anchor targets the solver accepts.  Once the operator is built,
  \<open>delta[N:, :] = anchors\<close> follows numpy's broadcasting rule: a list of targets whose
  length is neither the number of anchors nor one raises \<open>ValueError\<close>, and a single
  target is copied to every anchor, so that one anchor position pins all anchored
  vertices to the same point.
\<close>

theorem solveLaplacianMesh_anchor_targets:
  assumes "getLaplacianMatrixCotangent mesh anchorsIdx 1 = Inr L"
  shows "(length anchors \<noteq> length anchorsIdx \<and> length anchors \<noteq> 1 \<longrightarrow>
            solveLaplacianMesh lsqr mesh anchors anchorsIdx = Inl ValueError) \<and>
         (solveLaplacianMesh lsqr mesh [a] anchorsIdx =
            solveLaplacianMesh lsqr mesh (replicate (length anchorsIdx) a) anchorsIdx)"
proof -
  have rows: "length (mulvec3 L (VPos mesh)) - length (VPos mesh) = length anchorsIdx"
    using assms by (simp add: getLaplacianMatrixCotangent_Inr)
  have b1: "length anchors \<noteq> length anchorsIdx \<and> length anchors \<noteq> 1 \<Longrightarrow>
      broadcast (length anchorsIdx) anchors = Inl ValueError"
    by (simp add: broadcast_def)
  have b2: "broadcast (length anchorsIdx) [a] = broadcast (length anchorsIdx) (replicate (length anchorsIdx) a)"
    by (cases "length anchorsIdx") (auto simp: broadcast_def)
  show ?thesis
    using rows b1 b2 by (simp add: solveLaplacianMesh_def Let_def assms)
qed

theorem solveLaplacianMesh_anchor_targets_witness:
  "solveLaplacianMesh (\<lambda>A b. b) \<lparr>VPos = [Vec3 0 0 0, Vec3 1 0 0, Vec3 0 1 0], ITris = [[0, 1, 2]], needsDisplayUpdate = False\<rparr>
      [Vec3 0 0 0, Vec3 1 1 1] [0, 1, 2] = Inl ValueError"
proof -
  obtain L where L: "getLaplacianMatrixCotangent \<lparr>VPos = [Vec3 0 0 0, Vec3 1 0 0, Vec3 0 1 0], ITris = [[0, 1, 2]], needsDisplayUpdate = False\<rparr> [0, 1, 2] 1 = Inr L"
    by (simp add: getLaplacianMatrixCotangent_eq tris_in_range_def)
  show ?thesis
    using solveLaplacianMesh_anchor_targets [OF L, of "[Vec3 0 0 0, Vec3 1 1 1]" "\<lambda>A b. b"] by simp
qed
end
