(* ===== verification/Transfer_Steps.thy ===== *)
theory Transfer_Steps
  imports Transfer_Solver
begin

text \<open>
  The frame loop of \<open>beginDeformationTransfer\<close> as the state machine of the spec
  (section 4.4): a state is the frame index \<open>i\<close>, the two extended poses the next
  iteration reads (\<open>origOldVPos4\<close>, \<open>warpedOldVPos4\<close>) and the frames of
  \<open>resultFrames\<close> filled so far.  \<open>frame_start\<close> is the code before the loop;
  \<open>frame_step\<close> is one iteration, taken only when it raises nothing; a run ends at
  index \<open>NFrames - 1\<close>.  The lemmas show the machine deterministic, its reachable
  states well shaped (by rule induction), and the functional model
  \<open>beginDeformationTransfer\<close> equal to running the machine to its terminal state.
\<close>

type_synonym frame_state = "nat \<times> pose \<times> pose \<times> pose list"

definition frame_start :: "DeformationTranferer \<Rightarrow> frame_state result" where
  "frame_start st =
     (if warpedFrames st = [] \<or> NFrames st = 0 then Inl IndexError
      else
        bindE (getVPos4 (origFrames st ! 0) (origTris st)) (\<lambda>origOldVPos4.
        bindE (getVPos4 (warpedFrames st ! 0) (warpedTris st)) (\<lambda>warpedOldVPos4.
        Inr (0, origOldVPos4, warpedOldVPos4, [warpedFrames st ! 0]))))"

inductive frame_step :: "lsq_solver \<Rightarrow> DeformationTranferer \<Rightarrow> frame_state \<Rightarrow> frame_state \<Rightarrow> bool"
  for lsqr st where
  step: "Suc i < NFrames st \<Longrightarrow>
         transfer_step lsqr st o4 w4 (origFrames st ! Suc i) = Inr (o4', w4') \<Longrightarrow>
         gather w4' [0..<NVertices st] = Inr frame \<Longrightarrow>
         frame_step lsqr st (i, o4, w4, out) (Suc i, o4', w4', out @ [frame])"

text \<open>What every reachable state satisfies when the transferer is well formed.\<close>

definition frame_inv :: "DeformationTranferer \<Rightarrow> frame_state \<Rightarrow> bool" where
  "frame_inv st s =
     (case s of (i, o4, w4, out) \<Rightarrow>
        i < NFrames st \<and> length out = Suc i \<and> out ! 0 = warpedFrames st ! 0 \<and>
        list_all (\<lambda>f. length f = NVertices st) out \<and>
        length o4 = NVertices4 st \<and> length w4 = NVertices4 st)"

inductive_cases frame_stepE: "frame_step lsqr st s s'"

subsection \<open>The machine\<close>

lemma frame_step_index: "frame_step lsqr st s s' \<Longrightarrow> fst s' = Suc (fst s)"
  by (erule frame_stepE) simp

lemma frame_step_deterministic:
  "frame_step lsqr st s s1 \<Longrightarrow> frame_step lsqr st s s2 \<Longrightarrow> s1 = s2"
  by (elim frame_stepE) auto

lemma frame_steps_index: "(frame_step lsqr st)\<^sup>*\<^sup>* s s' \<Longrightarrow> fst s \<le> fst s'"
  by (induction rule: rtranclp_induct) (auto dest: frame_step_index)

lemma frame_steps_same_index: "(frame_step lsqr st)\<^sup>*\<^sup>* s s' \<Longrightarrow> fst s' = fst s \<Longrightarrow> s' = s"
  by (induction rule: converse_rtranclp_induct) (auto dest!: frame_step_index frame_steps_index)

lemma frame_steps_first:
  assumes "(frame_step lsqr st)\<^sup>*\<^sup>* s s'" and "fst s < fst s'"
  obtains s1 where "frame_step lsqr st s s1" and "(frame_step lsqr st)\<^sup>*\<^sup>* s1 s'"
  using assms by (induction rule: converse_rtranclp_induct) auto

lemma frame_steps_prefix:
  "(frame_step lsqr st)\<^sup>*\<^sup>* s s' \<Longrightarrow> \<exists>r. snd (snd (snd s')) = snd (snd (snd s)) @ r"
  by (induction rule: rtranclp_induct) (auto elim!: frame_stepE)

subsection \<open>The loop runs the machine\<close>

lemma upt_Suc_Cons: "Suc i < n \<Longrightarrow> [Suc i..<n] = Suc i # [Suc (Suc i)..<n]"
  by (simp add: upt_conv_Cons)

lemma transfer_loop_steps:
  assumes "i < NFrames st"
  shows "transfer_loop lsqr st o4 w4 (map (nth (origFrames st)) [Suc i..<NFrames st]) = Inr rest \<longleftrightarrow>
         (\<exists>q v. (frame_step lsqr st)\<^sup>*\<^sup>* (i, o4, w4, out) (NFrames st - 1, q, v, out @ rest))"
  using assms
proof (induction "NFrames st - Suc i" arbitrary: i o4 w4 out rest)
  case 0
  then have N: "NFrames st - 1 = i" and upt: "[Suc i..<NFrames st] = []" by auto
  have "(frame_step lsqr st)\<^sup>*\<^sup>* (i, o4, w4, out) (i, q, v, out @ rest) \<longleftrightarrow> q = o4 \<and> v = w4 \<and> rest = []"
    for q v by (auto dest: frame_steps_same_index)
  then show ?case unfolding N upt by auto
next
  case (Suc k)
  then have i: "Suc i < NFrames st" and k: "k = NFrames st - Suc (Suc i)" by auto
  note IH = Suc.hyps(1) [OF k i]
  show ?case
  proof
    assume "transfer_loop lsqr st o4 w4 (map (nth (origFrames st)) [Suc i..<NFrames st]) = Inr rest"
    then obtain o4' w4' frame rest' where
      step: "transfer_step lsqr st o4 w4 (origFrames st ! Suc i) = Inr (o4', w4')"
      and g: "gather w4' [0..<NVertices st] = Inr frame"
      and r: "transfer_loop lsqr st o4' w4' (map (nth (origFrames st)) [Suc (Suc i)..<NFrames st]) = Inr rest'"
      and rest: "rest = frame # rest'"
      using i by (auto simp: upt_Suc_Cons bindE_eq_Inr_iff split: prod.splits)
    from IH [of o4' w4' rest' "out @ [frame]"] r obtain q v where
      "(frame_step lsqr st)\<^sup>*\<^sup>* (Suc i, o4', w4', out @ [frame]) (NFrames st - 1, q, v, out @ [frame] @ rest')"
      by auto
    moreover have "frame_step lsqr st (i, o4, w4, out) (Suc i, o4', w4', out @ [frame])"
      using i step g by (rule frame_step.step)
    ultimately show "\<exists>q v. (frame_step lsqr st)\<^sup>*\<^sup>* (i, o4, w4, out) (NFrames st - 1, q, v, out @ rest)"
      using rest by (auto intro: converse_rtranclp_into_rtranclp)
  next
    assume "\<exists>q v. (frame_step lsqr st)\<^sup>*\<^sup>* (i, o4, w4, out) (NFrames st - 1, q, v, out @ rest)"
    then obtain q v where run: "(frame_step lsqr st)\<^sup>*\<^sup>* (i, o4, w4, out) (NFrames st - 1, q, v, out @ rest)"
      by blast
    have lt: "fst (i, o4, w4, out) < fst (NFrames st - 1, q, v, out @ rest)"
      using i by simp
    obtain s1 where s1: "frame_step lsqr st (i, o4, w4, out) s1"
      and run1: "(frame_step lsqr st)\<^sup>*\<^sup>* s1 (NFrames st - 1, q, v, out @ rest)"
      using frame_steps_first [OF run lt] by blast
    from s1 obtain o4' w4' frame where s1_eq: "s1 = (Suc i, o4', w4', out @ [frame])"
      and step: "transfer_step lsqr st o4 w4 (origFrames st ! Suc i) = Inr (o4', w4')"
      and g: "gather w4' [0..<NVertices st] = Inr frame"
      by (auto elim!: frame_stepE)
    from frame_steps_prefix [OF run1] s1_eq obtain rest' where rest: "rest = frame # rest'"
      by auto
    have "transfer_loop lsqr st o4' w4' (map (nth (origFrames st)) [Suc (Suc i)..<NFrames st]) = Inr rest'"
      using IH [of o4' w4' rest' "out @ [frame]"] run1 s1_eq rest by auto
    then show "transfer_loop lsqr st o4 w4 (map (nth (origFrames st)) [Suc i..<NFrames st]) = Inr rest"
      using i step g rest by (simp add: upt_Suc_Cons)
  qed
qed

lemma frame_start_Inr:
  "frame_start st = Inr s0 \<longleftrightarrow>
     warpedFrames st \<noteq> [] \<and> NFrames st \<noteq> 0 \<and>
     (\<exists>q v. getVPos4 (origFrames st ! 0) (origTris st) = Inr q \<and>
            getVPos4 (warpedFrames st ! 0) (warpedTris st) = Inr v \<and> s0 = (0, q, v, [warpedFrames st ! 0]))"
  by (auto simp: frame_start_def bindE_eq_Inr_iff)

lemma beginDeformationTransfer_start:
  "beginDeformationTransfer lsqr st =
     bindE (frame_start st) (\<lambda>(i, q, v, out).
     bindE (transfer_loop lsqr st q v (map (nth (origFrames st)) [Suc 0..<NFrames st])) (\<lambda>rest.
     Inr (st\<lparr>warpedVideo := (warpedVideo st)\<lparr>Frames := out @ rest\<rparr>\<rparr>)))"
  by (cases "getVPos4 (origFrames st ! 0) (origTris st)"; cases "getVPos4 (warpedFrames st ! 0) (warpedTris st)")
     (simp_all add: beginDeformationTransfer_def frame_start_def)

text \<open>
  C8: the functional model refines the state machine.  \<open>beginDeformationTransfer\<close>
  returns \<open>st'\<close> exactly when the machine, started by the code before the loop,
  reaches the terminal index \<open>NFrames - 1\<close> in a state whose frames are the frames
  stored in \<open>st'\<close>, and \<open>st'\<close> differs from \<open>st\<close> only in those frames.
\<close>

theorem beginDeformationTransfer_steps:
  "beginDeformationTransfer lsqr st = Inr st' \<longleftrightarrow>
     (\<exists>s0 q v. frame_start st = Inr s0 \<and>
        (frame_step lsqr st)\<^sup>*\<^sup>* s0 (NFrames st - 1, q, v, Frames (warpedVideo st')) \<and>
        st' = st\<lparr>warpedVideo := (warpedVideo st)\<lparr>Frames := Frames (warpedVideo st')\<rparr>\<rparr>)"
proof
  assume "beginDeformationTransfer lsqr st = Inr st'"
  then obtain q v rest where s0: "frame_start st = Inr (0, q, v, [warpedFrames st ! 0])"
    and loop: "transfer_loop lsqr st q v (map (nth (origFrames st)) [Suc 0..<NFrames st]) = Inr rest"
    and st': "st' = st\<lparr>warpedVideo := (warpedVideo st)\<lparr>Frames := warpedFrames st ! 0 # rest\<rparr>\<rparr>"
    by (auto simp: beginDeformationTransfer_start bindE_eq_Inr_iff frame_start_Inr)
  from s0 have "0 < NFrames st" by (simp add: frame_start_Inr)
  with loop obtain q' v' where
    "(frame_step lsqr st)\<^sup>*\<^sup>* (0, q, v, [warpedFrames st ! 0]) (NFrames st - 1, q', v', [warpedFrames st ! 0] @ rest)"
    using transfer_loop_steps [of 0 st lsqr q v rest "[warpedFrames st ! 0]"] by auto
  with s0 st' show "\<exists>s0 q v. frame_start st = Inr s0 \<and>
        (frame_step lsqr st)\<^sup>*\<^sup>* s0 (NFrames st - 1, q, v, Frames (warpedVideo st')) \<and>
        st' = st\<lparr>warpedVideo := (warpedVideo st)\<lparr>Frames := Frames (warpedVideo st')\<rparr>\<rparr>"
    by auto
next
  assume "\<exists>s0 q v. frame_start st = Inr s0 \<and>
        (frame_step lsqr st)\<^sup>*\<^sup>* s0 (NFrames st - 1, q, v, Frames (warpedVideo st')) \<and>
        st' = st\<lparr>warpedVideo := (warpedVideo st)\<lparr>Frames := Frames (warpedVideo st')\<rparr>\<rparr>"
  then obtain q0 v0 q v where s0: "frame_start st = Inr (0, q0, v0, [warpedFrames st ! 0])"
    and run: "(frame_step lsqr st)\<^sup>*\<^sup>* (0, q0, v0, [warpedFrames st ! 0]) (NFrames st - 1, q, v, Frames (warpedVideo st'))"
    and st': "st' = st\<lparr>warpedVideo := (warpedVideo st)\<lparr>Frames := Frames (warpedVideo st')\<rparr>\<rparr>"
    by (auto simp: frame_start_Inr)
  from frame_steps_prefix [OF run] obtain rest where F: "Frames (warpedVideo st') = [warpedFrames st ! 0] @ rest"
    by auto
  from s0 have "0 < NFrames st" by (simp add: frame_start_Inr)
  with run F have "transfer_loop lsqr st q0 v0 (map (nth (origFrames st)) [Suc 0..<NFrames st]) = Inr rest"
    using transfer_loop_steps [of 0 st lsqr q0 v0 rest "[warpedFrames st ! 0]"] by auto
  with s0 st' F show "beginDeformationTransfer lsqr st = Inr st'"
    by (simp add: beginDeformationTransfer_start)
qed

theorem beginDeformationTransfer_steps_witness:
  "\<exists>st st'. DeformationTranferer_init \<lparr>Frames = [[Vec3 0 0 0, Vec3 1 0 0, Vec3 0 1 0], [Vec3 0 0 0, Vec3 1 0 0, Vec3 0 1 0]], FrameWidth = 3, m = \<lparr>VPos = [Vec3 0 0 0, Vec3 1 0 0, Vec3 0 1 0], ITris = [[0::nat, 1, 2]], needsDisplayUpdate = False\<rparr>\<rparr> \<lparr>Frames = [[Vec3 0 0 0, Vec3 1 0 0, Vec3 0 1 0]], FrameWidth = 3, m = \<lparr>VPos = [Vec3 0 0 0, Vec3 1 0 0, Vec3 0 1 0], ITris = [[0::nat, 1, 2]], needsDisplayUpdate = False\<rparr>\<rparr> = Inr st \<and>
     beginDeformationTransfer (\<lambda>A b. 0 # b) st = Inr st' \<and>
     (\<exists>s0 q v. frame_start st = Inr s0 \<and>
        (frame_step (\<lambda>A b. 0 # b) st)\<^sup>*\<^sup>* s0 (1, q, v, Frames (warpedVideo st')))"
proof -
  obtain st where init: "DeformationTranferer_init \<lparr>Frames = [[Vec3 0 0 0, Vec3 1 0 0, Vec3 0 1 0], [Vec3 0 0 0, Vec3 1 0 0, Vec3 0 1 0]], FrameWidth = 3, m = \<lparr>VPos = [Vec3 0 0 0, Vec3 1 0 0, Vec3 0 1 0], ITris = [[0::nat, 1, 2]], needsDisplayUpdate = False\<rparr>\<rparr> \<lparr>Frames = [[Vec3 0 0 0, Vec3 1 0 0, Vec3 0 1 0]], FrameWidth = 3, m = \<lparr>VPos = [Vec3 0 0 0, Vec3 1 0 0, Vec3 0 1 0], ITris = [[0::nat, 1, 2]], needsDisplayUpdate = False\<rparr>\<rparr> = Inr st"
    by (simp add: DeformationTranferer_init_eq)
  obtain st' where run: "beginDeformationTransfer (\<lambda>A b. 0 # b) st = Inr st'"
    using init by (auto simp: transfer_eval_simps)
  have N: "NFrames st - 1 = 1"
    using init by (auto simp: DeformationTranferer_init_eq)
  obtain s0 q v where s0: "frame_start st = Inr s0"
    and reach: "(frame_step (\<lambda>A b. 0 # b) st)\<^sup>*\<^sup>* s0 (NFrames st - 1, q, v, Frames (warpedVideo st'))"
    using beginDeformationTransfer_steps [of "\<lambda>A b. 0 # b" st st'] run by blast
  from reach N have "(frame_step (\<lambda>A b. 0 # b) st)\<^sup>*\<^sup>* s0 (1, q, v, Frames (warpedVideo st'))"
    by simp
  with s0 init run show ?thesis by blast
qed

subsection \<open>The invariant\<close>

lemma getVPos4_length: "getVPos4 P T = Inr Q \<Longrightarrow> length Q = length P + length T"
  by (auto simp: getVPos4_eq split: if_splits)

lemma transfer_step_lengths:
  "transfer_step lsqr st o4 w4 f = Inr (o4', w4') \<Longrightarrow>
     length o4' = length f + length (origTris st) \<and> length w4' = length w4"
  by (auto simp: transfer_step_def bindE_eq_Inr_iff Let_def dest!: broadcast_length getVPos4_length)

lemma frame_inv_start:
  "transferer_wf st \<Longrightarrow> frame_start st = Inr s0 \<Longrightarrow> frame_inv st s0"
  by (auto simp: frame_start_Inr frame_inv_def transferer_wf_def list_all_length dest!: getVPos4_length)

lemma frame_inv_step:
  assumes "transferer_wf st" "frame_inv st s" "frame_step lsqr st s s'"
  shows "frame_inv st s'"
  using assms(3,2)
proof (cases rule: frame_step.cases)
  case (step i o4 w4 o4' w4' frame out)
  have f: "length (origFrames st ! Suc i) = NVertices st"
    using assms(1) step(3) by (simp add: transferer_wf_def list_all_length)
  have "length o4' = NVertices4 st \<and> length w4' = length w4"
    using transfer_step_lengths [OF step(4)] f assms(1) by (simp add: transferer_wf_def)
  moreover have "length frame = NVertices st"
    using gather_upt_length [OF step(5)] .
  ultimately show ?thesis
    using assms(2) step by (auto simp: frame_inv_def nth_append)
qed

text \<open>
  C9: the invariant of the frame loop, by rule induction over the machine.  For a
  well-formed transferer and any solver, every state reachable from the start has
  index \<open>i < NFrames\<close>, holds exactly \<open>i + 1\<close> result frames of \<open>NVertices\<close> vertices
  each with frame 0 the target's reference pose, and carries extended poses of
  \<open>NVertices4\<close> rows.
\<close>

theorem frame_reachable_invariant:
  assumes "transferer_wf st" and "frame_start st = Inr s0" and "(frame_step lsqr st)\<^sup>*\<^sup>* s0 s"
  shows "frame_inv st s"
  using assms(3)
proof (induction rule: rtranclp_induct)
  case base
  then show ?case using frame_inv_start [OF assms(1,2)] .
next
  case (step s1 s2)
  then show ?case using frame_inv_step [OF assms(1)] by blast
qed

theorem frame_reachable_invariant_witness:
  "\<exists>st. DeformationTranferer_init \<lparr>Frames = [[Vec3 0 0 0, Vec3 1 0 0, Vec3 0 1 0], [Vec3 0 0 0, Vec3 1 0 0, Vec3 0 1 0]], FrameWidth = 3, m = \<lparr>VPos = [Vec3 0 0 0, Vec3 1 0 0, Vec3 0 1 0], ITris = [[0::nat, 1, 2]], needsDisplayUpdate = False\<rparr>\<rparr> \<lparr>Frames = [[Vec3 0 0 0, Vec3 1 0 0, Vec3 0 1 0]], FrameWidth = 3, m = \<lparr>VPos = [Vec3 0 0 0, Vec3 1 0 0, Vec3 0 1 0], ITris = [[0::nat, 1, 2]], needsDisplayUpdate = False\<rparr>\<rparr> = Inr st \<and>
     frame_start st = Inr (0, [Vec3 0 0 0, Vec3 1 0 0, Vec3 0 1 0, Vec3 0 0 1], [Vec3 0 0 0, Vec3 1 0 0, Vec3 0 1 0, Vec3 0 0 1], [[Vec3 0 0 0, Vec3 1 0 0, Vec3 0 1 0]]) \<and>
     (frame_step (\<lambda>A b. 0 # b) st)\<^sup>*\<^sup>* (0, [Vec3 0 0 0, Vec3 1 0 0, Vec3 0 1 0, Vec3 0 0 1], [Vec3 0 0 0, Vec3 1 0 0, Vec3 0 1 0, Vec3 0 0 1], [[Vec3 0 0 0, Vec3 1 0 0, Vec3 0 1 0]]) (1, [Vec3 0 0 0, Vec3 1 0 0, Vec3 0 1 0, Vec3 0 0 1], [Vec3 0 0 0, Vec3 1 0 0, Vec3 0 1 0, Vec3 0 0 1], [[Vec3 0 0 0, Vec3 1 0 0, Vec3 0 1 0], [Vec3 0 0 0, Vec3 1 0 0, Vec3 0 1 0]]) \<and>
     frame_inv st (1, [Vec3 0 0 0, Vec3 1 0 0, Vec3 0 1 0, Vec3 0 0 1], [Vec3 0 0 0, Vec3 1 0 0, Vec3 0 1 0, Vec3 0 0 1], [[Vec3 0 0 0, Vec3 1 0 0, Vec3 0 1 0], [Vec3 0 0 0, Vec3 1 0 0, Vec3 0 1 0]])"
proof -
  obtain st where init: "DeformationTranferer_init \<lparr>Frames = [[Vec3 0 0 0, Vec3 1 0 0, Vec3 0 1 0], [Vec3 0 0 0, Vec3 1 0 0, Vec3 0 1 0]], FrameWidth = 3, m = \<lparr>VPos = [Vec3 0 0 0, Vec3 1 0 0, Vec3 0 1 0], ITris = [[0::nat, 1, 2]], needsDisplayUpdate = False\<rparr>\<rparr> \<lparr>Frames = [[Vec3 0 0 0, Vec3 1 0 0, Vec3 0 1 0]], FrameWidth = 3, m = \<lparr>VPos = [Vec3 0 0 0, Vec3 1 0 0, Vec3 0 1 0], ITris = [[0::nat, 1, 2]], needsDisplayUpdate = False\<rparr>\<rparr> = Inr st"
    by (simp add: DeformationTranferer_init_eq)
  have wf: "transferer_wf st"
    using DeformationTranferer_init_wf [OF init] by (simp add: video_wf_def)
  have start: "frame_start st = Inr (0, [Vec3 0 0 0, Vec3 1 0 0, Vec3 0 1 0, Vec3 0 0 1], [Vec3 0 0 0, Vec3 1 0 0, Vec3 0 1 0, Vec3 0 0 1], [[Vec3 0 0 0, Vec3 1 0 0, Vec3 0 1 0]])"
    using init by (auto simp: frame_start_def transfer_eval_simps)
  have "frame_step (\<lambda>A b. 0 # b) st (0, [Vec3 0 0 0, Vec3 1 0 0, Vec3 0 1 0, Vec3 0 0 1], [Vec3 0 0 0, Vec3 1 0 0, Vec3 0 1 0, Vec3 0 0 1], [[Vec3 0 0 0, Vec3 1 0 0, Vec3 0 1 0]]) (Suc 0, [Vec3 0 0 0, Vec3 1 0 0, Vec3 0 1 0, Vec3 0 0 1], [Vec3 0 0 0, Vec3 1 0 0, Vec3 0 1 0, Vec3 0 0 1], [[Vec3 0 0 0, Vec3 1 0 0, Vec3 0 1 0]] @ [[Vec3 0 0 0, Vec3 1 0 0, Vec3 0 1 0]])"
    by (rule frame_step.step) (use init in \<open>auto simp: transfer_eval_simps\<close>)
  then have run: "(frame_step (\<lambda>A b. 0 # b) st)\<^sup>*\<^sup>* (0, [Vec3 0 0 0, Vec3 1 0 0, Vec3 0 1 0, Vec3 0 0 1], [Vec3 0 0 0, Vec3 1 0 0, Vec3 0 1 0, Vec3 0 0 1], [[Vec3 0 0 0, Vec3 1 0 0, Vec3 0 1 0]]) (1, [Vec3 0 0 0, Vec3 1 0 0, Vec3 0 1 0, Vec3 0 0 1], [Vec3 0 0 0, Vec3 1 0 0, Vec3 0 1 0, Vec3 0 0 1], [[Vec3 0 0 0, Vec3 1 0 0, Vec3 0 1 0], [Vec3 0 0 0, Vec3 1 0 0, Vec3 0 1 0]])"
    by simp
  show ?thesis
    using init start run frame_reachable_invariant [OF wf start run] by blast
qed

end
