(* ===== verification/Video.thy ===== *)
theory Video
  imports Transfer_Solver
begin

text \<open>
  The video container \<open>VideoMesh\<close> (second class of that name,
  \<open>src/DeformationTransfer.py\<close>, lines 232--262) beyond its constructor:
  \<open>loadVideo\<close> replaces the frames by the array \<open>'Frames'\<close> of the dictionary read
  from a \<open>.mat\<close> file (the dictionary is the argument; a missing key raises
  \<open>KeyError\<close>), \<open>doTransfer\<close> does nothing, and
  \<open>drawFrame\<close> clamps an index past the end to the last frame, copies that frame
  into the mesh with numpy's indexing rules (negative indices from the end,
  \<open>IndexError\<close> outside) and marks the mesh for redisplay.  The OpenGL call
  \<open>renderGL\<close> that follows only draws, so the model stops before it.  The last claim
  composes the transfer with the display: the transferred video can be shown at every
  non-negative index.
\<close>

text \<open>\<open>self.Frames = sio.loadmat(videoFilename)['Frames']\<close>: the loaded
  \<open>NFrames \<times> NVertices \<times> 3\<close> array, given as its frames and its \<open>shape[1]\<close>.\<close>

definition loadVideo :: "VideoMesh \<Rightarrow> pose list \<Rightarrow> nat \<Rightarrow> VideoMesh" where
  "loadVideo v loaded width = v\<lparr>Frames := loaded, FrameWidth := width\<rparr>"

text \<open>The whole method: the array is the entry \<open>'Frames'\<close> of the dictionary
  \<open>sio.loadmat\<close> reads from the file.\<close>

definition loadVideo_mat :: "VideoMesh \<Rightarrow> (string \<Rightarrow> (pose list \<times> nat) option) \<Rightarrow> VideoMesh result" where
  "loadVideo_mat v mat = bindE (dict_get mat ''Frames'') (\<lambda>(loaded, width). Inr (loadVideo v loaded width))"

definition doTransfer :: "VideoMesh \<Rightarrow> VideoMesh" where
  "doTransfer v = v"

definition drawFrame :: "VideoMesh \<Rightarrow> int \<Rightarrow> VideoMesh result" where
  "drawFrame v idx =
     (let n = int (length (Frames v));
          idx' = (if idx \<ge> n then n - 1 else idx)
      in bindE (np_index (Frames v) idx') (\<lambda>frame.
           Inr (v\<lparr>m := (m v)\<lparr>VPos := frame, needsDisplayUpdate := True\<rparr>\<rparr>)))"

text \<open>The frame \<open>drawFrame\<close> shows for an index that does not raise.\<close>

definition shown_index :: "nat \<Rightarrow> int \<Rightarrow> nat" where
  "shown_index n idx = (if int n \<le> idx then n - 1 else if idx < 0 then nat (idx + int n) else nat idx)"

subsection \<open>Evaluation\<close>

lemma drawFrame_eq:
  "drawFrame v idx =
     (if Frames v = [] \<or> idx < - int (length (Frames v)) then Inl IndexError
      else Inr (v\<lparr>m := (m v)\<lparr>VPos := Frames v ! shown_index (length (Frames v)) idx,
                                   needsDisplayUpdate := True\<rparr>\<rparr>))"
proof (cases "Frames v = []")
  case True
  then show ?thesis by (simp add: drawFrame_def np_index_def Let_def)
next
  case False
  then have n: "0 < length (Frames v)" by simp
  show ?thesis
    using n by (auto simp: drawFrame_def np_index_def Let_def shown_index_def nat_diff_distrib'
      intro!: arg_cong [where f = "\<lambda>i. Frames v ! i"])
qed

lemma shown_index_less: "0 < n \<Longrightarrow> - int n \<le> idx \<Longrightarrow> shown_index n idx < n"
  by (auto simp: shown_index_def)


lemma video_wf_nth_length: "video_wf v \<Longrightarrow> i < length (Frames v) \<Longrightarrow> length (Frames v ! i) = FrameWidth v"
  by (simp add: video_wf_def list_all_length)

subsection \<open>Properties\<close>

text \<open>
  C14: \<open>drawFrame\<close> never reads outside the video.  On a non-empty video and an index
  not below \<open>-NFrames\<close>, it succeeds and shows a frame of the video: the last one
  for an index past the end, frame \<open>idx\<close> for an index in range, and frame
  \<open>idx + NFrames\<close> for a negative index, numpy's count from the end.
\<close>

theorem drawFrame_clamps:
  assumes "Frames v \<noteq> []" and "- int (length (Frames v)) \<le> idx"
  shows "\<exists>i<length (Frames v).
           drawFrame v idx = Inr (v\<lparr>m := (m v)\<lparr>VPos := Frames v ! i, needsDisplayUpdate := True\<rparr>\<rparr>) \<and>
           (int (length (Frames v)) \<le> idx \<longrightarrow> i = length (Frames v) - 1) \<and>
           (0 \<le> idx \<and> idx < int (length (Frames v)) \<longrightarrow> int i = idx) \<and>
           (idx < 0 \<longrightarrow> int i = idx + int (length (Frames v)))"
proof (intro exI conjI)
  show "shown_index (length (Frames v)) idx < length (Frames v)"
    using assms by (simp add: shown_index_less)
  show "drawFrame v idx = Inr (v\<lparr>m := (m v)\<lparr>VPos := Frames v ! shown_index (length (Frames v)) idx,
                                             needsDisplayUpdate := True\<rparr>\<rparr>)"
    using assms by (simp add: drawFrame_eq)
qed (use assms(2) in \<open>auto simp: shown_index_def\<close>)

text \<open>
  C29: \<open>drawFrame\<close> raises exactly on an empty video (where the clamp yields index
  \<open>-1\<close>) and on an index below \<open>-NFrames\<close>, and the error is \<open>IndexError\<close>.
\<close>

theorem drawFrame_errors:
  "drawFrame v idx = Inl e \<longleftrightarrow> (Frames v = [] \<or> idx < - int (length (Frames v))) \<and> e = IndexError"
  by (auto simp: drawFrame_eq)

text \<open>
  C16: \<open>drawFrame\<close> changes only the displayed mesh: the frames, their width and the
  mesh's triangles stay, the mesh is marked for redisplay, and on a well-formed video
  the mesh it shows has the video's vertex count.
\<close>

theorem drawFrame_invariant:
  assumes "drawFrame v idx = Inr v'"
  shows "Frames v' = Frames v \<and> FrameWidth v' = FrameWidth v \<and> ITris (m v') = ITris (m v) \<and>
         needsDisplayUpdate (m v') \<and> (video_wf v \<longrightarrow> length (VPos (m v')) = FrameWidth v)"
proof -
  from assms have ne: "Frames v \<noteq> []" and lo: "- int (length (Frames v)) \<le> idx"
    and v': "v' = v\<lparr>m := (m v)\<lparr>VPos := Frames v ! shown_index (length (Frames v)) idx,
                               needsDisplayUpdate := True\<rparr>\<rparr>"
    by (auto simp: drawFrame_eq split: if_splits)
  have "shown_index (length (Frames v)) idx < length (Frames v)"
    using ne lo by (simp add: shown_index_less)
  then show ?thesis
    using v' by (auto simp: video_wf_nth_length)
qed

text \<open>
  C15: store and read back.  \<open>loadVideo\<close> raises \<open>KeyError\<close> when the file has no
  array \<open>'Frames'\<close>; otherwise it stores that array, and \<open>drawFrame\<close> at every index
  of it shows exactly the stored frame.
\<close>

theorem loadVideo_drawFrame:
  "(mat ''Frames'' = None \<longrightarrow> loadVideo_mat v mat = Inl KeyError) \<and>
   (mat ''Frames'' = Some (loaded, w) \<longrightarrow> i < length loaded \<longrightarrow>
      (\<exists>v'. loadVideo_mat v mat = Inr v' \<and>
            drawFrame v' (int i) = Inr (v'\<lparr>m := (m v)\<lparr>VPos := loaded ! i, needsDisplayUpdate := True\<rparr>\<rparr>)))"
  by (simp add: loadVideo_mat_def dict_get_def drawFrame_def loadVideo_def Let_def)

text \<open>
  C18: the constructor gives a well-formed one-frame video of the loaded mesh on its
  triangles; for the file \<open>NotreDameFrontHalfMouthCut.off\<close> it negates every
  \<open>z\<close> coordinate, keeps \<open>x\<close> and \<open>y\<close> and marks the mesh for redisplay, and for any
  other file it keeps the mesh as loaded.
\<close>

theorem VideoMesh_init_video:
  "video_wf (VideoMesh_init name mesh) \<and> length (Frames (VideoMesh_init name mesh)) = 1 \<and>
   Frames (VideoMesh_init name mesh) ! 0 = VPos (m (VideoMesh_init name mesh)) \<and>
   ITris (m (VideoMesh_init name mesh)) = ITris mesh \<and>
   (name = ''NotreDameFrontHalfMouthCut.off'' \<longrightarrow>
      map (coord 2) (VPos (m (VideoMesh_init name mesh))) = map (\<lambda>p. - coord 2 p) (VPos mesh) \<and>
      map (coord 0) (VPos (m (VideoMesh_init name mesh))) = map (coord 0) (VPos mesh) \<and>
      map (coord 1) (VPos (m (VideoMesh_init name mesh))) = map (coord 1) (VPos mesh) \<and>
      needsDisplayUpdate (m (VideoMesh_init name mesh))) \<and>
   (name \<noteq> ''NotreDameFrontHalfMouthCut.off'' \<longrightarrow> m (VideoMesh_init name mesh) = mesh)"
  by (simp add: VideoMesh_init_def video_wf_def Let_def)

text \<open>
  C17: displaying the transferred video.  After a successful \<open>beginDeformationTransfer\<close>
  on a well-formed transferer, \<open>drawFrame\<close> on the warped video succeeds for every
  non-negative index: it shows transferred frame \<open>j\<close>, or the last one for \<open>j\<close> past
  the end, on the target mesh's triangles, and every frame it can show has the
  target's \<open>NVertices\<close> vertices.
\<close>

theorem transfer_then_drawFrame:
  assumes wf: "transferer_wf st" and run: "beginDeformationTransfer lsqr st = Inr st'"
  shows "(\<forall>j. drawFrame (warpedVideo st') (int j) =
            Inr ((warpedVideo st')\<lparr>m := (m (warpedVideo st))\<lparr>VPos := Frames (warpedVideo st') ! min j (NFrames st - 1),
                                                         needsDisplayUpdate := True\<rparr>\<rparr>)) \<and>
         list_all (\<lambda>f. length f = NVertices st) (Frames (warpedVideo st'))"
proof -
  note r = beginDeformationTransfer_result [OF wf run]
  have n: "length (Frames (warpedVideo st')) = NFrames st" "0 < NFrames st"
    using r run by (auto simp: beginDeformationTransfer_def split: if_splits)
  have m': "m (warpedVideo st') = m (warpedVideo st)"
    using arg_cong [OF conjunct2 [OF conjunct2 [OF conjunct2 [OF r]]], of "\<lambda>x. m (warpedVideo x)"] by simp
  have "shown_index (NFrames st) (int j) = min j (NFrames st - 1)" for j
    by (auto simp: shown_index_def)
  moreover have "Frames (warpedVideo st') \<noteq> []"
    using n by auto
  ultimately show ?thesis
    using n m' r by (simp add: drawFrame_eq)
qed

subsection \<open>Witnesses\<close>

theorem drawFrame_clamps_witness:
  "drawFrame \<lparr>Frames = [[Vec3 0 0 0], [Vec3 1 2 3]], FrameWidth = 1,
              m = \<lparr>VPos = [Vec3 0 0 0], ITris = [], needsDisplayUpdate = False\<rparr>\<rparr> 5 =
     Inr \<lparr>Frames = [[Vec3 0 0 0], [Vec3 1 2 3]], FrameWidth = 1,
          m = \<lparr>VPos = [Vec3 1 2 3], ITris = [], needsDisplayUpdate = True\<rparr>\<rparr>"
  using drawFrame_clamps [of "\<lparr>Frames = [[Vec3 0 0 0], [Vec3 1 2 3]], FrameWidth = 1,
              m = \<lparr>VPos = [Vec3 0 0 0], ITris = [], needsDisplayUpdate = False\<rparr>\<rparr>" 5]
  by (auto simp: less_Suc_eq)

theorem drawFrame_invariant_witness:
  "drawFrame \<lparr>Frames = [[Vec3 0 0 0], [Vec3 1 2 3]], FrameWidth = 1,
              m = \<lparr>VPos = [Vec3 0 0 0], ITris = [], needsDisplayUpdate = False\<rparr>\<rparr> (- 1) =
     Inr \<lparr>Frames = [[Vec3 0 0 0], [Vec3 1 2 3]], FrameWidth = 1,
          m = \<lparr>VPos = [Vec3 1 2 3], ITris = [], needsDisplayUpdate = True\<rparr>\<rparr> \<and>
   length (VPos (m \<lparr>Frames = [[Vec3 0 0 0], [Vec3 1 2 3]], FrameWidth = 1,
          m = \<lparr>VPos = [Vec3 1 2 3], ITris = [], needsDisplayUpdate = True\<rparr>\<rparr>)) = 1"
proof -
  have d: "drawFrame \<lparr>Frames = [[Vec3 0 0 0], [Vec3 1 2 3]], FrameWidth = 1,
              m = \<lparr>VPos = [Vec3 0 0 0], ITris = [], needsDisplayUpdate = False\<rparr>\<rparr> (- 1) =
     Inr \<lparr>Frames = [[Vec3 0 0 0], [Vec3 1 2 3]], FrameWidth = 1,
          m = \<lparr>VPos = [Vec3 1 2 3], ITris = [], needsDisplayUpdate = True\<rparr>\<rparr>"
    by (simp add: drawFrame_def np_index_def)
  show ?thesis
    using d drawFrame_invariant [OF d] by (simp add: video_wf_def)
qed

theorem loadVideo_drawFrame_witness:
  "loadVideo_mat \<lparr>Frames = [], FrameWidth = 0, m = \<lparr>VPos = [], ITris = [], needsDisplayUpdate = False\<rparr>\<rparr> (\<lambda>k. if k = ''Frames'' then Some ([[Vec3 0 0 0], [Vec3 1 2 3]], 1) else None) =
     Inr \<lparr>Frames = [[Vec3 0 0 0], [Vec3 1 2 3]], FrameWidth = 1,
          m = \<lparr>VPos = [], ITris = [], needsDisplayUpdate = False\<rparr>\<rparr> \<and>
   drawFrame \<lparr>Frames = [[Vec3 0 0 0], [Vec3 1 2 3]], FrameWidth = 1,
          m = \<lparr>VPos = [], ITris = [], needsDisplayUpdate = False\<rparr>\<rparr> 1 =
     Inr \<lparr>Frames = [[Vec3 0 0 0], [Vec3 1 2 3]], FrameWidth = 1,
          m = \<lparr>VPos = [Vec3 1 2 3], ITris = [], needsDisplayUpdate = True\<rparr>\<rparr> \<and>
   loadVideo_mat \<lparr>Frames = [], FrameWidth = 0, m = \<lparr>VPos = [], ITris = [], needsDisplayUpdate = False\<rparr>\<rparr> Map.empty = Inl KeyError"
  using loadVideo_drawFrame [of "\<lambda>k. if k = ''Frames'' then Some ([[Vec3 0 0 0], [Vec3 1 2 3]], 1) else None"
      "\<lparr>Frames = [], FrameWidth = 0, m = \<lparr>VPos = [], ITris = [], needsDisplayUpdate = False\<rparr>\<rparr>" "[[Vec3 0 0 0], [Vec3 1 2 3]]" 1 1]
    loadVideo_drawFrame [of Map.empty "\<lparr>Frames = [], FrameWidth = 0, m = \<lparr>VPos = [], ITris = [], needsDisplayUpdate = False\<rparr>\<rparr>"]
  by (auto simp: loadVideo_mat_def dict_get_def loadVideo_def)

theorem VideoMesh_init_video_witness:
  "Frames (VideoMesh_init ''NotreDameFrontHalfMouthCut.off'' \<lparr>VPos = [Vec3 1 2 3], ITris = [], needsDisplayUpdate = False\<rparr>) =
     [[Vec3 1 2 (- 3)]] \<and>
   m (VideoMesh_init ''candide.off'' \<lparr>VPos = [Vec3 1 2 3], ITris = [], needsDisplayUpdate = False\<rparr>) =
     \<lparr>VPos = [Vec3 1 2 3], ITris = [], needsDisplayUpdate = False\<rparr>"
  using VideoMesh_init_video [of "''NotreDameFrontHalfMouthCut.off''" "\<lparr>VPos = [Vec3 1 2 3], ITris = [], needsDisplayUpdate = False\<rparr>"]
    VideoMesh_init_video [of "''candide.off''" "\<lparr>VPos = [Vec3 1 2 3], ITris = [], needsDisplayUpdate = False\<rparr>"]
  by (simp add: VideoMesh_init_def)


text \<open>A two-frame static source on the unit triangle: index 7 plays the last frame.\<close>

theorem transfer_then_drawFrame_witness:
  "\<exists>st st' v'. DeformationTranferer_init \<lparr>Frames = [[Vec3 0 0 0, Vec3 1 0 0, Vec3 0 1 0], [Vec3 0 0 0, Vec3 1 0 0, Vec3 0 1 0]], FrameWidth = 3, m = \<lparr>VPos = [Vec3 0 0 0, Vec3 1 0 0, Vec3 0 1 0], ITris = [[0::nat, 1, 2]], needsDisplayUpdate = False\<rparr>\<rparr> \<lparr>Frames = [[Vec3 0 0 0, Vec3 1 0 0, Vec3 0 1 0]], FrameWidth = 3, m = \<lparr>VPos = [Vec3 0 0 0, Vec3 1 0 0, Vec3 0 1 0], ITris = [[0::nat, 1, 2]], needsDisplayUpdate = False\<rparr>\<rparr> = Inr st \<and>
     beginDeformationTransfer (\<lambda>A b. 0 # b) st = Inr st' \<and>
     drawFrame (warpedVideo st') 7 = Inr v' \<and> VPos (m v') = Frames (warpedVideo st') ! 1 \<and>
     length (VPos (m v')) = 3"
proof -
  define ov where "ov = \<lparr>Frames = [[Vec3 0 0 0, Vec3 1 0 0, Vec3 0 1 0], [Vec3 0 0 0, Vec3 1 0 0, Vec3 0 1 0]], FrameWidth = 3, m = \<lparr>VPos = [Vec3 0 0 0, Vec3 1 0 0, Vec3 0 1 0], ITris = [[0::nat, 1, 2]], needsDisplayUpdate = False\<rparr>\<rparr>"
  define wv where "wv = \<lparr>Frames = [[Vec3 0 0 0, Vec3 1 0 0, Vec3 0 1 0]], FrameWidth = 3, m = \<lparr>VPos = [Vec3 0 0 0, Vec3 1 0 0, Vec3 0 1 0], ITris = [[0::nat, 1, 2]], needsDisplayUpdate = False\<rparr>\<rparr>"
  obtain st where init: "DeformationTranferer_init ov wv = Inr st"
    by (simp add: DeformationTranferer_init_eq ov_def wv_def)
  have wf: "transferer_wf st"
    using DeformationTranferer_init_wf [OF init] by (simp add: ov_def wv_def video_wf_def)
  obtain st' where run: "beginDeformationTransfer (\<lambda>A b. 0 # b) st = Inr st'"
    using init by (auto simp: transfer_eval_simps ov_def wv_def)
  have N: "NFrames st = 2" "NVertices st = 3"
    using init by (auto simp: DeformationTranferer_init_eq ov_def wv_def)
  note d = transfer_then_drawFrame [OF wf run]
  have "drawFrame (warpedVideo st') (int 7) =
      Inr ((warpedVideo st')\<lparr>m := (m (warpedVideo st))\<lparr>VPos := Frames (warpedVideo st') ! 1,
                                                   needsDisplayUpdate := True\<rparr>\<rparr>)"
    using spec [OF conjunct1 [OF d], of 7] N by simp
  moreover have "length (Frames (warpedVideo st') ! 1) = 3"
    using d N beginDeformationTransfer_result [OF wf run] by (simp add: list_all_length)
  ultimately show ?thesis
    using init run unfolding ov_def wv_def by auto
qed

end
