(* ===== verification/Script.thy ===== *)
theory Script
  imports Video
begin

text \<open>
  The code of \<open>src/DeformationTransfer.py\<close> outside the two pipelines, as Python 2
  runs it.  The loaders \<open>loadBaselKeypointMesh\<close> and \<open>loadBUTris\<close> (lines 12--19)
  take what the file readers return as their argument.  The first class
  \<open>VideoMesh\<close> (lines 87--93) is shadowed by the second
  definition of the name at line 232, so only an object created before that line could
  reach it; its constructor makes an empty frame array, and its \<open>initStaticVideo\<close>
  was written without the parameter \<open>self\<close>: called on an object it receives one
  argument too many (\<open>TypeError\<close>), and called with no argument the object becomes
  \<open>VPosInitial\<close> and the body reads the undefined name \<open>self\<close> (\<open>NameError\<close>),
  so its two assignments never run.  The \<open>__main__\<close> block (lines 264--270)
  builds the source video from \<open>candide.off\<close> and then assigns it to
  \<open>self.origVideo\<close> at module level, where \<open>self\<close> is undefined: the script stops
  with \<open>NameError\<close> before it loads the video.
\<close>

text \<open>The two loaders, given what the library reads from the file:
  \<open>loadOffFileExternal\<close> returns positions, colours and triangles, and
  \<open>sio.loadmat\<close> a dictionary of arrays.\<close>

definition loadBaselKeypointMesh :: "pose \<times> vec3 list \<times> tri list \<Rightarrow> pose \<times> tri list" where
  "loadBaselKeypointMesh off = (case off of (vpos, vcolors, itris) \<Rightarrow> (vpos, itris))"

definition loadBUTris :: "(string \<Rightarrow> tri list option) \<Rightarrow> tri list result" where
  "loadBUTris mat = dict_get mat ''ITris''"

record VideoMesh0 =
  Frames0 :: "pose list"

definition VideoMesh0_init :: VideoMesh0 where
  "VideoMesh0_init = \<lparr>Frames0 = []\<rparr>"

text \<open>\<open>obj.initStaticVideo(*args)\<close>: the bound call passes \<open>obj\<close> and \<open>args\<close> to a
  function of one parameter.\<close>

definition initStaticVideo :: "VideoMesh0 \<Rightarrow> pose list \<Rightarrow> VideoMesh0 result" where
  "initStaticVideo obj args =
     (if 1 + length args \<noteq> 1 then Inl TypeError
      else Inl NameError)"

text \<open>The \<open>__main__\<close> block, given the mesh \<open>PolyMesh.loadFile\<close> reads from
  \<open>candide.off\<close>: the right-hand side of line 267 is evaluated, then the assignment
  target \<open>self\<close> is looked up.\<close>

definition main_script :: "PolyMesh \<Rightarrow> unit result" where
  "main_script candide =
     bindE (Inr (VideoMesh_init ''candide.off'' candide)) (\<lambda>origVideo. Inl NameError)"


end
