(* ===== verification/Spec2Isabelle.thy ===== *)
theory Spec2Isabelle
  imports Laplacian Transfer_Steps Script
begin

text \<open>
  \<^bold>\<open>Deformation transfer between mesh videos, and cotangent Laplacian editing.\<close>
  A verification development of \<open>src/DeformationTransfer.py\<close>.

  \<^bold>\<open>The program.\<close>  A source video (a mesh with one pose per frame) and a target mesh
  with the same triangles are given.  For every frame the program computes, triangle by
  triangle, the affine map taking the source's previous pose to its current one, and
  solves for the target pose whose triangles undergo the same maps.  Its parts, in the
  order the data flows:
  \<^item> the Local Frame Extractor (\<open>get4thVertex\<close>, \<open>getVPos4\<close>, lines 157--172) adds
    to every triangle a synthetic fourth vertex along its normal, so that the three
    edge vectors from the first corner span space;
  \<^item> the Affine Transformation Builder (\<open>getSMatrix\<close>, lines 174--187) computes, per
    triangle, \<open>S\<^sub>i = V\<^sub>n\<^sub>e\<^sub>w V\<^sub>o\<^sub>l\<^sub>d\<^sup>-\<^sup>1\<close> from the two extended source poses and lays
    the blocks side by side in a \<open>3 \<times> 3F\<close> array;
  \<^item> the Transfer Coefficient Builder (\<open>getAMatrix\<close>, lines 189--230) builds from the
    target's current extended pose the sparse operator \<open>A\<close> that maps the unknown new
    target pose to its per-triangle maps, laid out as \<open>S\<close> is;
  \<^item> the Per-Frame Transfer Solver (class \<open>DeformationTranferer\<close>: \<open>__init__\<close>,
    lines 96--121, and \<open>beginDeformationTransfer\<close>, lines 134--152) checks the shapes,
    appends the synthetic vertex column to the triangle arrays, and for every frame
    solves \<open>A x\<^sub>k = S[k, :]\<close> for the three axes with \<open>scipy.sparse.linalg.lsqr\<close>,
    writes the solutions into the target's extended pose and emits its real vertices;
  \<^item> independently, the Cotangent Laplacian Builder and Anchor Solver
    (\<open>getLaplacianMatrixCotangent\<close>, \<open>solveLaplacianMesh\<close>, lines 21--85) build
    \<open>L = diag(W 1) - W\<close> from cotangent weights plus one row per anchor, and solve for
    positions that keep \<open>L\<close>-coordinates and meet the anchors.

  \<^bold>\<open>Theories and their correspondence to the code.\<close>
  \<^item> \<open>DT_Prelude\<close>: the exceptions the code can raise (\<open>py_error\<close>), the result
    type \<open>py_error + 'a\<close> with \<open>bindE\<close>, \<open>mapE\<close> for a Python loop whose body may
    raise, numpy fancy indexing \<open>gather\<close> (\<open>IndexError\<close>), the broadcasting rule of a
    slice assignment \<open>broadcast\<close> (\<open>ValueError\<close>) and column selection \<open>col_sel\<close>.
  \<^item> \<open>LinAlg\<close>: rows of a position array as \<open>vec3\<close> (an additive group), \<open>3 \<times> 3\<close>
    arrays as \<open>mat3\<close> given by rows, \<open>np.cross\<close>, \<open>np.dot\<close>, the stacking
    \<open>np.vstack((a, b, c)).T\<close> as \<open>cols3\<close>, and \<open>np.linalg.inv\<close> as \<open>inv3\<close>: the
    adjugate over the determinant, or \<open>LinAlgError\<close> for a singular matrix.
  \<^item> \<open>Sparse\<close>: \<open>scipy.sparse.coo_matrix\<close> with its shape checks, the matrix its
    triplets denote (duplicates summed), \<open>A.dot(x)\<close>, \<open>L.dot(VPos)\<close> and \<open>A.sum(1)\<close>.
  \<^item> \<open>Frame\<close>, \<open>Affine\<close>, \<open>Coeff\<close>: one definition per method, with the code's
    gathers, assertions and per-triangle loops in the code's order.
  \<^item> \<open>Transfer_Solver\<close>: the records \<open>PolyMesh\<close> (the external mesh object, only the
    fields read), \<open>VideoMesh\<close> and \<open>DeformationTranferer\<close> (the object's fields), the
    constructor \<open>DeformationTranferer_init\<close>, the loop body \<open>transfer_step\<close>, the loop
    \<open>transfer_loop\<close> and \<open>beginDeformationTransfer\<close>, which returns the transferer
    with the warped video's frames replaced.  In-place column writes are \<open>set_col\<close>.
  \<^item> \<open>Transfer_Steps\<close>: the same loop as a state machine, an inductive step relation
    \<open>frame_step\<close> over states (frame index, the two extended poses, the frames so far).
  \<^item> \<open>Video\<close>: the rest of the second \<open>VideoMesh\<close> class (lines 250--262):
    \<open>loadVideo\<close> with the loaded array as its argument, \<open>doTransfer\<close>, and
    \<open>drawFrame\<close> with its clamp and numpy's indexing \<open>np_index\<close>; the constructor
    \<open>VideoMesh_init\<close> (with the z-flip of one named mesh file) is in
    \<open>Transfer_Solver\<close>.
  \<^item> \<open>Script\<close>: the code outside the pipelines as Python 2 runs it: the loaders
    \<open>loadBaselKeypointMesh\<close> and \<open>loadBUTris\<close> (on what the file readers return), the shadowed first
    \<open>VideoMesh\<close> class, whose \<open>initStaticVideo\<close> lacks \<open>self\<close> and always raises,
    and the \<open>__main__\<close> block, which raises \<open>NameError\<close> at its first assignment;
    and the composition of the components the way that block intends.
  \<^item> \<open>Transfer_Correct\<close>: the solver contract and the loop invariants.
  \<^item> \<open>Laplacian\<close>: the three shifts of Step 1 (\<open>shift_trips\<close>), \<open>D - W\<close>
    (\<open>laplacian_trips\<close>), the anchor rows, and the anchor solver.
  \<^item> this theory: the end-to-end properties of the transfer (edge-exactness, the
    translation per frame on a connected mesh, the undetermined translation) and the
    finding on the synthetic vertices.

  \<^bold>\<open>Modelling choices.\<close>  Floating-point numbers are reals and arithmetic is exact.
  HOL's \<open>x / 0 = 0\<close> differs from numpy's NaN and inf: for a degenerate triangle the
  model's synthetic vertex coincides with the first corner and its cotangent weights
  are 0, where numpy produces NaN or inf.  The
  theorems about the transfer therefore assume non-degenerate triangles (\<open>nondeg\<close>),
  and a finding records what the code does otherwise.  Every
  exception (a failed \<open>assert\<close>, an index out of range, a singular inverse, a shape
  rejected by scipy or by broadcasting) is a value \<open>Inl e\<close>; a run that raises
  returns only the error, so the partial updates Python leaves behind are not modelled.
  Triangle and vertex indices are natural numbers, so numpy's negative indices do not
  arise there; the one index the code takes from its caller, \<open>drawFrame\<close>'s, is an
  \<open>int\<close> read with numpy's rule (\<open>np_index\<close>).  Every loop of the code runs over a
  finite list and is modelled by structural recursion (\<open>mapE\<close>,
  \<open>transfer_loop\<close>), so every definition is total and no fuel or bound is needed.
  All definitions are executable except the
  solver instances \<open>exact_lsq\<close> and \<open>shift_lsq\<close>.

  \<^bold>\<open>The solver.\<close>  \<open>lsqr\<close> is not modelled: the transfer and the anchor solver take
  it as a parameter \<open>lsq_solver\<close>.  Theorems that need a property of it assume
  \<open>lsq_exact\<close>: when \<open>A x = b\<close> has a solution of the right length, the solver returns
  one.  \<open>exact_lsq\<close> meets the contract and instantiates these theorems in their
  witnesses.  Theorems about shapes, order and errors hold for every solver; runs on
  concrete meshes use the computable solver \<open>\<lambda>A b. 0 # b\<close>, which is exact on them.

  \<^bold>\<open>What is proved\<close> (claims C1--C32, each stated where its component lives).
  \<^item> End to end (this theory, C1, C3): with an exact solver, a target that
    starts as a translate of the source follows the source's motion edge for edge (the
    witness is the spec's folding quad); a static source leaves the target's shape
    unchanged.  On a connected mesh each output frame is the source frame moved by one
    vector (C2), the spec's rigid-motion property up to translation.
    Both hold only up to translation, because \<open>A\<close> annihilates constants
    (C6); two exact solvers can emit videos that differ by a
    translation (C4), so the contract does not fix the output.
  \<^item> Refinement between the builders (C5): \<open>A\<close> applied to a candidate pose gives
    exactly the \<open>S\<close>-layout of the maps from the current target to the candidate, which
    is what makes \<open>A x = S\<close> the transfer equation.  Each block of \<open>getSMatrix\<close> is the
    one map taking old edges to new (C19); the rows of one
    triangle read only that triangle's vertices (C22).
  \<^item> The frame loop (C7--C9): a successful run stores \<open>NFrames\<close> frames of
    \<open>NVertices\<close> vertices with frame 0 the target's reference pose, for any solver;
    \<open>beginDeformationTransfer\<close> is the run of the state machine \<open>frame_step\<close>
    (theory \<open>Transfer_Steps\<close>) to its terminal index, whose reachable states satisfy
    the shape invariant (rule induction).  Its edge cases
    (C25): empty videos raise \<open>IndexError\<close>, a one-frame video returns the
    reference pose.
  \<^item> The video container (theory \<open>Video\<close>, C14--C18, C29): \<open>drawFrame\<close> shows a frame of the
    video for every index it accepts, past-the-end indices the last one; frames stored by
    \<open>loadVideo\<close> read back unchanged (and a file without them raises \<open>KeyError\<close>);
    drawing changes only the displayed mesh; the constructor's z-flip; the indices on
    which \<open>drawFrame\<close> raises; and the transferred video displays without error at
    every non-negative index.
  \<^item> The Laplacian (C10--C13, C23, C27, C28): anchor exactness of the solver, rows summing
    to zero, symmetry, the placement of the cotangent weights, the anchor rows, the
    errors, and the broadcasting of the anchor targets.  These carry no
    non-degeneracy hypothesis: on a zero-area triangle they describe the model's
    weight 0 where numpy computes inf or NaN (a finding).
  \<^item> The synthetic vertex (C20, C31, C32): it is at unit distance along the normal,
    orthogonal to both edges, so the extended frame of a non-degenerate triangle is a
    basis; it is placed after the real vertices; it commutes with translations.
  \<^item> Errors (C24, C26, C27, C30): what the constructor checks (counts only), and
    which exception each builder raises, and when.
  \<^item> The finding C21: the loop carries the solved synthetic vertices to
    the next frame.  These differ from the recomputed ones the spec calls equivalent.

  \<^bold>\<open>Not modelled.\<close>  The internals and tolerances of \<open>lsqr\<close> (an approximate,
  iterative method); the parsing of files by the libraries (\<open>loadOffFileExternal\<close>,
  \<open>PolyMesh.loadFile\<close>, \<open>sio.loadmat\<close>) and \<open>mesh.saveFile\<close>: the loaders are
  modelled on what these return, with \<open>KeyError\<close> for a missing array; the OpenGL call \<open>renderGL\<close> at the
  end of \<open>drawFrame\<close>, the bounding box \<open>bbox\<close> (a \<open>BBox3D\<close> of the external
  library) and the debug prints;
  \<open>PolyMesh.updateTris\<close>, taken to leave the triangle array \<open>ITris\<close>; the arrays
  \<open>IA\<close>, \<open>VA\<close>, \<open>VC\<close> that the Laplacian builder fills but never reads;
  floating-point rounding.  The library \<open>S3DGLPy\<close> is not in the repository, so of
  its mesh object only the fields the code reads or sets are modelled, and the
  bounding box \<open>BBox3D\<close> not at all.
\<close>

subsection \<open>A target that starts as a translate of the source\<close>

text \<open>What \<open>beginDeformationTransfer\<close> reduces to when the target video starts from a
  translate of the source's reference pose on the same triangles: the loop over the
  remaining source frames, from extended poses whose frames agree, on a well-formed
  transferer.\<close>

lemma map_shift_ne: "xs \<noteq> [] \<Longrightarrow> map (\<lambda>p. p + Vec3 1 1 1) xs \<noteq> xs"
  by (cases xs; cases "hd xs") auto

lemma copy_source_setup:
  assumes init: "DeformationTranferer_init ov wv = Inr st"
    and wfo: "video_wf ov" and wfw: "video_wf wv"
    and tris: "ITris (m wv) = ITris (m ov)" "tris_shape (ITris (m ov))"
      "tris_in_range (FrameWidth ov) (ITris (m ov))"
    and frames: "Frames ov \<noteq> []" "Frames wv = map (\<lambda>p. p + c) (Frames ov ! 0) # ws"
    and nd: "list_all (\<lambda>f. nondeg f (ITris (m ov))) (Frames ov)"
  defines "o4 \<equiv> Frames ov ! 0 @ map (vertex4 (Frames ov ! 0)) (ITris (m ov))"
  shows "transferer_wf st" "tris_shape (origTris st)" "tris_in_range (NVertices st) (origTris st)"
    "warpedTris st = origTris st" "origTris st = ITris (m ov)"
    "length o4 = NVertices4 st" "frames_invertible o4 (origTris4 st)"
    "length (map (\<lambda>p. p + c) o4) = NVertices4 st" "frames_agree (map (\<lambda>p. p + c) o4) o4 (origTris4 st)"
    "list_all (\<lambda>f. length f = NVertices st \<and> nondeg f (origTris st)) (tl (Frames ov))"
    "beginDeformationTransfer lsqr st =
       bindE (transfer_loop lsqr st o4 (map (\<lambda>p. p + c) o4) (tl (Frames ov))) (\<lambda>rest.
         Inr (st\<lparr>warpedVideo := (warpedVideo st)\<lparr>Frames := map (\<lambda>p. p + c) (Frames ov ! 0) # rest\<rparr>\<rparr>))"
proof -
  define T where "T = ITris (m ov)"
  define o0 where "o0 = Frames ov ! 0"
  have wf: "transferer_wf st" using DeformationTranferer_init_wf [OF init wfo wfw] .
  have fld: "origFrames st = Frames ov" "warpedFrames st = Frames wv" "NVertices st = FrameWidth ov"
    "origTris st = T" "warpedTris st = T" "origTris4 st = tris4_of T (FrameWidth ov)"
    "NVertices4 st = FrameWidth ov + length T"
    using DeformationTranferer_init_fields [OF init] tris(1) by (simp_all add: T_def)
  have lo0: "length o0 = FrameWidth ov" using video_wf_nth [OF wfo] frames(1) by (simp add: o0_def)
  have rangeT: "tris_in_range (length o0) T" using tris(3) lo0 by (simp add: T_def)
  have w0: "warpedFrames st ! 0 = map (\<lambda>p. p + c) o0" using fld(2) frames(2) by (simp add: o0_def)
  show "transferer_wf st" by (rule wf)
  show "tris_shape (origTris st)" "tris_in_range (NVertices st) (origTris st)"
    "warpedTris st = origTris st" "origTris st = ITris (m ov)"
    using tris fld by (simp_all add: T_def)
  show lo4: "length o4 = NVertices4 st" using lo0 fld by (simp add: o4_def o0_def T_def)
  then show "length (map (\<lambda>p. p + c) o4) = NVertices4 st" by simp
  show "frames_invertible o4 (origTris4 st)"
    using extended_frames_invertible [OF _ rangeT] tris(2) nd frames(1) lo0 fld
    by (simp add: o4_def T_def o0_def list_all_length)
  show "frames_agree (map (\<lambda>p. p + c) o4) o4 (origTris4 st)"
    using frames_agree_translate tris4_of_in_range [OF tris(2,3)] lo4 fld by (simp add: T_def)
  show "list_all (\<lambda>f. length f = NVertices st \<and> nondeg f (origTris st)) (tl (Frames ov))"
    using wfo nd fld by (cases "Frames ov") (auto simp: video_wf_def T_def list_all_iff)
  show "beginDeformationTransfer lsqr st =
       bindE (transfer_loop lsqr st o4 (map (\<lambda>p. p + c) o4) (tl (Frames ov))) (\<lambda>rest.
         Inr (st\<lparr>warpedVideo := (warpedVideo st)\<lparr>Frames := map (\<lambda>p. p + c) (Frames ov ! 0) # rest\<rparr>\<rparr>))"
    using beginDeformationTransfer_loop [OF wf, of lsqr] frames fld tris(3) [folded T_def] w0 rangeT
    by (simp add: o4_def o0_def T_def extended_translate)
qed

lemma copy_source_frames:
  assumes init: "DeformationTranferer_init ov wv = Inr st"
    and wfo: "video_wf ov" and wfw: "video_wf wv"
    and tris: "ITris (m wv) = ITris (m ov)" "tris_shape (ITris (m ov))"
      "tris_in_range (FrameWidth ov) (ITris (m ov))"
    and frames: "Frames ov \<noteq> []" "Frames wv = map (\<lambda>p. p + c) (Frames ov ! 0) # ws"
    and nd: "list_all (\<lambda>f. nondeg f (ITris (m ov))) (Frames ov)"
    and ex: "lsq_exact lsqr"
  shows "\<exists>st'. beginDeformationTransfer lsqr st = Inr st' \<and>
           length (Frames (warpedVideo st')) = length (Frames ov) \<and>
           list_all (\<lambda>f. length f = FrameWidth ov) (Frames (warpedVideo st')) \<and>
           (\<forall>i<length (Frames ov). \<forall>t\<in>set (ITris (m ov)).
              tri_edges (Frames (warpedVideo st') ! i) t = tri_edges (Frames ov ! i) t)"
proof -
  note s = copy_source_setup [OF init wfo wfw tris frames nd]
  define T where "T = ITris (m ov)"
  define o0 where "o0 = Frames ov ! 0"
  obtain out where out: "transfer_loop lsqr st (o0 @ map (vertex4 o0) T) (map (\<lambda>p. p + c) (o0 @ map (vertex4 o0) T))
                           (tl (Frames ov)) = Inr out"
    and lout: "length out = length (tl (Frames ov))"
    and edges: "\<forall>i<length (tl (Frames ov)). \<forall>t\<in>set (origTris st). tri_edges (out ! i) t = tri_edges (tl (Frames ov) ! i) t"
    using transfer_loop_agree [OF s(1-4) ex s(6,7) _ s(9,10)] s(8) by (auto simp: T_def o0_def)
  have wout: "list_all (\<lambda>f. length f = FrameWidth ov) out"
    using transfer_loop_shape [OF out] DeformationTranferer_init_fields [OF init] by simp
  have lo0: "length o0 = FrameWidth ov" using video_wf_nth [OF wfo] frames(1) by (simp add: o0_def)
  have e0: "\<forall>t\<in>set T. tri_edges (map (\<lambda>p. p + c) o0) t = tri_edges o0 t"
    using tris(3) lo0 by (auto simp: tris_in_range_def list_all_iff tri_edges_translate T_def)
  show ?thesis
    using s(11) [of lsqr] s(5) out lout wout lo0 edges e0 frames(1)
    by (auto simp: nth_Cons nth_tl o0_def T_def split: nat.splits)
qed

text \<open>
  C1: deformation transfer onto a copy of the source.  When the target video starts
  from a translate of the source's reference pose on the same triangles, every source
  frame is non-degenerate and the least-squares solver returns an exact solution
  whenever one exists, \<open>beginDeformationTransfer\<close> succeeds and every output frame
  has, triangle by triangle, exactly the edge vectors of the corresponding source
  frame: the target reproduces the source's motion up to a translation.
\<close>

theorem transfer_follows_source:
  assumes init: "DeformationTranferer_init ov wv = Inr st"
    and wfo: "video_wf ov" and wfw: "video_wf wv"
    and tris: "ITris (m wv) = ITris (m ov)" "tris_shape (ITris (m ov))"
      "tris_in_range (FrameWidth ov) (ITris (m ov))"
    and frames: "Frames ov \<noteq> []" "Frames wv = map (\<lambda>p. p + c) (Frames ov ! 0) # ws"
    and nd: "list_all (\<lambda>f. nondeg f (ITris (m ov))) (Frames ov)"
    and ex: "lsq_exact lsqr"
  shows "\<exists>st'. beginDeformationTransfer lsqr st = Inr st' \<and>
           length (Frames (warpedVideo st')) = length (Frames ov) \<and>
           (\<forall>i<length (Frames ov). \<forall>t\<in>set (ITris (m ov)).
              tri_edges (Frames (warpedVideo st') ! i) t = tri_edges (Frames ov ! i) t)"
  using copy_source_frames [OF assms] by blast

text \<open>
  C2: the spec's rigid-motion property, up to one translation per frame.  In the
  setting of the first claim, if moreover the triangles form a connected list that
  covers every vertex, each output frame is the corresponding source frame moved by
  a single vector: equal edge vectors on a connected mesh leave only a global
  translation free.
\<close>

theorem transfer_follows_source_rigid:
  assumes init: "DeformationTranferer_init ov wv = Inr st"
    and wfo: "video_wf ov" and wfw: "video_wf wv"
    and tris: "ITris (m wv) = ITris (m ov)" "tris_shape (ITris (m ov))"
      "tris_in_range (FrameWidth ov) (ITris (m ov))"
    and frames: "Frames ov \<noteq> []" "Frames wv = map (\<lambda>p. p + c) (Frames ov ! 0) # ws"
    and nd: "list_all (\<lambda>f. nondeg f (ITris (m ov))) (Frames ov)"
    and ex: "lsq_exact lsqr"
    and conn: "tris_connected (ITris (m ov))" "tris_cover (FrameWidth ov) (ITris (m ov))"
  shows "\<exists>st'. beginDeformationTransfer lsqr st = Inr st' \<and>
           length (Frames (warpedVideo st')) = length (Frames ov) \<and>
           (\<forall>i<length (Frames ov). \<exists>d. Frames (warpedVideo st') ! i = map (\<lambda>p. p + d) (Frames ov ! i))"
proof -
  obtain st' where run: "beginDeformationTransfer lsqr st = Inr st'"
    and len: "length (Frames (warpedVideo st')) = length (Frames ov)"
    and widths: "list_all (\<lambda>f. length f = FrameWidth ov) (Frames (warpedVideo st'))"
    and edges: "\<forall>i<length (Frames ov). \<forall>t\<in>set (ITris (m ov)).
              tri_edges (Frames (warpedVideo st') ! i) t = tri_edges (Frames ov ! i) t"
    using copy_source_frames [OF init wfo wfw tris frames nd ex] by blast
  have "\<exists>d. Frames (warpedVideo st') ! i = map (\<lambda>p. p + d) (Frames ov ! i)"
    if i: "i < length (Frames ov)" for i
  proof (rule translate_from_edges [OF tris(2) conn(1)])
    have lo: "length (Frames ov ! i) = FrameWidth ov" using video_wf_nth [OF wfo i] .
    show "tris_cover (length (Frames ov ! i)) (ITris (m ov))" using conn(2) lo by simp
    show "tris_in_range (length (Frames ov ! i)) (ITris (m ov))" using tris(3) lo by simp
    show "length (Frames (warpedVideo st') ! i) = length (Frames ov ! i)"
      using widths len i lo by (simp add: list_all_length)
    show "\<forall>t\<in>set (ITris (m ov)). tri_edges (Frames (warpedVideo st') ! i) t = tri_edges (Frames ov ! i) t"
      using edges i by blast
  qed
  then show ?thesis using run len by blast
qed

text \<open>
  C4: the solver contract does not determine the output.  In the setting of the claim
  above, if \<open>lsqr\<close> returns an exact solution whenever one exists then so does
  \<open>shift_lsq lsqr\<close>, which adds one to every unknown when that keeps the system solved;
  the two runs both succeed, emit the same number of frames and the same frame 0,
  and every later frame of the second run is the first run's moved by \<open>(1, 1, 1)\<close>.
  Which translate the code emits depends on which least-squares solution \<open>lsqr\<close>
  picks, not on the source motion.
\<close>

theorem transfer_translation_undetermined:
  assumes init: "DeformationTranferer_init ov wv = Inr st"
    and wfo: "video_wf ov" and wfw: "video_wf wv"
    and tris: "ITris (m wv) = ITris (m ov)" "tris_shape (ITris (m ov))"
      "tris_in_range (FrameWidth ov) (ITris (m ov))"
    and frames: "Frames ov \<noteq> []" "Frames wv = map (\<lambda>p. p + c) (Frames ov ! 0) # ws"
    and nd: "list_all (\<lambda>f. nondeg f (ITris (m ov))) (Frames ov)"
    and ex: "lsq_exact lsqr"
  shows "lsq_exact (shift_lsq lsqr) \<and>
         (\<exists>st1 st2. beginDeformationTransfer lsqr st = Inr st1 \<and>
            beginDeformationTransfer (shift_lsq lsqr) st = Inr st2 \<and>
            length (Frames (warpedVideo st1)) = length (Frames ov) \<and>
            Frames (warpedVideo st2) =
              hd (Frames (warpedVideo st1)) # map (map (\<lambda>p. p + Vec3 1 1 1)) (tl (Frames (warpedVideo st1))) \<and>
            (2 \<le> length (Frames ov) \<longrightarrow> 0 < FrameWidth ov \<longrightarrow> Frames (warpedVideo st2) \<noteq> Frames (warpedVideo st1)))"
proof -
  note s = copy_source_setup [OF init wfo wfw tris frames nd]
  define o4 where "o4 = Frames ov ! 0 @ map (vertex4 (Frames ov ! 0)) (ITris (m ov))"
  obtain out where out: "transfer_loop lsqr st o4 (map (\<lambda>p. p + c) o4) (tl (Frames ov)) = Inr out"
    and outd0: "transfer_loop (shift_lsq lsqr) st o4 (map (\<lambda>p. p + 0) (map (\<lambda>p. p + c) o4)) (tl (Frames ov)) =
                 Inr (map (map (\<lambda>p. p + Vec3 1 1 1)) out)"
    using transfer_loop_shift [OF s(1-4) ex s(6,7) s(8,9) s(10), of 0] unfolding o4_def by blast
  have outd: "transfer_loop (shift_lsq lsqr) st o4 (map (\<lambda>p. p + c) o4) (tl (Frames ov)) =
                 Inr (map (map (\<lambda>p. p + Vec3 1 1 1)) out)"
    using outd0 by (simp only: add_0_right map_ident)
  have lout: "length out = length (tl (Frames ov))" and wout: "list_all (\<lambda>f. length f = NVertices st) out"
    using transfer_loop_shape [OF out] by simp_all
  have NV: "NVertices st = FrameWidth ov"
    using DeformationTranferer_init_fields [OF init] by simp
  have differ: "map (map (\<lambda>p. p + Vec3 1 1 1)) out \<noteq> out"
    if two: "2 \<le> length (Frames ov)" and pos: "0 < FrameWidth ov"
  proof -
    obtain g out' where o: "out = g # out'" and g: "length g = FrameWidth ov"
      using two lout wout NV by (cases out) auto
    have "g \<noteq> []" using g pos by auto
    then show ?thesis
      using o map_shift_ne [of g] by auto
  qed
  show ?thesis
    using lsq_exact_shift_lsq [OF ex] s(11) [of lsqr] s(11) [of "shift_lsq lsqr"] out outd lout frames(1) differ
    by (simp add: o4_def)
qed

text \<open>
  C3: a static source leaves the target as it is.  When every source frame equals the
  source's reference pose, both reference poses are non-degenerate on the shared
  triangles and the solver is exact, \<open>beginDeformationTransfer\<close> succeeds and every
  output frame has, triangle by triangle, the edge vectors of the target's reference
  pose: each step's source gradient is the identity and the target does not deform.
\<close>

theorem transfer_static_source_keeps_target:
  assumes init: "DeformationTranferer_init ov wv = Inr st"
    and wfo: "video_wf ov" and wfw: "video_wf wv"
    and tris: "ITris (m wv) = ITris (m ov)" "tris_shape (ITris (m ov))"
      "tris_in_range (FrameWidth ov) (ITris (m ov))"
    and frames: "Frames ov = f # fs" "list_all (\<lambda>g. g = f) fs" "Frames wv \<noteq> []"
    and nd: "nondeg f (ITris (m ov))" "nondeg (Frames wv ! 0) (ITris (m ov))"
    and ex: "lsq_exact lsqr"
  shows "\<exists>st'. beginDeformationTransfer lsqr st = Inr st' \<and>
           length (Frames (warpedVideo st')) = length (Frames ov) \<and>
           (\<forall>i<length (Frames ov). \<forall>t\<in>set (ITris (m ov)).
              tri_edges (Frames (warpedVideo st') ! i) t = tri_edges (Frames wv ! 0) t)"
proof -
  define T where "T = ITris (m ov)"
  define w0 where "w0 = Frames wv ! 0"
  define W0 where "W0 = w0 @ map (vertex4 w0) T"
  have wf: "transferer_wf st" using DeformationTranferer_init_wf [OF init wfo wfw] .
  have fld: "origFrames st = Frames ov" "warpedFrames st = Frames wv" "NVertices st = FrameWidth ov"
    "origTris st = T" "warpedTris st = T" "origTris4 st = tris4_of T (FrameWidth ov)"
    "NVertices4 st = FrameWidth ov + length T"
    using DeformationTranferer_init_fields [OF init] tris(1) by (simp_all add: T_def)
  have FW: "FrameWidth wv = FrameWidth ov"
    using init by (auto simp: DeformationTranferer_init_eq split: if_splits)
  have lf: "length f = FrameWidth ov" using video_wf_nth [OF wfo, of 0] frames(1) by simp
  have lw0: "length w0 = FrameWidth ov" using video_wf_nth [OF wfw, of 0] frames(3) FW by (simp add: w0_def)
  have rangeT: "tris_in_range (FrameWidth ov) T" using tris(3) by (simp add: T_def)
  have run: "beginDeformationTransfer lsqr st =
           bindE (transfer_loop lsqr st (f @ map (vertex4 f) T) W0 fs) (\<lambda>rest.
             Inr (st\<lparr>warpedVideo := (warpedVideo st)\<lparr>Frames := w0 # rest\<rparr>\<rparr>))"
    using beginDeformationTransfer_loop [OF wf, of lsqr] frames fld rangeT by (simp add: W0_def w0_def)
  have inv: "frames_invertible W0 (origTris4 st)"
    using extended_frames_invertible [of T w0] tris(2) rangeT nd(2) lw0 fld
    by (simp add: W0_def w0_def T_def)
  have lW0: "length W0 = NVertices4 st" using lw0 fld by (simp add: W0_def)
  obtain out where out: "transfer_loop lsqr st (f @ map (vertex4 f) T) W0 fs = Inr out"
    and lout: "length out = length fs"
    and edges: "\<forall>i<length fs. \<forall>t\<in>set T. tri_edges (out ! i) t = tri_edges w0 t"
    using transfer_loop_static [of st lsqr f w0 W0 fs] wf ex tris fld lf lw0 inv lW0 frames(2) nd(1)
    by (auto simp: T_def W0_def)
  show ?thesis
    using run out lout edges frames(1)
    by (auto simp: nth_Cons w0_def T_def split: nat.splits)
qed

text \<open>The scenario of the spec's section 8: a quad of two triangles sharing the edge
  from vertex 0 to vertex 1 is both source and target; in frame 1 the source folds
  vertex 3 by 90 degrees about that edge, and in frame 2 it unfolds it again.  The target
  folds and unfolds the same way.\<close>

theorem transfer_follows_source_witness:
  "\<exists>st st'. DeformationTranferer_init
       \<lparr>Frames = [[Vec3 0 0 0, Vec3 1 0 0, Vec3 0 1 0, Vec3 0 (- 1) 0], [Vec3 0 0 0, Vec3 1 0 0, Vec3 0 1 0, Vec3 0 0 (- 1)], [Vec3 0 0 0, Vec3 1 0 0, Vec3 0 1 0, Vec3 0 (- 1) 0]],
        FrameWidth = 4, m = \<lparr>VPos = [Vec3 0 0 0, Vec3 1 0 0, Vec3 0 1 0, Vec3 0 (- 1) 0], ITris = [[0, 1, 2], [0, 3, 1]], needsDisplayUpdate = False\<rparr>\<rparr>
       \<lparr>Frames = [[Vec3 0 0 0, Vec3 1 0 0, Vec3 0 1 0, Vec3 0 (- 1) 0]],
        FrameWidth = 4, m = \<lparr>VPos = [Vec3 0 0 0, Vec3 1 0 0, Vec3 0 1 0, Vec3 0 (- 1) 0], ITris = [[0, 1, 2], [0, 3, 1]], needsDisplayUpdate = False\<rparr>\<rparr> = Inr st \<and>
     beginDeformationTransfer exact_lsq st = Inr st' \<and>
     length (Frames (warpedVideo st')) = 3 \<and>
     tri_edges (Frames (warpedVideo st') ! 1) [0, 3, 1] = (Vec3 0 0 (- 1), Vec3 1 0 0) \<and>
     tri_edges (Frames (warpedVideo st') ! 2) [0, 3, 1] = (Vec3 0 (- 1) 0, Vec3 1 0 0)"
proof -
  define ov where "ov = \<lparr>Frames = [[Vec3 0 0 0, Vec3 1 0 0, Vec3 0 1 0, Vec3 0 (- 1) 0], [Vec3 0 0 0, Vec3 1 0 0, Vec3 0 1 0, Vec3 0 0 (- 1)], [Vec3 0 0 0, Vec3 1 0 0, Vec3 0 1 0, Vec3 0 (- 1) 0]],
        FrameWidth = 4, m = \<lparr>VPos = [Vec3 0 0 0, Vec3 1 0 0, Vec3 0 1 0, Vec3 0 (- 1) 0], ITris = [[0::nat, 1, 2], [0, 3, 1]], needsDisplayUpdate = False\<rparr>\<rparr>"
  define wv where "wv = \<lparr>Frames = [[Vec3 0 0 0, Vec3 1 0 0, Vec3 0 1 0, Vec3 0 (- 1) 0]],
        FrameWidth = 4, m = \<lparr>VPos = [Vec3 0 0 0, Vec3 1 0 0, Vec3 0 1 0, Vec3 0 (- 1) 0], ITris = [[0::nat, 1, 2], [0, 3, 1]], needsDisplayUpdate = False\<rparr>\<rparr>"
  obtain st where init: "DeformationTranferer_init ov wv = Inr st"
    by (simp add: DeformationTranferer_init_eq ov_def wv_def)
  have "\<exists>st'. beginDeformationTransfer exact_lsq st = Inr st' \<and>
           length (Frames (warpedVideo st')) = length (Frames ov) \<and>
           (\<forall>i<length (Frames ov). \<forall>t\<in>set (ITris (m ov)).
              tri_edges (Frames (warpedVideo st') ! i) t = tri_edges (Frames ov ! i) t)"
    by (rule transfer_follows_source [OF init, of "Vec3 0 0 0" "[]"])
       (simp_all add: ov_def wv_def video_wf_def tris_shape_def nondeg_def face_normal_def
          lsq_exact_exact_lsq)
  then obtain st' where run: "beginDeformationTransfer exact_lsq st = Inr st'"
    and len: "length (Frames (warpedVideo st')) = 3"
    and e1: "tri_edges (Frames (warpedVideo st') ! 1) [0, 3, 1] = tri_edges (Frames ov ! 1) [0, 3, 1]"
    and e2: "tri_edges (Frames (warpedVideo st') ! 2) [0, 3, 1] = tri_edges (Frames ov ! 2) [0, 3, 1]"
    by (auto simp: ov_def)
  have "tri_edges (Frames ov ! 1) [0, 3, 1] = (Vec3 0 0 (- 1), Vec3 1 0 0)"
    "tri_edges (Frames ov ! 2) [0, 3, 1] = (Vec3 0 (- 1) 0, Vec3 1 0 0)"
    by (simp_all add: ov_def tri_edges_def)
  with init run len e1 e2 show ?thesis
    unfolding ov_def wv_def by auto
qed

text \<open>On the spec's quad, each transferred frame is the source frame moved by one vector.\<close>

theorem transfer_follows_source_rigid_witness:
  "\<exists>st st'. DeformationTranferer_init
       \<lparr>Frames = [[Vec3 0 0 0, Vec3 1 0 0, Vec3 0 1 0, Vec3 0 (- 1) 0], [Vec3 0 0 0, Vec3 1 0 0, Vec3 0 1 0, Vec3 0 0 (- 1)], [Vec3 0 0 0, Vec3 1 0 0, Vec3 0 1 0, Vec3 0 (- 1) 0]],
        FrameWidth = 4, m = \<lparr>VPos = [Vec3 0 0 0, Vec3 1 0 0, Vec3 0 1 0, Vec3 0 (- 1) 0], ITris = [[0, 1, 2], [0, 3, 1]], needsDisplayUpdate = False\<rparr>\<rparr>
       \<lparr>Frames = [[Vec3 0 0 0, Vec3 1 0 0, Vec3 0 1 0, Vec3 0 (- 1) 0]],
        FrameWidth = 4, m = \<lparr>VPos = [Vec3 0 0 0, Vec3 1 0 0, Vec3 0 1 0, Vec3 0 (- 1) 0], ITris = [[0, 1, 2], [0, 3, 1]], needsDisplayUpdate = False\<rparr>\<rparr> = Inr st \<and>
     beginDeformationTransfer exact_lsq st = Inr st' \<and>
     (\<exists>d. Frames (warpedVideo st') ! 1 = map (\<lambda>p. p + d) [Vec3 0 0 0, Vec3 1 0 0, Vec3 0 1 0, Vec3 0 0 (- 1)])"
proof -
  define ov where "ov = \<lparr>Frames = [[Vec3 0 0 0, Vec3 1 0 0, Vec3 0 1 0, Vec3 0 (- 1) 0], [Vec3 0 0 0, Vec3 1 0 0, Vec3 0 1 0, Vec3 0 0 (- 1)], [Vec3 0 0 0, Vec3 1 0 0, Vec3 0 1 0, Vec3 0 (- 1) 0]],
        FrameWidth = 4, m = \<lparr>VPos = [Vec3 0 0 0, Vec3 1 0 0, Vec3 0 1 0, Vec3 0 (- 1) 0], ITris = [[0::nat, 1, 2], [0, 3, 1]], needsDisplayUpdate = False\<rparr>\<rparr>"
  define wv where "wv = \<lparr>Frames = [[Vec3 0 0 0, Vec3 1 0 0, Vec3 0 1 0, Vec3 0 (- 1) 0]],
        FrameWidth = 4, m = \<lparr>VPos = [Vec3 0 0 0, Vec3 1 0 0, Vec3 0 1 0, Vec3 0 (- 1) 0], ITris = [[0::nat, 1, 2], [0, 3, 1]], needsDisplayUpdate = False\<rparr>\<rparr>"
  obtain st where init: "DeformationTranferer_init ov wv = Inr st"
    by (simp add: DeformationTranferer_init_eq ov_def wv_def)
  have "\<exists>st'. beginDeformationTransfer exact_lsq st = Inr st' \<and>
           length (Frames (warpedVideo st')) = length (Frames ov) \<and>
           (\<forall>i<length (Frames ov). \<exists>d. Frames (warpedVideo st') ! i = map (\<lambda>p. p + d) (Frames ov ! i))"
    by (rule transfer_follows_source_rigid [OF init, of "Vec3 0 0 0" "[]"])
       (simp_all add: ov_def wv_def video_wf_def tris_shape_def nondeg_def face_normal_def
          lsq_exact_exact_lsq tris_connected_def tris_cover_def list_all_upt all_less_four)
  then show ?thesis
    using init unfolding ov_def wv_def by fastforce
qed

text \<open>On the quad of the spec's section 8, the exact solver \<open>exact_lsq\<close> and its shift
  emit different videos.\<close>

theorem transfer_translation_undetermined_witness:
  "\<exists>st st1 st2. DeformationTranferer_init
       \<lparr>Frames = [[Vec3 0 0 0, Vec3 1 0 0, Vec3 0 1 0, Vec3 0 (- 1) 0], [Vec3 0 0 0, Vec3 1 0 0, Vec3 0 1 0, Vec3 0 0 (- 1)], [Vec3 0 0 0, Vec3 1 0 0, Vec3 0 1 0, Vec3 0 (- 1) 0]],
        FrameWidth = 4, m = \<lparr>VPos = [Vec3 0 0 0, Vec3 1 0 0, Vec3 0 1 0, Vec3 0 (- 1) 0], ITris = [[0, 1, 2], [0, 3, 1]], needsDisplayUpdate = False\<rparr>\<rparr>
       \<lparr>Frames = [[Vec3 0 0 0, Vec3 1 0 0, Vec3 0 1 0, Vec3 0 (- 1) 0]],
        FrameWidth = 4, m = \<lparr>VPos = [Vec3 0 0 0, Vec3 1 0 0, Vec3 0 1 0, Vec3 0 (- 1) 0], ITris = [[0, 1, 2], [0, 3, 1]], needsDisplayUpdate = False\<rparr>\<rparr> = Inr st \<and>
     lsq_exact (shift_lsq exact_lsq) \<and>
     beginDeformationTransfer exact_lsq st = Inr st1 \<and>
     beginDeformationTransfer (shift_lsq exact_lsq) st = Inr st2 \<and>
     Frames (warpedVideo st2) \<noteq> Frames (warpedVideo st1)"
proof -
  define ov where "ov = \<lparr>Frames = [[Vec3 0 0 0, Vec3 1 0 0, Vec3 0 1 0, Vec3 0 (- 1) 0], [Vec3 0 0 0, Vec3 1 0 0, Vec3 0 1 0, Vec3 0 0 (- 1)], [Vec3 0 0 0, Vec3 1 0 0, Vec3 0 1 0, Vec3 0 (- 1) 0]],
        FrameWidth = 4, m = \<lparr>VPos = [Vec3 0 0 0, Vec3 1 0 0, Vec3 0 1 0, Vec3 0 (- 1) 0], ITris = [[0::nat, 1, 2], [0, 3, 1]], needsDisplayUpdate = False\<rparr>\<rparr>"
  define wv where "wv = \<lparr>Frames = [[Vec3 0 0 0, Vec3 1 0 0, Vec3 0 1 0, Vec3 0 (- 1) 0]],
        FrameWidth = 4, m = \<lparr>VPos = [Vec3 0 0 0, Vec3 1 0 0, Vec3 0 1 0, Vec3 0 (- 1) 0], ITris = [[0::nat, 1, 2], [0, 3, 1]], needsDisplayUpdate = False\<rparr>\<rparr>"
  obtain st where init: "DeformationTranferer_init ov wv = Inr st"
    by (simp add: DeformationTranferer_init_eq ov_def wv_def)
  have "lsq_exact (shift_lsq exact_lsq) \<and>
         (\<exists>st1 st2. beginDeformationTransfer exact_lsq st = Inr st1 \<and>
            beginDeformationTransfer (shift_lsq exact_lsq) st = Inr st2 \<and>
            length (Frames (warpedVideo st1)) = length (Frames ov) \<and>
            Frames (warpedVideo st2) =
              hd (Frames (warpedVideo st1)) # map (map (\<lambda>p. p + Vec3 1 1 1)) (tl (Frames (warpedVideo st1))) \<and>
            (2 \<le> length (Frames ov) \<longrightarrow> 0 < FrameWidth ov \<longrightarrow> Frames (warpedVideo st2) \<noteq> Frames (warpedVideo st1)))"
    by (rule transfer_translation_undetermined [OF init, of "Vec3 0 0 0" "[]"])
       (simp_all add: ov_def wv_def video_wf_def tris_shape_def nondeg_def face_normal_def
          lsq_exact_exact_lsq)
  then show ?thesis
    using init unfolding ov_def wv_def by auto
qed

text \<open>A source that stands still for two frames; the target is a different triangle,
  which keeps its shape.\<close>

theorem transfer_static_source_keeps_target_witness:
  "\<exists>st st'. DeformationTranferer_init
       \<lparr>Frames = [[Vec3 0 0 0, Vec3 1 0 0, Vec3 0 1 0], [Vec3 0 0 0, Vec3 1 0 0, Vec3 0 1 0]],
        FrameWidth = 3, m = \<lparr>VPos = [Vec3 0 0 0, Vec3 1 0 0, Vec3 0 1 0], ITris = [[0, 1, 2]], needsDisplayUpdate = False\<rparr>\<rparr>
       \<lparr>Frames = [[Vec3 0 0 0, Vec3 2 0 0, Vec3 0 3 0]],
        FrameWidth = 3, m = \<lparr>VPos = [Vec3 0 0 0, Vec3 2 0 0, Vec3 0 3 0], ITris = [[0, 1, 2]], needsDisplayUpdate = False\<rparr>\<rparr> = Inr st \<and>
     beginDeformationTransfer exact_lsq st = Inr st' \<and>
     length (Frames (warpedVideo st')) = 2 \<and>
     tri_edges (Frames (warpedVideo st') ! 1) [0, 1, 2] = (Vec3 2 0 0, Vec3 0 3 0)"
proof -
  define ov where "ov = \<lparr>Frames = [[Vec3 0 0 0, Vec3 1 0 0, Vec3 0 1 0], [Vec3 0 0 0, Vec3 1 0 0, Vec3 0 1 0]],
        FrameWidth = 3, m = \<lparr>VPos = [Vec3 0 0 0, Vec3 1 0 0, Vec3 0 1 0], ITris = [[0::nat, 1, 2]], needsDisplayUpdate = False\<rparr>\<rparr>"
  define wv where "wv = \<lparr>Frames = [[Vec3 0 0 0, Vec3 2 0 0, Vec3 0 3 0]],
        FrameWidth = 3, m = \<lparr>VPos = [Vec3 0 0 0, Vec3 2 0 0, Vec3 0 3 0], ITris = [[0::nat, 1, 2]], needsDisplayUpdate = False\<rparr>\<rparr>"
  obtain st where init: "DeformationTranferer_init ov wv = Inr st"
    by (simp add: DeformationTranferer_init_eq ov_def wv_def)
  have "\<exists>st'. beginDeformationTransfer exact_lsq st = Inr st' \<and>
           length (Frames (warpedVideo st')) = length (Frames ov) \<and>
           (\<forall>i<length (Frames ov). \<forall>t\<in>set (ITris (m ov)).
              tri_edges (Frames (warpedVideo st') ! i) t = tri_edges (Frames wv ! 0) t)"
    by (rule transfer_static_source_keeps_target [OF init, of "[Vec3 0 0 0, Vec3 1 0 0, Vec3 0 1 0]"
          "[[Vec3 0 0 0, Vec3 1 0 0, Vec3 0 1 0]]"])
       (simp_all add: ov_def wv_def video_wf_def tris_shape_def nondeg_def face_normal_def
          lsq_exact_exact_lsq)
  then obtain st' where run: "beginDeformationTransfer exact_lsq st = Inr st'"
    and len: "length (Frames (warpedVideo st')) = 2"
    and e: "tri_edges (Frames (warpedVideo st') ! 1) [0, 1, 2] = tri_edges (Frames wv ! 0) [0, 1, 2]"
    by (auto simp: ov_def)
  have "tri_edges (Frames wv ! 0) [0, 1, 2] = (Vec3 2 0 0, Vec3 0 3 0)"
    by (simp add: wv_def tri_edges_def)
  with init run len e show ?thesis
    unfolding ov_def wv_def by auto
qed

text \<open>
  C21: the synthetic vertices the loop carries over are not the recomputed ones.
  After a step, the code keeps the solved fourth vertices in \<open>warpedOldVPos4\<close>
  (lines 147--149) instead of extending the emitted frame again with
  \<open>getVPos4\<close>.  On one triangle in the \<open>xz\<close> plane, under a source shear in the
  \<open>xy\<close> plane, every exact solver gives a solved fourth edge \<open>(-1, -1, 0)\<close> of length
  \<open>\<surd>2\<close>, while extending the emitted frame gives its unit normal \<open>(0, -1, 0)\<close>: the two
  policies that the spec calls numerically equivalent differ.
\<close>

theorem solved_fourth_vertex_not_recomputed:
  assumes ex: "lsq_exact lsqr"
  shows "\<exists>st w4'. DeformationTranferer_init
       \<lparr>Frames = [[Vec3 0 0 0, Vec3 1 0 0, Vec3 0 1 0], [Vec3 0 0 0, Vec3 1 0 0, Vec3 1 1 0]],
        FrameWidth = 3, m = \<lparr>VPos = [Vec3 0 0 0, Vec3 1 0 0, Vec3 0 1 0], ITris = [[0, 1, 2]], needsDisplayUpdate = False\<rparr>\<rparr>
       \<lparr>Frames = [[Vec3 0 0 0, Vec3 1 0 0, Vec3 0 0 1]],
        FrameWidth = 3, m = \<lparr>VPos = [Vec3 0 0 0, Vec3 1 0 0, Vec3 0 0 1], ITris = [[0, 1, 2]], needsDisplayUpdate = False\<rparr>\<rparr> = Inr st \<and>
     transfer_step lsqr st [Vec3 0 0 0, Vec3 1 0 0, Vec3 0 1 0, Vec3 0 0 1]
        [Vec3 0 0 0, Vec3 1 0 0, Vec3 0 0 1, Vec3 0 (- 1) 0] [Vec3 0 0 0, Vec3 1 0 0, Vec3 1 1 0] =
       Inr ([Vec3 0 0 0, Vec3 1 0 0, Vec3 1 1 0, Vec3 0 0 1], w4') \<and>
     w4' ! 3 - w4' ! 0 = Vec3 (- 1) (- 1) 0 \<and>
     vertex4 (take 3 w4') [0, 1, 2] - w4' ! 0 = Vec3 0 (- 1) 0"
proof -
  define ov where "ov = \<lparr>Frames = [[Vec3 0 0 0, Vec3 1 0 0, Vec3 0 1 0], [Vec3 0 0 0, Vec3 1 0 0, Vec3 1 1 0]],
        FrameWidth = 3, m = \<lparr>VPos = [Vec3 0 0 0, Vec3 1 0 0, Vec3 0 1 0], ITris = [[0::nat, 1, 2]], needsDisplayUpdate = False\<rparr>\<rparr>"
  define wv where "wv = \<lparr>Frames = [[Vec3 0 0 0, Vec3 1 0 0, Vec3 0 0 1]],
        FrameWidth = 3, m = \<lparr>VPos = [Vec3 0 0 0, Vec3 1 0 0, Vec3 0 0 1], ITris = [[0::nat, 1, 2]], needsDisplayUpdate = False\<rparr>\<rparr>"
  obtain st where init: "DeformationTranferer_init ov wv = Inr st"
    by (simp add: DeformationTranferer_init_eq ov_def wv_def)
  have wf: "transferer_wf st"
    using DeformationTranferer_init_wf [OF init] by (simp add: ov_def wv_def video_wf_def)
  have fld: "origTris st = [[0, 1, 2]]" "warpedTris st = [[0, 1, 2]]" "NVertices st = 3"
    "NVertices4 st = 4" "origTris4 st = [[0, 1, 2, 3]]"
    using DeformationTranferer_init_fields [OF init] by (simp_all add: ov_def wv_def tris4_of_def)
  have "\<exists>w4'. transfer_step lsqr st [Vec3 0 0 0, Vec3 1 0 0, Vec3 0 1 0, Vec3 0 0 1]
        [Vec3 0 0 0, Vec3 1 0 0, Vec3 0 0 1, Vec3 0 (- 1) 0] [Vec3 0 0 0, Vec3 1 0 0, Vec3 1 1 0] =
         Inr ([Vec3 0 0 0, Vec3 1 0 0, Vec3 1 1 0] @ map (vertex4 [Vec3 0 0 0, Vec3 1 0 0, Vec3 1 1 0]) (origTris st), w4') \<and>
       length w4' = NVertices4 st \<and>
       frames_agree w4' [Vec3 0 0 0, Vec3 1 0 0, Vec3 0 0 1, Vec3 (- 1) (- 1) 0] (origTris4 st) \<and>
       frames_invertible ([Vec3 0 0 0, Vec3 1 0 0, Vec3 1 1 0] @ map (vertex4 [Vec3 0 0 0, Vec3 1 0 0, Vec3 1 1 0]) (origTris st)) (origTris4 st)"
    by (rule transfer_step_exact [OF wf _ _ _ ex])
       (simp_all add: fld tris_shape_def frames_invertible_def edge_mat_def det3_cols3 nondeg_def
          face_normal_def minv_def cols3_def vertex4_def vnorm_def)
  then obtain w4' where step: "transfer_step lsqr st [Vec3 0 0 0, Vec3 1 0 0, Vec3 0 1 0, Vec3 0 0 1]
        [Vec3 0 0 0, Vec3 1 0 0, Vec3 0 0 1, Vec3 0 (- 1) 0] [Vec3 0 0 0, Vec3 1 0 0, Vec3 1 1 0] =
         Inr ([Vec3 0 0 0, Vec3 1 0 0, Vec3 1 1 0, Vec3 0 0 1], w4')"
    and len: "length w4' = 4"
    and agree: "frames_agree w4' [Vec3 0 0 0, Vec3 1 0 0, Vec3 0 0 1, Vec3 (- 1) (- 1) 0] [[0, 1, 2, 3]]"
    by (auto simp: fld vertex4_def face_normal_def vnorm_def)
  from agree have e: "w4' ! 1 - w4' ! 0 = Vec3 1 0 0" "w4' ! 2 - w4' ! 0 = Vec3 0 0 1"
    "w4' ! 3 - w4' ! 0 = Vec3 (- 1) (- 1) 0"
    by (simp_all add: frames_agree_def edge_mat_eq_iff)
  have "vertex4 (take 3 w4') [0, 1, 2] - w4' ! 0 =
          vdiv (cross (w4' ! 1 - w4' ! 0) (w4' ! 2 - w4' ! 0)) (vnorm (cross (w4' ! 1 - w4' ! 0) (w4' ! 2 - w4' ! 0)))"
    using len by (simp add: vertex4_def face_normal_def)
  also have "\<dots> = Vec3 0 (- 1) 0"
    using e by (simp add: vnorm_def One_nat_def)
  finally show ?thesis
    using init step e(3) unfolding ov_def wv_def by blast
qed

theorem solved_fourth_vertex_not_recomputed_witness:
  "\<exists>st w4'. DeformationTranferer_init
       \<lparr>Frames = [[Vec3 0 0 0, Vec3 1 0 0, Vec3 0 1 0], [Vec3 0 0 0, Vec3 1 0 0, Vec3 1 1 0]],
        FrameWidth = 3, m = \<lparr>VPos = [Vec3 0 0 0, Vec3 1 0 0, Vec3 0 1 0], ITris = [[0, 1, 2]], needsDisplayUpdate = False\<rparr>\<rparr>
       \<lparr>Frames = [[Vec3 0 0 0, Vec3 1 0 0, Vec3 0 0 1]],
        FrameWidth = 3, m = \<lparr>VPos = [Vec3 0 0 0, Vec3 1 0 0, Vec3 0 0 1], ITris = [[0, 1, 2]], needsDisplayUpdate = False\<rparr>\<rparr> = Inr st \<and>
     transfer_step exact_lsq st [Vec3 0 0 0, Vec3 1 0 0, Vec3 0 1 0, Vec3 0 0 1]
        [Vec3 0 0 0, Vec3 1 0 0, Vec3 0 0 1, Vec3 0 (- 1) 0] [Vec3 0 0 0, Vec3 1 0 0, Vec3 1 1 0] =
       Inr ([Vec3 0 0 0, Vec3 1 0 0, Vec3 1 1 0, Vec3 0 0 1], w4') \<and>
     w4' ! 3 - w4' ! 0 = Vec3 (- 1) (- 1) 0 \<and>
     vertex4 (take 3 w4') [0, 1, 2] - w4' ! 0 = Vec3 0 (- 1) 0"
  using solved_fourth_vertex_not_recomputed [OF lsq_exact_exact_lsq] .

end
